theory Spec2Isabelle
  imports Complex_Main "HOL-Library.Word" "HOL-Library.Multiset"
begin

section \<open>Single-precision floating point\<close>

text \<open>
  The diagnostics code computes in C++ \<^verbatim>\<open>float\<close>. A \<^verbatim>\<open>float\<close> is modelled as an IEEE 754
  binary32 value: a finite real number, the negative zero, an infinity or a NaN.
  \<open>Finite 0\<close> is the zero with the positive sign, \<open>NegZero\<close> the zero with the negative
  sign; the two compare equal and are told apart by the sign of \<^verbatim>\<open>1 / x\<close>, by the text
  that \<^verbatim>\<open>%g\<close> prints and by which of two equal operands a conditional expression
  returns. Every arithmetic operation rounds its exact result to the nearest binary32
  number, ties to even, overflows to an infinity and gives a zero its IEEE sign.
\<close>

datatype float = Finite real | NegZero | PosInf | NegInf | NaN

definition flt_max :: real where
  "flt_max = (2 ^ 24 - 1) * 2 ^ 104"

definition flt_min :: real where
  "flt_min = 2 powi (-126)"

definition flt_epsilon :: real where
  "flt_epsilon = 2 powi (-23)"

definition FLT_MAX :: float where
  "FLT_MAX = Finite flt_max"

definition FLT_MIN :: float where
  "FLT_MIN = Finite flt_min"

definition FLT_EPSILON :: float where
  "FLT_EPSILON = Finite flt_epsilon"

text \<open>Rounding a real to the nearest integer, ties to the even one.\<close>

definition rne :: "real \<Rightarrow> int" where
  "rne v = (let f = \<lfloor>v\<rfloor>; d = v - of_int f in
      if d < 1 / 2 then f else if 1 / 2 < d then f + 1 else if even f then f else f + 1)"

text \<open>
  The binade of \<open>v\<close> is the exponent \<open>e\<close> with \<^verbatim>\<open>2^e <= |v| < 2^(e+1)\<close>, searched upwards
  from the smallest normal exponent \<open>-126\<close>, which the subnormal numbers share. The
  binary32 numbers of binade \<open>e\<close> are the multiples of \<^verbatim>\<open>2^(e-23)\<close>.
\<close>

fun binade_from :: "nat \<Rightarrow> int \<Rightarrow> real \<Rightarrow> int" where
  "binade_from 0 e v = e"
| "binade_from (Suc n) e v = (if \<bar>v\<bar> < 2 powi (e + 1) then e else binade_from n (e + 1) v)"

definition binade :: "real \<Rightarrow> int" where
  "binade v = binade_from 254 (-126) v"

definition round_to_float :: "real \<Rightarrow> real" where
  "round_to_float v = (let q = 2 powi (binade v - 23) in q * of_int (rne (v / q)))"

text \<open>
  The float of an exact result \<open>v\<close>; \<open>neg\<close> is the sign that a zero result takes. A
  result that is not zero keeps its own sign, also when it rounds to zero.
\<close>

definition signed_zero :: "bool \<Rightarrow> float" where
  "signed_zero neg = (if neg then NegZero else Finite 0)"

definition fls :: "bool \<Rightarrow> real \<Rightarrow> float" where
  "fls neg v = (let r = round_to_float v in
           if flt_max < r then PosInf else if r < - flt_max then NegInf
           else if r = 0 then signed_zero (if v = 0 then neg else v < 0) else Finite r)"

definition fl :: "real \<Rightarrow> float" where
  "fl v = fls False v"

text \<open>The number, the sign bit and the class of a float.\<close>

fun realOf :: "float \<Rightarrow> real" where
  "realOf (Finite a) = a"
| "realOf a = 0"

fun is_neg :: "float \<Rightarrow> bool" where
  "is_neg (Finite a) = (a < 0)"
| "is_neg NegZero = True"
| "is_neg NegInf = True"
| "is_neg PosInf = False"
| "is_neg NaN = False"

fun isNaN :: "float \<Rightarrow> bool" where
  "isNaN NaN = True"
| "isNaN a = False"

fun isInf :: "float \<Rightarrow> bool" where
  "isInf PosInf = True"
| "isInf NegInf = True"
| "isInf a = False"

fun isNumber :: "float \<Rightarrow> bool" where
  "isNumber (Finite a) = True"
| "isNumber NegZero = True"
| "isNumber a = False"

definition infinity :: "bool \<Rightarrow> float" where
  "infinity neg = (if neg then NegInf else PosInf)"

text \<open>
  A stored value is a finite binary32 number when it is a zero or it is finite and
  rounding leaves it unchanged; it is a plain number when, moreover, it is not the
  negative zero.
\<close>

fun finiteFloat :: "float \<Rightarrow> bool" where
  "finiteFloat (Finite a) = (fl a = Finite a)"
| "finiteFloat NegZero = True"
| "finiteFloat a = False"

fun plainFloat :: "float \<Rightarrow> bool" where
  "plainFloat (Finite a) = (fl a = Finite a)"
| "plainFloat a = False"

text \<open>
  The arithmetic of IEEE 754: a NaN operand gives a NaN; \<open>\<infinity> - \<infinity>\<close>, \<open>0 * \<infinity>\<close>, \<open>0 / 0\<close> and
  \<open>\<infinity> / \<infinity>\<close> are NaN; the sign of a product or quotient is the exclusive or of the signs
  of the operands; a sum of two numbers that is exactly zero is \<open>+0\<close> unless both
  operands are negative zeros.
\<close>

fun fneg :: "float \<Rightarrow> float" where
  "fneg (Finite a) = (if a = 0 then NegZero else Finite (- a))"
| "fneg NegZero = Finite 0"
| "fneg PosInf = NegInf"
| "fneg NegInf = PosInf"
| "fneg NaN = NaN"

definition fadd :: "float \<Rightarrow> float \<Rightarrow> float" where
  "fadd a b =
     (if isNaN a \<or> isNaN b then NaN
      else if isInf a then (if isInf b \<and> is_neg a \<noteq> is_neg b then NaN else a)
      else if isInf b then b
      else fls (is_neg a \<and> is_neg b) (realOf a + realOf b))"

definition fsub :: "float \<Rightarrow> float \<Rightarrow> float" where
  "fsub a b = fadd a (fneg b)"

definition fmul :: "float \<Rightarrow> float \<Rightarrow> float" where
  "fmul a b =
     (if isNaN a \<or> isNaN b then NaN
      else if isInf a \<or> isInf b
        then (if (isNumber a \<and> realOf a = 0) \<or> (isNumber b \<and> realOf b = 0) then NaN
              else infinity (is_neg a \<noteq> is_neg b))
      else fls (is_neg a \<noteq> is_neg b) (realOf a * realOf b))"

definition fdiv :: "float \<Rightarrow> float \<Rightarrow> float" where
  "fdiv a b =
     (if isNaN a \<or> isNaN b then NaN
      else if isInf a then (if isInf b then NaN else infinity (is_neg a \<noteq> is_neg b))
      else if isInf b then signed_zero (is_neg a \<noteq> is_neg b)
      else if realOf b = 0
        then (if realOf a = 0 then NaN else infinity (is_neg a \<noteq> is_neg b))
      else fls (is_neg a \<noteq> is_neg b) (realOf a / realOf b))"

text \<open>
  The comparisons \<^verbatim>\<open><\<close> and \<^verbatim>\<open><=\<close>; every comparison with a NaN is false, and the two
  zeros are equal.
\<close>

fun f_less :: "float \<Rightarrow> float \<Rightarrow> bool" where
  "f_less NaN b = False"
| "f_less a NaN = False"
| "f_less a NegInf = False"
| "f_less PosInf b = False"
| "f_less NegInf b = True"
| "f_less a PosInf = True"
| "f_less a b = (realOf a < realOf b)"

fun f_le :: "float \<Rightarrow> float \<Rightarrow> bool" where
  "f_le NaN b = False"
| "f_le a NaN = False"
| "f_le NegInf b = True"
| "f_le a PosInf = True"
| "f_le a NegInf = False"
| "f_le PosInf b = False"
| "f_le a b = (realOf a \<le> realOf b)"

text \<open>
  Modelled from the spec: the macros \<^verbatim>\<open>MAX2\<close> and \<^verbatim>\<open>MIN2\<close> come from a header that is not
  among the translated sources. The spec reads them as the larger and the smaller of two
  numbers; they are written here as the usual conditional expressions
  \<^verbatim>\<open>(a > b) ? a : b\<close> and \<^verbatim>\<open>(a < b) ? a : b\<close>.
\<close>

definition MAX2 :: "float \<Rightarrow> float \<Rightarrow> float" where
  "MAX2 a b = (if f_less b a then a else b)"

definition MIN2 :: "float \<Rightarrow> float \<Rightarrow> float" where
  "MIN2 a b = (if f_less a b then a else b)"

text \<open>\<^verbatim>\<open>static const float fAlmost256 = 256.0f * ( 1.0f - FLT_EPSILON )\<close>\<close>

definition fAlmost256 :: float where
  "fAlmost256 = fmul (Finite 256) (fsub (Finite 1) FLT_EPSILON)"

section \<open>Errors\<close>

text \<open>
  The ways an execution leaves the defined behaviour of the program, or is aborted by it.
  \<^verbatim>\<open>ASSERT\<close> (from a header outside the translated sources) is modelled as in a debug
  build: a false condition aborts. Converting a NaN, an infinity or a number outside the
  range of \<^verbatim>\<open>int\<close> to \<^verbatim>\<open>int\<close> is undefined, and so is writing through a null
  \<^verbatim>\<open>FILE\<close> pointer, filling a character array beyond its size and reading the contents
  array out of range.
\<close>

datatype error =
  AssertionFailed | NullFileWrite | UndefinedConversion | BufferOverrun | IndexOutOfRange
  | FormatMismatch

definition andThen :: "error + 'a \<Rightarrow> ('a \<Rightarrow> error + 'b) \<Rightarrow> error + 'b" where
  "andThen r f = (case r of Inl e \<Rightarrow> Inl e | Inr v \<Rightarrow> f v)"

definition ASSERT :: "bool \<Rightarrow> error + unit" where
  "ASSERT c = (if c then Inr () else Inl AssertionFailed)"

text \<open>The conversion \<^verbatim>\<open>float\<close> to \<^verbatim>\<open>int\<close> truncates towards zero.\<close>

fun float_to_int :: "float \<Rightarrow> error + int" where
  "float_to_int (Finite v) =
     (if - (2 ^ 31) - 1 < v \<and> v < 2 ^ 31
      then Inr (if 0 \<le> v then \<lfloor>v\<rfloor> else \<lceil>v\<rceil>)
      else Inl UndefinedConversion)"
| "float_to_int NegZero = Inr 0"
| "float_to_int a = Inl UndefinedConversion"

text \<open>The conversion \<^verbatim>\<open>int\<close> to \<^verbatim>\<open>unsigned char\<close> keeps the low eight bits.\<close>

definition to_uchar :: "int \<Rightarrow> 8 word" where
  "to_uchar i = word_of_int i"

text \<open>Arithmetic in \<^verbatim>\<open>unsigned\<close> wraps around at \<^verbatim>\<open>2^32\<close>.\<close>

definition u32 :: "nat \<Rightarrow> nat" where
  "u32 n = n mod 2 ^ 32"

section \<open>Data model\<close>

text \<open>
  \<^verbatim>\<open>Vec3\<close> (Core/Math/vec3.h) is a triple of components \<^verbatim>\<open>x\<close>, \<^verbatim>\<open>y\<close>, \<^verbatim>\<open>z\<close>; a
  \<^verbatim>\<open>Vorton\<close> carries a position and a vorticity. \<^verbatim>\<open>UniformGrid<T>\<close>
  (Space/uniformGrid.h) holds the bounding box, the number of grid points per axis and
  the contiguous array \<^verbatim>\<open>mContents\<close>. The headers are outside the translated sources;
  the fields below are the ones the diagnostics code reads. The corners of the bounding
  box and the stored values are floats.
\<close>

record 'a Vec3 =
  vx :: 'a
  vy :: 'a
  vz :: 'a

record Vorton =
  mPosition :: "float Vec3"
  mVorticity :: "float Vec3"

record 'a UniformGrid =
  mMinCorner :: "float Vec3"
  mMaxCorner :: "float Vec3"
  mNumPoints :: "nat \<times> nat \<times> nat"
  mContents :: "'a list"

definition GetNumPoints :: "'a UniformGrid \<Rightarrow> nat \<Rightarrow> nat" where
  "GetNumPoints g axis =
     (case mNumPoints g of (n0, n1, n2) \<Rightarrow> if axis = 0 then n0 else if axis = 1 then n1 else n2)"

definition GetGridCapacity :: "'a UniformGrid \<Rightarrow> nat" where
  "GetGridCapacity g = GetNumPoints g 0 * GetNumPoints g 1 * GetNumPoints g 2"

text \<open>
  Modelled from the spec: \<^verbatim>\<open>Size\<close> and \<^verbatim>\<open>operator[]\<close> are declared in
  Space/uniformGrid.h, which is not among the translated sources. The spec gives
  \<^verbatim>\<open>Size() -> Capacity\<close> (the total element count) and access by offset into the
  contiguous array; an offset beyond the array is an error of the caller.
\<close>

definition Size :: "'a UniformGrid \<Rightarrow> nat" where
  "Size g = GetGridCapacity g"

definition At :: "'a UniformGrid \<Rightarrow> nat \<Rightarrow> error + 'a" where
  "At g offset =
     (if offset < length (mContents g) then Inr (mContents g ! offset) else Inl IndexOutOfRange)"

text \<open>
  The invariant of the spec's data model: at least two points per axis, as many stored
  values as the product of the point counts, and a capacity that fits \<^verbatim>\<open>unsigned\<close>.
\<close>

definition wellFormed :: "'a UniformGrid \<Rightarrow> bool" where
  "wellFormed g =
     (length (mContents g) = GetGridCapacity g \<and> GetGridCapacity g < 2 ^ 32 \<and>
      2 \<le> GetNumPoints g 0 \<and> 2 \<le> GetNumPoints g 1 \<and> 2 \<le> GetNumPoints g 2)"

definition floatVec :: "float Vec3 \<Rightarrow> bool" where
  "floatVec v =
     (finiteFloat (vx v) \<and> finiteFloat (vy v) \<and> finiteFloat (vz v))"

definition plainVec :: "float Vec3 \<Rightarrow> bool" where
  "plainVec v =
     (plainFloat (vx v) \<and> plainFloat (vy v) \<and> plainFloat (vz v))"

section \<open>Index algebra\<close>

text \<open>
  Modelled from the spec: \<^verbatim>\<open>OffsetFromIndices\<close> is declared in Space/uniformGrid.h, which
  is not among the translated sources. The spec gives the flattening
  \<^verbatim>\<open>offset = ix + numPoints[0]*(iy + numPoints[1]*iz)\<close>.
\<close>

definition OffsetFromIndices :: "'a UniformGrid \<Rightarrow> nat \<times> nat \<times> nat \<Rightarrow> nat" where
  "OffsetFromIndices g idx =
     (case idx of (ix, iy, iz) \<Rightarrow> ix + GetNumPoints g 0 * (iy + GetNumPoints g 1 * iz))"

text \<open>
  Modelled from the spec: \<^verbatim>\<open>IndicesFromOffset\<close> is declared in Space/uniformGrid.h as
  well. The spec calls it the inverse of the row-major flattening with X varying fastest,
  then Y, then Z: the Z index counts whole XY planes, the Y index whole X rows of the
  remainder, the X index is what is left.
\<close>

definition IndicesFromOffset :: "'a UniformGrid \<Rightarrow> nat \<Rightarrow> nat \<times> nat \<times> nat" where
  "IndicesFromOffset g offset =
     (let n0 = GetNumPoints g 0;
          n1 = GetNumPoints g 1;
          iz = offset div (n0 * n1);
          iy = (offset - iz * n0 * n1) div n0;
          ix = offset - n0 * (iy + n1 * iz)
      in (ix, iy, iz))"

definition validIndices :: "'a UniformGrid \<Rightarrow> nat \<times> nat \<times> nat \<Rightarrow> bool" where
  "validIndices g idx =
     (case idx of (ix, iy, iz) \<Rightarrow>
        ix < GetNumPoints g 0 \<and> iy < GetNumPoints g 1 \<and> iz < GetNumPoints g 2)"

text \<open>
  Modelled from the spec: \<^verbatim>\<open>GetCellSpacing\<close>, \<^verbatim>\<open>IndicesOfPosition\<close> and
  \<^verbatim>\<open>OffsetOfPosition\<close> are declared in Space/uniformGrid.h, which is not among the
  translated sources. The spec gives
  \<^verbatim>\<open>cellSpacing[i] = (maxCorner[i]-minCorner[i]) / (numPoints[i]-1)\<close>, the index
  \<^verbatim>\<open>floor((pos - minCorner) / cellSpacing)\<close> per axis, clamped to
  \<^verbatim>\<open>[0, numPoints[axis]-1]\<close>, and
  \<^verbatim>\<open>OffsetOfPosition = OffsetFromIndices(IndicesOfPosition(pos))\<close>. Corners, spacing and
  positions are floats and the formulas are computed in single precision: every
  subtraction and division rounds. The floor of an infinite quotient is clamped as an
  infinite number is; a quotient that is not a number has no index.
\<close>

definition GetCellSpacing :: "'a UniformGrid \<Rightarrow> float Vec3" where
  "GetCellSpacing g =
     \<lparr> vx = fdiv (fsub (vx (mMaxCorner g)) (vx (mMinCorner g))) (fl (real (GetNumPoints g 0 - 1))),
       vy = fdiv (fsub (vy (mMaxCorner g)) (vy (mMinCorner g))) (fl (real (GetNumPoints g 1 - 1))),
       vz = fdiv (fsub (vz (mMaxCorner g)) (vz (mMinCorner g))) (fl (real (GetNumPoints g 2 - 1))) \<rparr>"

fun clampedFloor :: "nat \<Rightarrow> float \<Rightarrow> error + nat" where
  "clampedFloor numPoints (Finite q) = Inr (nat (max 0 (min (int numPoints - 1) \<lfloor>q\<rfloor>)))"
| "clampedFloor numPoints NegZero = Inr 0"
| "clampedFloor numPoints PosInf = Inr (numPoints - 1)"
| "clampedFloor numPoints NegInf = Inr 0"
| "clampedFloor numPoints NaN = Inl UndefinedConversion"

definition axisIndex :: "float \<Rightarrow> float \<Rightarrow> nat \<Rightarrow> float \<Rightarrow> error + nat" where
  "axisIndex minCorner cellSpacing numPoints pos =
     clampedFloor numPoints (fdiv (fsub pos minCorner) cellSpacing)"

definition IndicesOfPosition :: "'a UniformGrid \<Rightarrow> float Vec3 \<Rightarrow> error + nat \<times> nat \<times> nat" where
  "IndicesOfPosition g pos =
     andThen (axisIndex (vx (mMinCorner g)) (vx (GetCellSpacing g)) (GetNumPoints g 0) (vx pos))
       (\<lambda>ix.
     andThen (axisIndex (vy (mMinCorner g)) (vy (GetCellSpacing g)) (GetNumPoints g 1) (vy pos))
       (\<lambda>iy.
     andThen (axisIndex (vz (mMinCorner g)) (vz (GetCellSpacing g)) (GetNumPoints g 2) (vz pos))
       (\<lambda>iz.
     Inr (ix, iy, iz))))"

definition OffsetOfPosition :: "'a UniformGrid \<Rightarrow> float Vec3 \<Rightarrow> error + nat" where
  "OffsetOfPosition g pos =
     andThen (IndicesOfPosition g pos) (\<lambda>indices. Inr (OffsetFromIndices g indices))"

text \<open>
  A position lies strictly inside cell \<open>(ix, iy, iz)\<close> when on every axis it is strictly
  between the cell's minimum corner and the next grid point; the grid points are the
  exact multiples of the cell spacing from the minimum corner.
\<close>

definition strictlyBetween :: "float \<Rightarrow> float \<Rightarrow> nat \<Rightarrow> float \<Rightarrow> bool" where
  "strictlyBetween minCorner cellSpacing i pos =
     (isNumber minCorner \<and> isNumber cellSpacing \<and> isNumber pos \<and>
      realOf minCorner + real i * realOf cellSpacing < realOf pos \<and>
      realOf pos < realOf minCorner + (real i + 1) * realOf cellSpacing)"

definition insideCell :: "'a UniformGrid \<Rightarrow> nat \<times> nat \<times> nat \<Rightarrow> float Vec3 \<Rightarrow> bool" where
  "insideCell g idx pos =
     (case idx of (ix, iy, iz) \<Rightarrow>
        strictlyBetween (vx (mMinCorner g)) (vx (GetCellSpacing g)) ix (vx pos) \<and>
        strictlyBetween (vy (mMinCorner g)) (vy (GetCellSpacing g)) iy (vy pos) \<and>
        strictlyBetween (vz (mMinCorner g)) (vz (GetCellSpacing g)) iz (vz pos))"

text \<open>
  A position inside cell \<open>(ix, iy, iz)\<close> that keeps on every axis the relative distance
  \<^verbatim>\<open>2 * FLT_EPSILON\<close> from the two faces of the cell, in a grid whose cell spacing is
  not below \<^verbatim>\<open>FLT_MIN\<close> and where the distance of the position from the minimum corner
  is finite in single precision.
\<close>

definition nudgedBetween :: "float \<Rightarrow> float \<Rightarrow> nat \<Rightarrow> float \<Rightarrow> bool" where
  "nudgedBetween minCorner cellSpacing i pos =
     (isNumber minCorner \<and> isNumber cellSpacing \<and> isNumber pos \<and>
      isNumber (fsub pos minCorner) \<and> flt_min \<le> realOf cellSpacing \<and>
      (1 + 2 * flt_epsilon) * (real i * realOf cellSpacing) \<le> realOf pos - realOf minCorner \<and>
      realOf pos - realOf minCorner \<le> (1 - 2 * flt_epsilon) * ((real i + 1) * realOf cellSpacing))"

definition nudgedInsideCell :: "'a UniformGrid \<Rightarrow> nat \<times> nat \<times> nat \<Rightarrow> float Vec3 \<Rightarrow> bool" where
  "nudgedInsideCell g idx pos =
     (case idx of (ix, iy, iz) \<Rightarrow>
        nudgedBetween (vx (mMinCorner g)) (vx (GetCellSpacing g)) ix (vx pos) \<and>
        nudgedBetween (vy (mMinCorner g)) (vy (GetCellSpacing g)) iy (vy pos) \<and>
        nudgedBetween (vz (mMinCorner g)) (vz (GetCellSpacing g)) iz (vz pos))"
section \<open>Statistics\<close>

text \<open>
  A counted loop \<^verbatim>\<open>for( i = 0 ; i < n ; ++ i )\<close> whose body may abort runs its body over
  \<open>[0 ..< n]\<close> and stops at the first error.
\<close>

fun forEach :: "nat list \<Rightarrow> (nat \<Rightarrow> 's \<Rightarrow> error + 's) \<Rightarrow> 's \<Rightarrow> error + 's" where
  "forEach [] body s = Inr s"
| "forEach (i # rest) body s = andThen (body i s) (forEach rest body)"

text \<open>
  Modelled from the spec: the scalar \<^verbatim>\<open>ComputeStatistics( fMin , fMax )\<close> is the generic
  member of Space/uniformGrid.h, which is not among the translated sources. The spec has
  it visit every stored element once and fold the minimum and the maximum; the caller
  passes the initial pair.
\<close>

definition ComputeStatistics_float ::
  "float UniformGrid \<Rightarrow> float \<times> float \<Rightarrow> float \<times> float" where
  "ComputeStatistics_float g seed =
     foldl (\<lambda>(mn, mx) rVal. (MIN2 mn rVal, MAX2 mx rVal)) seed (mContents g)"

text \<open>
  The six assignments \<^verbatim>\<open>min.x = MIN2( min.x , rVal.x )\<close> ... \<^verbatim>\<open>max.z = MAX2( max.z , rVal.z )\<close>
  of both \<^verbatim>\<open>ComputeStatistics\<close> specialisations.
\<close>

definition foldVec3 :: "float Vec3 \<times> float Vec3 \<Rightarrow> float Vec3 \<Rightarrow> float Vec3 \<times> float Vec3" where
  "foldVec3 mm rVal =
     (case mm of (mn, mx) \<Rightarrow>
       (\<lparr> vx = MIN2 (vx mn) (vx rVal), vy = MIN2 (vy mn) (vy rVal), vz = MIN2 (vz mn) (vz rVal) \<rparr>,
        \<lparr> vx = MAX2 (vx mx) (vx rVal), vy = MAX2 (vy mx) (vy rVal), vz = MAX2 (vz mx) (vz rVal) \<rparr>))"

text \<open>
  The three nested loops of \<^verbatim>\<open>UniformGrid<Vec3>::ComputeStatistics\<close> with their offset
  arithmetic in \<^verbatim>\<open>unsigned\<close> and the assertion on the offset; \<open>visit\<close> is what the
  innermost body does with the offset.
\<close>

definition traverse_Vec3 ::
  "'a UniformGrid \<Rightarrow> (nat \<Rightarrow> 's \<Rightarrow> error + 's) \<Rightarrow> 's \<Rightarrow> error + 's" where
  "traverse_Vec3 g visit s0 =
     (let dims0 = GetNumPoints g 0; dims1 = GetNumPoints g 1; dims2 = GetNumPoints g 2;
          numXY = u32 (dims0 * dims1)
      in forEach [0 ..< dims2] (\<lambda>index2.
           let offsetPartialZ = u32 (numXY * index2)
           in forEach [0 ..< dims1] (\<lambda>index1.
                let offsetPartialYZ = u32 (u32 (dims0 * index1) + offsetPartialZ)
                in forEach [0 ..< dims0] (\<lambda>index0 s.
                     let offset = u32 (index0 + offsetPartialYZ)
                     in andThen
                          (ASSERT (offset =
                             u32 (index0 + u32 (dims0 * u32 (index1 + u32 (dims1 * index2))))))
                          (\<lambda>_. visit offset s)))) s0)"

text \<open>
  \<^verbatim>\<open>UniformGrid<Vec3>::ComputeStatistics( Vec3 & min , Vec3 & max ) const\<close>. The state
  of its loops is the object, with its contents, and the pair of the two out-parameters.
  The body of the innermost loop reads the element at the offset through a \<^verbatim>\<open>const\<close>
  reference and assigns the out-parameters.
\<close>

definition body_Vec3 ::
  "nat \<Rightarrow> float Vec3 UniformGrid \<times> (float Vec3 \<times> float Vec3)
     \<Rightarrow> error + float Vec3 UniformGrid \<times> (float Vec3 \<times> float Vec3)" where
  "body_Vec3 offset state =
     (case state of (this, mm) \<Rightarrow>
        andThen (At this offset) (\<lambda>rVal. Inr (this, foldVec3 mm rVal)))"

definition ComputeStatistics_Vec3_state ::
  "float Vec3 UniformGrid
     \<Rightarrow> error + float Vec3 UniformGrid \<times> (float Vec3 \<times> float Vec3)" where
  "ComputeStatistics_Vec3_state g =
     (let mn = \<lparr> vx = FLT_MAX, vy = FLT_MAX, vz = FLT_MAX \<rparr>;
          mx = \<lparr> vx = fneg (vx mn), vy = fneg (vy mn), vz = fneg (vz mn) \<rparr>
      in traverse_Vec3 g body_Vec3 (g, (mn, mx)))"

definition ComputeStatistics_Vec3 ::
  "float Vec3 UniformGrid \<Rightarrow> error + (float Vec3 \<times> float Vec3)" where
  "ComputeStatistics_Vec3 g =
     andThen (ComputeStatistics_Vec3_state g) (\<lambda>state. Inr (snd state))"

definition foldVorton :: "Vorton \<times> Vorton \<Rightarrow> Vorton \<Rightarrow> Vorton \<times> Vorton" where
  "foldVorton mm rVorton =
     (case mm of (mn, mx) \<Rightarrow>
        (case foldVec3 (mPosition mn, mPosition mx) (mPosition rVorton) of (pmn, pmx) \<Rightarrow>
         case foldVec3 (mVorticity mn, mVorticity mx) (mVorticity rVorton) of (wmn, wmx) \<Rightarrow>
           (\<lparr> mPosition = pmn, mVorticity = wmn \<rparr>, \<lparr> mPosition = pmx, mVorticity = wmx \<rparr>)))"

text \<open>
  \<^verbatim>\<open>UniformGrid<Vorton>::ComputeStatistics( Vorton & min , Vorton & max ) const\<close>, with
  the same state and a single loop over the offsets.
\<close>

definition body_Vorton ::
  "nat \<Rightarrow> Vorton UniformGrid \<times> (Vorton \<times> Vorton)
     \<Rightarrow> error + Vorton UniformGrid \<times> (Vorton \<times> Vorton)" where
  "body_Vorton offset state =
     (case state of (this, mm) \<Rightarrow>
        andThen (At this offset) (\<lambda>rVorton. Inr (this, foldVorton mm rVorton)))"

definition ComputeStatistics_Vorton_state ::
  "Vorton UniformGrid \<Rightarrow> error + Vorton UniformGrid \<times> (Vorton \<times> Vorton)" where
  "ComputeStatistics_Vorton_state g =
     (let vMax = \<lparr> vx = FLT_MAX, vy = FLT_MAX, vz = FLT_MAX \<rparr>;
          nMax = \<lparr> vx = fneg (vx vMax), vy = fneg (vy vMax), vz = fneg (vz vMax) \<rparr>;
          mn = \<lparr> mPosition = vMax, mVorticity = vMax \<rparr>;
          mx = \<lparr> mPosition = nMax, mVorticity = nMax \<rparr>;
          numGridPoints = Size g
      in forEach [0 ..< numGridPoints] body_Vorton (g, (mn, mx)))"

definition ComputeStatistics_Vorton :: "Vorton UniformGrid \<Rightarrow> error + (Vorton \<times> Vorton)" where
  "ComputeStatistics_Vorton g =
     andThen (ComputeStatistics_Vorton_state g) (\<lambda>state. Inr (snd state))"

text \<open>
  Modelled from the spec: \<^verbatim>\<open>Vec3::Magnitude\<close> is declared in Core/Math/vec3.h, which is
  not among the translated sources. The spec calls it the Euclidean norm of the vector;
  it is rounded to a float once.
\<close>

definition Magnitude :: "float Vec3 \<Rightarrow> float" where
  "Magnitude v =
     (if isNaN (vx v) \<or> isNaN (vy v) \<or> isNaN (vz v) then NaN
      else if isInf (vx v) \<or> isInf (vy v) \<or> isInf (vz v) then PosInf
      else fl (sqrt (realOf (vx v) * realOf (vx v) + realOf (vy v) * realOf (vy v) +
                     realOf (vz v) * realOf (vz v))))"

section \<open>Formatted output\<close>

text \<open>
  The arguments of a \<^verbatim>\<open>printf\<close> call by their promoted C types, and what a file holds:
  single bytes written by \<^verbatim>\<open>fwrite\<close> and formatted writes, kept as the call that made
  them.
\<close>

datatype parg = ArgString string | ArgUnsigned nat | ArgInt int | ArgDouble float

datatype item = Byte "8 word" | Printf string "parg list"

fun show_nat :: "nat \<Rightarrow> string" where
  "show_nat n =
     (if n < 10 then [''0123456789'' ! n] else show_nat (n div 10) @ [''0123456789'' ! (n mod 10)])"

definition pad0 :: "nat \<Rightarrow> string \<Rightarrow> string" where
  "pad0 w s = replicate (w - length s) (CHR ''0'') @ s"

text \<open>
  The conversion \<^verbatim>\<open>%g\<close> is modelled where every C library agrees on its text: an
  integral value of magnitude below one million prints as the plain decimal integer, the
  negative zero as \<^verbatim>\<open>-0\<close>. The text of other values (digits kept, width of the exponent)
  is left out of the model.
\<close>

fun fmt_g :: "float \<Rightarrow> string option" where
  "fmt_g (Finite v) =
     (if of_int \<lfloor>v\<rfloor> = v \<and> \<bar>v\<bar> < 10 ^ 6
      then Some ((if v < 0 then ''-'' else []) @ show_nat (nat \<lfloor>\<bar>v\<bar>\<rfloor>))
      else None)"
| "fmt_g NegZero = Some ''-0''"
| "fmt_g a = None"

datatype fmt_error = ArgTypeMismatch | NotModelled

definition emit :: "string \<Rightarrow> fmt_error + string \<Rightarrow> fmt_error + string" where
  "emit s r = (case r of Inl e \<Rightarrow> Inl e | Inr t \<Rightarrow> Inr (s @ t))"

text \<open>
  The text a format string produces from its arguments, for the conversions
  \<^verbatim>\<open>%s\<close>, \<^verbatim>\<open>%u\<close>, \<^verbatim>\<open>%05u\<close> and \<^verbatim>\<open>%g\<close>. An argument whose type is not the one the
  conversion expects is undefined behaviour in C.
\<close>

function render :: "string \<Rightarrow> parg list \<Rightarrow> fmt_error + string" where
  "render [] args = Inr []"
| "render (c # cs) args =
     (if c \<noteq> CHR ''%'' then emit [c] (render cs args)
      else if take 1 cs = ''s'' then
        (case args of ArgString s # rest \<Rightarrow> emit s (render (drop 1 cs) rest)
         | _ \<Rightarrow> Inl ArgTypeMismatch)
      else if take 1 cs = ''u'' then
        (case args of ArgUnsigned n # rest \<Rightarrow> emit (show_nat n) (render (drop 1 cs) rest)
         | _ \<Rightarrow> Inl ArgTypeMismatch)
      else if take 3 cs = ''05u'' then
        (case args of ArgUnsigned n # rest \<Rightarrow> emit (pad0 5 (show_nat n)) (render (drop 3 cs) rest)
         | _ \<Rightarrow> Inl ArgTypeMismatch)
      else if take 1 cs = ''g'' then
        (case args of
           ArgDouble d # rest \<Rightarrow>
             (case fmt_g d of None \<Rightarrow> Inl NotModelled
              | Some t \<Rightarrow> emit t (render (drop 1 cs) rest))
         | _ \<Rightarrow> Inl ArgTypeMismatch)
      else Inl NotModelled)"
  by pat_completeness auto
termination
  by (relation "measure (\<lambda>(f, a). length f)") auto

text \<open>\<^verbatim>\<open>sprintf\<close> into a \<^verbatim>\<open>char[ 256 ]\<close>.\<close>

definition sprintf :: "string \<Rightarrow> parg list \<Rightarrow> error + string" where
  "sprintf fmt args =
     (case render fmt args of
        Inl e \<Rightarrow> Inl FormatMismatch
      | Inr s \<Rightarrow> if length s < 256 then Inr s else Inl BufferOverrun)"

text \<open>The text of a file item, where the model has it.\<close>

fun itemText :: "item \<Rightarrow> fmt_error + string" where
  "itemText (Printf fmt args) = render fmt args"
| "itemText (Byte b) = Inl NotModelled"

section \<open>Rounding to a fixed binade\<close>

text \<open>Rounding to the multiples of \<^verbatim>\<open>2^(e-23)\<close>, the float spacing of binade \<open>e\<close>.\<close>

definition grd :: "int \<Rightarrow> real \<Rightarrow> real" where
  "grd e v = 2 powi (e - 23) * of_int (rne (v / 2 powi (e - 23)))"

section \<open>Files\<close>

text \<open>
  The file system: the contents of the files that exist, and which names can be opened
  for writing. \<^verbatim>\<open>fopen\<close> returns a null pointer (\<open>None\<close>) for a name that cannot be
  opened; mode \<^verbatim>\<open>"wb"\<close> truncates the file, mode \<^verbatim>\<open>"a"\<close> keeps what it holds. An
  open \<^verbatim>\<open>FILE\<close> is named by its path. A computation on files returns an error or a
  value, and the file system as it stands at that point.
\<close>

record filesystem =
  files :: "string \<Rightarrow> item list option"
  writable :: "string \<Rightarrow> bool"

datatype fmode = AppendText | WriteBinary

type_synonym 'a io = "filesystem \<Rightarrow> (error + 'a) \<times> filesystem"

definition ret :: "'a \<Rightarrow> 'a io" where
  "ret a fs = (Inr a, fs)"

definition abort :: "error \<Rightarrow> 'a io" where
  "abort e fs = (Inl e, fs)"

definition lift :: "error + 'a \<Rightarrow> 'a io" where
  "lift r fs = (r, fs)"

definition thenDo :: "'a io \<Rightarrow> ('a \<Rightarrow> 'b io) \<Rightarrow> 'b io" where
  "thenDo m f fs = (case m fs of (Inl e, fs') \<Rightarrow> (Inl e, fs') | (Inr a, fs') \<Rightarrow> f a fs')"

fun forEachIO :: "nat list \<Rightarrow> (nat \<Rightarrow> unit io) \<Rightarrow> unit io" where
  "forEachIO [] body fs = (Inr (), fs)"
| "forEachIO (i # rest) body fs =
     (case body i fs of (Inl e, fs') \<Rightarrow> (Inl e, fs') | (Inr u, fs') \<Rightarrow> forEachIO rest body fs')"

definition fopen :: "string \<Rightarrow> fmode \<Rightarrow> string option io" where
  "fopen name mode fs =
     (if writable fs name
      then (Inr (Some name),
            fs \<lparr> files := (files fs) (name \<mapsto>
                   (case mode of
                      WriteBinary \<Rightarrow> []
                    | AppendText \<Rightarrow> (case files fs name of None \<Rightarrow> [] | Some old \<Rightarrow> old))) \<rparr>)
      else (Inr None, fs))"

definition fput :: "string \<Rightarrow> item \<Rightarrow> filesystem \<Rightarrow> filesystem" where
  "fput name it fs =
     fs \<lparr> files := (files fs) (name \<mapsto>
            (case files fs name of None \<Rightarrow> [] | Some old \<Rightarrow> old) @ [it]) \<rparr>"

fun fprintf :: "string option \<Rightarrow> string \<Rightarrow> parg list \<Rightarrow> unit io" where
  "fprintf None fmt args fs = (Inl NullFileWrite, fs)"
| "fprintf (Some name) fmt args fs = (Inr (), fput name (Printf fmt args) fs)"

fun fwrite :: "8 word \<Rightarrow> string option \<Rightarrow> unit io" where
  "fwrite c None fs = (Inl NullFileWrite, fs)"
| "fwrite c (Some name) fs = (Inr (), fput name (Byte c) fs)"

fun fclose :: "string option \<Rightarrow> unit io" where
  "fclose None fs = (Inl NullFileWrite, fs)"
| "fclose (Some name) fs = (Inr (), fs)"

section \<open>Scalar export\<close>

text \<open>
  The body of the loop of \<^verbatim>\<open>UniformGrid<float>::GenerateBrickOfBytes\<close> for one stored
  value, up to the byte it writes.
\<close>

definition quantize_float :: "float \<Rightarrow> float \<Rightarrow> float \<Rightarrow> error + 8 word" where
  "quantize_float fMin fRange rVal =
     (let fShifted = fsub rVal fMin in
      andThen (ASSERT (f_le (Finite 0) fShifted)) (\<lambda>_.
      let f0to1 = fdiv fShifted fRange in
      andThen (ASSERT (f_le (Finite 0) f0to1 \<and> f_le f0to1 (Finite 1))) (\<lambda>_.
      let f0to255 = fmul f0to1 fAlmost256 in
      andThen (float_to_int f0to255) (\<lambda>iVal.
      andThen (ASSERT (0 \<le> iVal \<and> iVal \<le> 255)) (\<lambda>_.
      Inr (to_uchar iVal))))))"

text \<open>
  The range the export encodes. \<^verbatim>\<open>ENFORCE_SYMMETRIC_RANGE\<close> is a preprocessor switch
  defined outside the translated sources; it is a parameter of the model.
\<close>

definition range_float :: "bool \<Rightarrow> float \<times> float \<Rightarrow> float \<times> float" where
  "range_float ENFORCE_SYMMETRIC_RANGE stats =
     (case stats of (fMin, fMax) \<Rightarrow>
        if ENFORCE_SYMMETRIC_RANGE
        then (let fExtreme = MAX2 (fneg fMin) fMax in (fneg fExtreme, fExtreme))
        else (fMin, fMax))"

text \<open>\<^verbatim>\<open>UniformGrid<float>::GenerateBrickOfBytes\<close>\<close>

definition GenerateBrickOfBytes_float ::
  "bool \<Rightarrow> float UniformGrid \<Rightarrow> string \<Rightarrow> nat \<Rightarrow> unit io" where
  "GenerateBrickOfBytes_float ENFORCE_SYMMETRIC_RANGE g strFilenameBase uFrame =
     (case range_float ENFORCE_SYMMETRIC_RANGE
             (ComputeStatistics_float g (FLT_MAX, fneg FLT_MAX)) of (fMin, fMax) \<Rightarrow>
      let fRange = MAX2 (fsub fMax fMin) FLT_MIN in
      thenDo (lift (sprintf ''Vols/%s%05u-%ux%ux%u.dat''
                [ArgString strFilenameBase, ArgUnsigned uFrame, ArgUnsigned (GetNumPoints g 0),
                 ArgUnsigned (GetNumPoints g 1), ArgUnsigned (GetNumPoints g 2)]))
        (\<lambda>strDataFilename.
      thenDo (lift (sprintf ''%s.ogle'' [ArgString strFilenameBase])) (\<lambda>strScriptFilename.
      thenDo (fopen strScriptFilename AppendText) (\<lambda>pScriptFile.
      if pScriptFile = None then abort AssertionFailed else
      thenDo (fprintf pScriptFile ''# %s ranges: %9.7g to %9.7g\<newline>''
                [ArgString strFilenameBase, ArgDouble fMin, ArgDouble fMax]) (\<lambda>_.
      thenDo (fprintf pScriptFile ''%ux%ux%u %s\<newline>''
                [ArgUnsigned (GetNumPoints g 0), ArgUnsigned (GetNumPoints g 1),
                 ArgUnsigned (GetNumPoints g 2), ArgString strDataFilename]) (\<lambda>_.
      thenDo (fclose pScriptFile) (\<lambda>_.
      thenDo (fopen strDataFilename WriteBinary) (\<lambda>pDataFile.
      if pDataFile = None then abort AssertionFailed else
      thenDo (forEachIO [0 ..< Size g] (\<lambda>offset.
                thenDo (lift (At g offset)) (\<lambda>rVal.
                thenDo (lift (quantize_float fMin fRange rVal)) (\<lambda>cVal.
                fwrite cVal pDataFile)))) (\<lambda>_.
      thenDo (fprintf pDataFile ''MIN %g MAX %g\<newline>'' [ArgDouble fMin, ArgDouble fMax]) (\<lambda>_.
      fclose pDataFile))))))))))"

section \<open>Vector export\<close>

text \<open>Componentwise negation, difference and scaling of \<^verbatim>\<open>Vec3\<close>.\<close>

definition vneg :: "float Vec3 \<Rightarrow> float Vec3" where
  "vneg v = \<lparr> vx = fneg (vx v), vy = fneg (vy v), vz = fneg (vz v) \<rparr>"

definition vsub :: "float Vec3 \<Rightarrow> float Vec3 \<Rightarrow> float Vec3" where
  "vsub a b = \<lparr> vx = fsub (vx a) (vx b), vy = fsub (vy a) (vy b), vz = fsub (vz a) (vz b) \<rparr>"

definition vscale :: "float Vec3 \<Rightarrow> float \<Rightarrow> float Vec3" where
  "vscale v f = \<lparr> vx = fmul (vx v) f, vy = fmul (vy v) f, vz = fmul (vz v) f \<rparr>"

text \<open>
  \<^verbatim>\<open>Vec3 vExtreme( MAX2( -vMin.x , vMax.x ) , ... )\<close> and the range floored at
  \<^verbatim>\<open>FLT_MIN\<close>.
\<close>

definition vecExtreme :: "float Vec3 \<Rightarrow> float Vec3 \<Rightarrow> float Vec3" where
  "vecExtreme vMin vMax =
     \<lparr> vx = MAX2 (fneg (vx vMin)) (vx vMax),
       vy = MAX2 (fneg (vy vMin)) (vy vMax),
       vz = MAX2 (fneg (vz vMin)) (vz vMax) \<rparr>"

definition vecRange :: "float Vec3 \<Rightarrow> float Vec3 \<Rightarrow> float Vec3" where
  "vecRange vMin vMax =
     (let vRange = vsub vMax vMin
      in \<lparr> vx = MAX2 FLT_MIN (vx vRange), vy = MAX2 FLT_MIN (vy vRange),
            vz = MAX2 FLT_MIN (vz vRange) \<rparr>)"

text \<open>The conditions of the assertions in the loop body.\<close>

definition in0to1 :: "float \<Rightarrow> bool" where
  "in0to1 f = (f_le (Finite 0) f \<and> f_le f (Finite 1))"

definition in0to256 :: "float \<Rightarrow> bool" where
  "in0to256 f = (f_le (Finite 0) f \<and> f_less f (Finite 256))"

definition isByte :: "int \<Rightarrow> bool" where
  "isByte i = (0 \<le> i \<and> i \<le> 255)"

definition signConsistent :: "float \<Rightarrow> int \<Rightarrow> bool" where
  "signConsistent c i =
     ((f_le (Finite 0) c \<or> i \<le> 127) \<and> (f_le c (Finite 0) \<or> 127 \<le> i))"

text \<open>
  The body of the loop of \<^verbatim>\<open>UniformGrid<Vec3>::GenerateBrickOfBytes\<close> for one stored
  vector, up to the four bytes it writes. The loop of the \<^verbatim>\<open>Vorton\<close> specialisation is
  the same text on the vorticity, without the three assertions on the sign under
  \<^verbatim>\<open>ENFORCE_SYMMETRIC_RANGE\<close>.
\<close>

definition quantize_Vec3 ::
  "bool \<Rightarrow> float Vec3 \<Rightarrow> float Vec3 \<Rightarrow> float \<Rightarrow> float Vec3
     \<Rightarrow> error + (8 word \<times> 8 word \<times> 8 word \<times> 8 word)" where
  "quantize_Vec3 ENFORCE_SYMMETRIC_RANGE vMin vRange fMagMax rVec =
     (let fMag = Magnitude rVec in
      andThen (ASSERT (f_le (Finite 0) fMag \<and> f_le fMag fMagMax)) (\<lambda>_.
      let vShifted = vsub rVec vMin in
      andThen (ASSERT (f_le (Finite 0) (vx vShifted))) (\<lambda>_.
      andThen (ASSERT (f_le (Finite 0) (vy vShifted))) (\<lambda>_.
      andThen (ASSERT (f_le (Finite 0) (vz vShifted))) (\<lambda>_.
      let v0to1 = \<lparr> vx = fdiv (vx vShifted) (vx vRange), vy = fdiv (vy vShifted) (vy vRange),
                     vz = fdiv (vz vShifted) (vz vRange) \<rparr> in
      andThen (ASSERT (in0to1 (vx v0to1))) (\<lambda>_.
      andThen (ASSERT (in0to1 (vy v0to1))) (\<lambda>_.
      andThen (ASSERT (in0to1 (vz v0to1))) (\<lambda>_.
      let v0to255 = vscale v0to1 fAlmost256 in
      andThen (ASSERT (in0to256 (vx v0to255))) (\<lambda>_.
      andThen (ASSERT (in0to256 (vy v0to255))) (\<lambda>_.
      andThen (ASSERT (in0to256 (vz v0to255))) (\<lambda>_.
      let vMag0to255 = fdiv (fmul fAlmost256 fMag) fMagMax in
      andThen (float_to_int (vx v0to255)) (\<lambda>iVec0.
      andThen (float_to_int (vy v0to255)) (\<lambda>iVec1.
      andThen (float_to_int (vz v0to255)) (\<lambda>iVec2.
      andThen (float_to_int vMag0to255) (\<lambda>iVec3.
      andThen (ASSERT (isByte iVec0)) (\<lambda>_.
      andThen (ASSERT (isByte iVec1)) (\<lambda>_.
      andThen (ASSERT (isByte iVec2)) (\<lambda>_.
      andThen (ASSERT (isByte iVec3)) (\<lambda>_.
      andThen (ASSERT (ENFORCE_SYMMETRIC_RANGE \<longrightarrow> signConsistent (vx rVec) iVec0)) (\<lambda>_.
      andThen (ASSERT (ENFORCE_SYMMETRIC_RANGE \<longrightarrow> signConsistent (vy rVec) iVec1)) (\<lambda>_.
      andThen (ASSERT (ENFORCE_SYMMETRIC_RANGE \<longrightarrow> signConsistent (vz rVec) iVec2)) (\<lambda>_.
      Inr (to_uchar iVec0, to_uchar iVec1, to_uchar iVec2, to_uchar iVec3)
      ))))))))))))))))))))))"

text \<open>
  The names of the four data files, the script file, the four data files and their
  footers: the part that \<^verbatim>\<open>UniformGrid<Vec3>::GenerateBrickOfBytes\<close> and
  \<^verbatim>\<open>UniformGrid<Vorton>::GenerateBrickOfBytes\<close> have in common, \<open>quantize\<close> being the
  loop body on one stored value. The script file pointer is used without a check; the
  last footer passes the \<^verbatim>\<open>int\<close> constant \<^verbatim>\<open>0\<close> to \<^verbatim>\<open>%g\<close>.
\<close>

definition dataFilename :: "string \<Rightarrow> string \<Rightarrow> nat \<Rightarrow> 'a UniformGrid \<Rightarrow> error + string" where
  "dataFilename channel strFilenameBase uFrame g =
     sprintf (''Vols/%s'' @ channel @ ''%05u-%ux%ux%u.dat'')
       [ArgString strFilenameBase, ArgUnsigned uFrame, ArgUnsigned (GetNumPoints g 0),
        ArgUnsigned (GetNumPoints g 1), ArgUnsigned (GetNumPoints g 2)]"

definition writeBricks ::
  "'a UniformGrid \<Rightarrow> string \<Rightarrow> nat \<Rightarrow> float Vec3 \<Rightarrow> float Vec3 \<Rightarrow> float
     \<Rightarrow> ('a \<Rightarrow> error + (8 word \<times> 8 word \<times> 8 word \<times> 8 word)) \<Rightarrow> unit io" where
  "writeBricks g strFilenameBase uFrame vMin vMax fMagMax quantize =
     thenDo (lift (dataFilename ''X'' strFilenameBase uFrame g)) (\<lambda>strDataFilenames0.
     thenDo (lift (dataFilename ''Y'' strFilenameBase uFrame g)) (\<lambda>strDataFilenames1.
     thenDo (lift (dataFilename ''Z'' strFilenameBase uFrame g)) (\<lambda>strDataFilenames2.
     thenDo (lift (dataFilename ''M'' strFilenameBase uFrame g)) (\<lambda>strDataFilenames3.
     thenDo (lift (sprintf ''%s.ogle'' [ArgString strFilenameBase])) (\<lambda>strScriptFilename.
     thenDo (fopen strScriptFilename AppendText) (\<lambda>pScriptFile.
     thenDo (fprintf pScriptFile
               ''# %s ranges: {%9.7g,%9.7g,%9.7g} to {%9.7g,%9.7g,%9.7g}\<newline>''
               [ArgString strFilenameBase, ArgDouble (vx vMin), ArgDouble (vy vMin),
                ArgDouble (vz vMin), ArgDouble (vx vMax), ArgDouble (vy vMax),
                ArgDouble (vz vMax)]) (\<lambda>_.
     thenDo (fprintf pScriptFile ''%ux%ux%u %s %s %s\<newline>''
               [ArgUnsigned (GetNumPoints g 0), ArgUnsigned (GetNumPoints g 1),
                ArgUnsigned (GetNumPoints g 2), ArgString strDataFilenames0,
                ArgString strDataFilenames1, ArgString strDataFilenames2]) (\<lambda>_.
     thenDo (fclose pScriptFile) (\<lambda>_.
     thenDo (fopen strDataFilenames0 WriteBinary) (\<lambda>pDataFiles0.
     thenDo (fopen strDataFilenames1 WriteBinary) (\<lambda>pDataFiles1.
     thenDo (fopen strDataFilenames2 WriteBinary) (\<lambda>pDataFiles2.
     thenDo (fopen strDataFilenames3 WriteBinary) (\<lambda>pDataFiles3.
     if pDataFiles0 = None then abort AssertionFailed else
     if pDataFiles1 = None then abort AssertionFailed else
     if pDataFiles2 = None then abort AssertionFailed else
     if pDataFiles3 = None then abort AssertionFailed else
     thenDo (forEachIO [0 ..< Size g] (\<lambda>offset.
               thenDo (lift (At g offset)) (\<lambda>rVec.
               thenDo (lift (quantize rVec)) (\<lambda>cVec.
               case cVec of (cVec0, cVec1, cVec2, cVec3) \<Rightarrow>
                 thenDo (fwrite cVec0 pDataFiles0) (\<lambda>_.
                 thenDo (fwrite cVec1 pDataFiles1) (\<lambda>_.
                 thenDo (fwrite cVec2 pDataFiles2) (\<lambda>_.
                 fwrite cVec3 pDataFiles3))))))) (\<lambda>_.
     thenDo (fprintf pDataFiles0 ''MIN %g MAX %g\<newline>''
               [ArgDouble (vx vMin), ArgDouble (vx vMax)]) (\<lambda>_.
     thenDo (fprintf pDataFiles1 ''MIN %g MAX %g\<newline>''
               [ArgDouble (vy vMin), ArgDouble (vy vMax)]) (\<lambda>_.
     thenDo (fprintf pDataFiles2 ''MIN %g MAX %g\<newline>''
               [ArgDouble (vz vMin), ArgDouble (vz vMax)]) (\<lambda>_.
     thenDo (fprintf pDataFiles3 ''MIN %g MAX %g\<newline>''
               [ArgInt 0, ArgDouble fMagMax]) (\<lambda>_.
     thenDo (fclose pDataFiles0) (\<lambda>_.
     thenDo (fclose pDataFiles1) (\<lambda>_.
     thenDo (fclose pDataFiles2) (\<lambda>_.
     fclose pDataFiles3)))))))))))))))))))))"

text \<open>\<^verbatim>\<open>UniformGrid<Vec3>::GenerateBrickOfBytes\<close>\<close>

definition GenerateBrickOfBytes_Vec3 ::
  "bool \<Rightarrow> float Vec3 UniformGrid \<Rightarrow> string \<Rightarrow> nat \<Rightarrow> unit io" where
  "GenerateBrickOfBytes_Vec3 ENFORCE_SYMMETRIC_RANGE g strFilenameBase uFrame =
     thenDo (lift (ComputeStatistics_Vec3 g)) (\<lambda>stats.
     case stats of (vMin0, vMax0) \<Rightarrow>
       let vExtreme = vecExtreme vMin0 vMax0;
           fMagMax = Magnitude vExtreme;
           vMax = (if ENFORCE_SYMMETRIC_RANGE then vExtreme else vMax0);
           vMin = (if ENFORCE_SYMMETRIC_RANGE then vneg vMax else vMin0);
           vRange = vecRange vMin vMax
       in writeBricks g strFilenameBase uFrame vMin vMax fMagMax
            (quantize_Vec3 ENFORCE_SYMMETRIC_RANGE vMin vRange fMagMax))"

text \<open>
  \<^verbatim>\<open>UniformGrid<Vorton>::GenerateBrickOfBytes\<close>. It makes the range symmetric whatever
  \<^verbatim>\<open>ENFORCE_SYMMETRIC_RANGE\<close> says: the switch does not occur in its text.
\<close>

definition GenerateBrickOfBytes_Vorton ::
  "bool \<Rightarrow> Vorton UniformGrid \<Rightarrow> string \<Rightarrow> nat \<Rightarrow> unit io" where
  "GenerateBrickOfBytes_Vorton ENFORCE_SYMMETRIC_RANGE g strFilenameBase uFrame =
     thenDo (lift (ComputeStatistics_Vorton g)) (\<lambda>stats.
     case stats of (vortonMin, vortonMax) \<Rightarrow>
       let vortExtreme = vecExtreme (mVorticity vortonMin) (mVorticity vortonMax);
           fVortMagMax = Magnitude vortExtreme;
           vortMax = vortExtreme;
           vortMin = vneg vortMax;
           vortRange = vecRange vortMin vortMax
       in writeBricks g strFilenameBase uFrame vortMin vortMax fVortMagMax
            (\<lambda>rVorton. quantize_Vec3 False vortMin vortRange fVortMagMax (mVorticity rVorton)))"

section \<open>The channel pipeline, for stating properties\<close>

text \<open>
  What the loop bodies compute for one channel, named after the variables of the code:
  \<^verbatim>\<open>f0to1 = (rVal - fMin) / fRange\<close> and \<^verbatim>\<open>f0to255 = f0to1 * fAlmost256\<close>; for the
  magnitude \<^verbatim>\<open>vMag0to255 = fAlmost256 * fMag / fMagMax\<close>; the assertions of the vector
  loop on one component; and the value of \<^verbatim>\<open>f0to255\<close> on the reals, for a shifted value
  \<open>d\<close> and a range \<open>R\<close>.
\<close>

definition channel0to1 :: "float \<Rightarrow> float \<Rightarrow> float \<Rightarrow> float" where
  "channel0to1 cMin cRange c = fdiv (fsub c cMin) cRange"

definition channel0to255 :: "float \<Rightarrow> float \<Rightarrow> float \<Rightarrow> float" where
  "channel0to255 cMin cRange c = fmul (channel0to1 cMin cRange c) fAlmost256"

definition magnitude0to255 :: "float \<Rightarrow> float Vec3 \<Rightarrow> float" where
  "magnitude0to255 fMagMax rVec = fdiv (fmul fAlmost256 (Magnitude rVec)) fMagMax"

definition channelChecks :: "float \<Rightarrow> float \<Rightarrow> float \<Rightarrow> bool" where
  "channelChecks cMin cRange c =
     (f_le (Finite 0) (fsub c cMin) \<and> in0to1 (channel0to1 cMin cRange c) \<and>
      in0to256 (channel0to255 cMin cRange c))"

definition channelValue :: "real \<Rightarrow> real \<Rightarrow> real" where
  "channelValue d R =
     round_to_float (round_to_float (round_to_float d / R) * (8388607 / 32768))"

text \<open>
  A stored value within the statistics range of its channel, where the range is finite
  in single precision.
\<close>

definition withinRange :: "real \<Rightarrow> real \<Rightarrow> real \<Rightarrow> bool" where
  "withinRange mn mx v = (mn \<le> v \<and> v \<le> mx \<and> round_to_float (mx - mn) \<le> flt_max)"



definition vec :: "real \<Rightarrow> real \<Rightarrow> real \<Rightarrow> float Vec3" where
  "vec a b c = \<lparr> vx = Finite a, vy = Finite b, vz = Finite c \<rparr>"





text \<open>A float with the sign of a zero dropped.\<close>

fun dropSign :: "float \<Rightarrow> float" where
  "dropSign NegZero = Finite 0"
| "dropSign a = a"

text \<open>
  The integer that the loop bodies compute for one channel, and what is left of the body
  of the vector loop once the three components have passed their assertions and have
  the integers \<open>i0\<close>, \<open>i1\<close>, \<open>i2\<close>: the assertion on the magnitude, its conversion and the
  assertion on its integer (and, under \<^verbatim>\<open>ENFORCE_SYMMETRIC_RANGE\<close>, the assertions on the
  signs, which are taken as passed here).
\<close>

definition channelInt :: "float \<Rightarrow> float \<Rightarrow> float \<Rightarrow> error + int" where
  "channelInt cMin cRange c = float_to_int (channel0to255 cMin cRange c)"


section \<open>The minimum and maximum of the stored values, for stating properties\<close>

text \<open>
  The statistics as the spec words them: per component, the minimum and the maximum over
  all stored values.
\<close>

definition componentMin :: "('a \<Rightarrow> float) \<Rightarrow> 'a list \<Rightarrow> float" where
  "componentMin c xs = Finite (Min (set (map (\<lambda>v. realOf (c v)) xs)))"

definition componentMax :: "('a \<Rightarrow> float) \<Rightarrow> 'a list \<Rightarrow> float" where
  "componentMax c xs = Finite (Max (set (map (\<lambda>v. realOf (c v)) xs)))"

definition vecMin :: "float Vec3 list \<Rightarrow> float Vec3" where
  "vecMin xs = \<lparr> vx = componentMin vx xs, vy = componentMin vy xs, vz = componentMin vz xs \<rparr>"

definition vecMax :: "float Vec3 list \<Rightarrow> float Vec3" where
  "vecMax xs = \<lparr> vx = componentMax vx xs, vy = componentMax vy xs, vz = componentMax vz xs \<rparr>"

text \<open>
  The initial pair and the body of the innermost loop of the two \<^verbatim>\<open>ComputeStatistics\<close>
  specialisations, named so that the loops can be run in another order.
\<close>

definition seed_Vec3 :: "float Vec3 \<times> float Vec3" where
  "seed_Vec3 =
     (\<lparr> vx = FLT_MAX, vy = FLT_MAX, vz = FLT_MAX \<rparr>,
      \<lparr> vx = fneg FLT_MAX, vy = fneg FLT_MAX, vz = fneg FLT_MAX \<rparr>)"

definition visit_Vec3 ::
  "float Vec3 UniformGrid \<Rightarrow> nat \<Rightarrow> float Vec3 \<times> float Vec3
     \<Rightarrow> error + (float Vec3 \<times> float Vec3)" where
  "visit_Vec3 g offset mm = andThen (At g offset) (\<lambda>rVal. Inr (foldVec3 mm rVal))"

definition seed_Vorton :: "Vorton \<times> Vorton" where
  "seed_Vorton =
     (\<lparr> mPosition = fst seed_Vec3, mVorticity = fst seed_Vec3 \<rparr>,
      \<lparr> mPosition = snd seed_Vec3, mVorticity = snd seed_Vec3 \<rparr>)"

definition visit_Vorton ::
  "Vorton UniformGrid \<Rightarrow> nat \<Rightarrow> Vorton \<times> Vorton \<Rightarrow> error + (Vorton \<times> Vorton)" where
  "visit_Vorton g offset mm = andThen (At g offset) (\<lambda>rVorton. Inr (foldVorton mm rVorton))"

definition floatVorton :: "Vorton \<Rightarrow> bool" where
  "floatVorton w = (floatVec (mPosition w) \<and> floatVec (mVorticity w))"

definition plainVorton :: "Vorton \<Rightarrow> bool" where
  "plainVorton w = (plainVec (mPosition w) \<and> plainVec (mVorticity w))"


text \<open>The pair that the spec starts the fold from.\<close>

definition unbounded_seed :: "float Vec3 \<times> float Vec3" where
  "unbounded_seed =
     (\<lparr> vx = PosInf, vy = PosInf, vz = PosInf \<rparr>, \<lparr> vx = NegInf, vy = NegInf, vz = NegInf \<rparr>)"

text \<open>
  The statistics as numbers: a pair of minimum and maximum with the sign of every zero
  dropped, for vectors and for the composite record.
\<close>

definition dropSigns :: "float Vec3 \<Rightarrow> float Vec3" where
  "dropSigns v = \<lparr> vx = dropSign (vx v), vy = dropSign (vy v), vz = dropSign (vz v) \<rparr>"

definition numbers :: "float Vec3 \<times> float Vec3 \<Rightarrow> float Vec3 \<times> float Vec3" where
  "numbers mm = (dropSigns (fst mm), dropSigns (snd mm))"

definition vortonNumbers :: "Vorton \<times> Vorton \<Rightarrow> Vorton \<times> Vorton" where
  "vortonNumbers mm =
     (\<lparr> mPosition = dropSigns (mPosition (fst mm)), mVorticity = dropSigns (mVorticity (fst mm)) \<rparr>,
      \<lparr> mPosition = dropSigns (mPosition (snd mm)), mVorticity = dropSigns (mVorticity (snd mm)) \<rparr>)"
section \<open>Observations on the export, for stating properties\<close>

text \<open>The part of the statistics of a \<^verbatim>\<open>Vorton\<close> grid that belongs to the vorticity.\<close>

definition vorticityStats :: "Vorton \<times> Vorton \<Rightarrow> float Vec3 \<times> float Vec3" where
  "vorticityStats mm = (mVorticity (fst mm), mVorticity (snd mm))"

text \<open>
  The range that the policy of the spec encodes: the statistics as they are, or made
  symmetric about zero.
\<close>

definition symmetricRange :: "float \<times> float \<Rightarrow> float \<times> float" where
  "symmetricRange stats = (case stats of (mn, mx) \<Rightarrow> (fneg (MAX2 (fneg mn) mx), MAX2 (fneg mn) mx))"

definition encodedRange :: "bool \<Rightarrow> float \<times> float \<Rightarrow> float \<times> float" where
  "encodedRange symmetric stats = (if symmetric then symmetricRange stats else stats)"

definition encodedVecRange :: "bool \<Rightarrow> float Vec3 \<times> float Vec3 \<Rightarrow> float Vec3 \<times> float Vec3" where
  "encodedVecRange symmetric stats =
     (case stats of (mn, mx) \<Rightarrow>
        (\<lparr> vx = fst (encodedRange symmetric (vx mn, vx mx)),
            vy = fst (encodedRange symmetric (vy mn, vy mx)),
            vz = fst (encodedRange symmetric (vz mn, vz mx)) \<rparr>,
         \<lparr> vx = snd (encodedRange symmetric (vx mn, vx mx)),
            vy = snd (encodedRange symmetric (vy mn, vy mx)),
            vz = snd (encodedRange symmetric (vz mn, vz mx)) \<rparr>))"

text \<open>What the four data files and the script file hold after an export of a vector grid.\<close>

definition brick :: "8 word list \<Rightarrow> parg list \<Rightarrow> item list" where
  "brick bytes bounds = map Byte bytes @ [Printf ''MIN %g MAX %g\<newline>'' bounds]"


text \<open>
  The text of the last item of a file, where the model has it: the footer line of a data
  file.
\<close>

definition footerText :: "filesystem \<Rightarrow> string \<Rightarrow> (fmt_error + string) option" where
  "footerText fs name =
     (case files fs name of
        None \<Rightarrow> None
      | Some items \<Rightarrow> if items = [] then None else Some (itemText (last items)))"
section \<open>Example grids and file systems\<close>

definition fs0 :: filesystem where
  "fs0 = \<lparr> files = (\<lambda>name. None), writable = (\<lambda>name. True) \<rparr>"

definition grid444 :: "float UniformGrid" where
  "grid444 = \<lparr> mMinCorner = vec 0 0 0,
               mMaxCorner = vec 3 3 3,
               mNumPoints = (4, 4, 4),
               mContents = map (\<lambda>n. Finite (real n)) [0 ..< 64] \<rparr>"

definition statGrid :: "float Vec3 UniformGrid" where
  "statGrid = \<lparr> mMinCorner = vec 0 0 0,
                mMaxCorner = vec 1 1 1,
                mNumPoints = (2, 2, 2),
                mContents = [vec 1 0 0, vec (- 2) 0 0] @ replicate 6 (vec 0 0 0) \<rparr>"

definition vortonGrid :: "float Vec3 \<Rightarrow> Vorton UniformGrid" where
  "vortonGrid position =
     \<lparr> mMinCorner = vec 0 0 0,
       mMaxCorner = vec 1 1 1,
       mNumPoints = (2, 2, 2),
       mContents = map (\<lambda>w. \<lparr> mPosition = position, mVorticity = w \<rparr>)
                     ([vec 0 0 0] @ replicate 7 (vec 2 0 0)) \<rparr>"


definition infGrid :: "float Vec3 UniformGrid" where
  "infGrid = \<lparr> mMinCorner = vec 0 0 0,
               mMaxCorner = vec 1 1 1,
               mNumPoints = (2, 2, 2),
               mContents = replicate 8 \<lparr> vx = PosInf, vy = Finite 0, vz = Finite 0 \<rparr> \<rparr>"

text \<open>
  A grid of the unit cube with ten cells along x, whose cell spacing is the float nearest
  to \<^verbatim>\<open>0.1\<close>, and the position whose x is the float nearest to \<^verbatim>\<open>0.7\<close>.
\<close>

definition tenthGrid :: "nat UniformGrid" where
  "tenthGrid = \<lparr> mMinCorner = vec 0 0 0,
                 mMaxCorner = vec 1 1 1,
                 mNumPoints = (11, 2, 2),
                 mContents = replicate 44 0 \<rparr>"

definition tenthProbe :: "float Vec3" where
  "tenthProbe = vec (11744051 / 2 ^ 24) (1 / 2) (1 / 2)"

text \<open>A grid that stores one positive zero and then negative zeros.\<close>

definition signGrid :: "float Vec3 UniformGrid" where
  "signGrid = \<lparr> mMinCorner = vec 0 0 0,
                mMaxCorner = vec 1 1 1,
                mNumPoints = (2, 2, 2),
                mContents = [vec 0 0 0]
                  @ replicate 7 \<lparr> vx = NegZero, vy = NegZero, vz = NegZero \<rparr> \<rparr>"

definition vorticityGrid :: "float Vec3 UniformGrid" where
  "vorticityGrid = \<lparr> mMinCorner = vec 0 0 0,
                     mMaxCorner = vec 1 1 1,
                     mNumPoints = (2, 2, 2),
                     mContents = [vec 0 0 0] @ replicate 7 (vec 2 0 0) \<rparr>"

definition zeroGrid :: "float Vec3 UniformGrid" where
  "zeroGrid = \<lparr> mMinCorner = vec 0 0 0,
                mMaxCorner = vec 1 1 1,
                mNumPoints = (2, 2, 2),
                mContents = replicate 8 (vec 0 0 0) \<rparr>"

text \<open>A file system in which one name cannot be opened.\<close>

definition fsWithout :: "string \<Rightarrow> filesystem" where
  "fsWithout name = \<lparr> files = (\<lambda>n. None), writable = (\<lambda>n. n \<noteq> name) \<rparr>"
section \<open>Properties of rounding\<close>

lemma rne_mono: "a \<le> b \<Longrightarrow> rne a \<le> rne b"
proof -
  assume ab: "a \<le> b"
  have fl: "\<lfloor>a\<rfloor> \<le> \<lfloor>b\<rfloor>" using ab by (rule floor_mono)
  show ?thesis
  proof (cases "\<lfloor>a\<rfloor> = \<lfloor>b\<rfloor>")
    case True
    then show ?thesis using ab by (auto simp: rne_def Let_def)
  next
    case False
    then have "\<lfloor>a\<rfloor> + 1 \<le> \<lfloor>b\<rfloor>" using fl by simp
    moreover have "rne a \<le> \<lfloor>a\<rfloor> + 1" by (simp add: rne_def Let_def)
    moreover have "\<lfloor>b\<rfloor> \<le> rne b" by (simp add: rne_def Let_def)
    ultimately show ?thesis by linarith
  qed
qed

lemma rne_of_int: "rne (of_int k) = k"
  by (simp add: rne_def Let_def)

lemma rne_err: "\<bar>of_int (rne v) - v\<bar> \<le> 1/2"
  unfolding rne_def Let_def by (auto; linarith)

lemma binade_from_bounds: "e \<le> binade_from n e v \<and> binade_from n e v \<le> e + int n"
proof (induction n arbitrary: e)
  case 0 then show ?case by simp
next
  case (Suc n)
  show ?case using Suc.IH [of "e + 1"] by auto
qed

lemma binade_from_upper: "binade_from n e v < e + int n \<Longrightarrow> \<bar>v\<bar> < 2 powi (binade_from n e v + 1)"
proof (induction n arbitrary: e)
  case 0 then show ?case by simp
next
  case (Suc n)
  show ?case
  proof (cases "\<bar>v\<bar> < 2 powi (e + 1)")
    case True then show ?thesis by simp
  next
    case False
    then have "binade_from (Suc n) e v = binade_from n (e + 1) v" by simp
    moreover have "binade_from n (e + 1) v < (e + 1) + int n" using Suc.prems False by simp
    ultimately show ?thesis using Suc.IH [of "e + 1"] by simp
  qed
qed

lemma binade_from_lower: "e < binade_from n e v \<Longrightarrow> 2 powi (binade_from n e v) \<le> \<bar>v\<bar>"
proof (induction n arbitrary: e)
  case 0 then show ?case by simp
next
  case (Suc n)
  show ?case
  proof (cases "\<bar>v\<bar> < 2 powi (e + 1)")
    case True then show ?thesis using Suc.prems by simp
  next
    case False
    then have eq: "binade_from (Suc n) e v = binade_from n (e + 1) v" by simp
    show ?thesis
    proof (cases "e + 1 < binade_from n (e + 1) v")
      case True
      then show ?thesis using Suc.IH [of "e + 1"] eq by simp
    next
      case F2: False
      then have "binade_from n (e + 1) v = e + 1" using binade_from_bounds [of "e + 1" n v] by linarith
      then show ?thesis using False eq by simp
    qed
  qed
qed


lemma rtf_grd: "round_to_float v = grd (binade v) v"
  by (simp add: round_to_float_def grd_def Let_def)

lemma p2pos: "(0::real) < 2 powi e"
  by (simp add: zero_less_power_int)

lemma grd_mono: "a \<le> b \<Longrightarrow> grd e a \<le> grd e b"
proof -
  assume "a \<le> b"
  then have "a / 2 powi (e - 23) \<le> b / 2 powi (e - 23)"
    using p2pos [of "e - 23"] by (simp add: divide_right_mono)
  then have "rne (a / 2 powi (e - 23)) \<le> rne (b / 2 powi (e - 23))" by (rule rne_mono)
  then show ?thesis
    unfolding grd_def using p2pos [of "e - 23"] by (simp add: mult_left_mono)
qed

lemma grd_exact: "v = of_int k * 2 powi (e - 23) \<Longrightarrow> grd e v = v"
  using p2pos [of "e - 23"] by (simp add: grd_def rne_of_int)

lemma grd_p2: "d \<ge> e - 23 \<Longrightarrow> grd e (2 powi d) = 2 powi d"
proof -
  assume d: "d \<ge> e - 23"
  have "(2::real) powi d = 2 powi (d - (e - 23)) * 2 powi (e - 23)"
    by (simp flip: power_int_add)
  also have "(2::real) powi (d - (e - 23)) = of_int (2 ^ nat (d - (e - 23)))"
    using d by (simp add: power_int_nonneg_exp)
  finally show ?thesis by (rule grd_exact)
qed

lemma binade_range: "-126 \<le> binade v \<and> binade v \<le> 128"
  using binade_from_bounds [of "-126" 254 v] by (simp add: binade_def)

lemma binade_upper: "binade v < 128 \<Longrightarrow> \<bar>v\<bar> < 2 powi (binade v + 1)"
  using binade_from_upper [of 254 "-126" v] by (simp add: binade_def)

lemma binade_lower: "-126 < binade v \<Longrightarrow> 2 powi (binade v) \<le> \<bar>v\<bar>"
  using binade_from_lower [of "-126" 254 v] by (simp add: binade_def)

lemma binade_from_mono: "\<bar>a\<bar> \<le> \<bar>b\<bar> \<Longrightarrow> binade_from n e a \<le> binade_from n e b"
proof (induction n arbitrary: e)
  case 0 then show ?case by simp
next
  case (Suc n)
  show ?case
    using Suc.IH [OF Suc.prems, of "e + 1"] Suc.prems binade_from_bounds [of "e + 1" n b]
    by auto
qed

lemma binade_mono: "\<bar>a\<bar> \<le> \<bar>b\<bar> \<Longrightarrow> binade a \<le> binade b"
  by (simp add: binade_def binade_from_mono)

lemma rtf_mono_nonneg:
  assumes "0 \<le> a" "a \<le> b"
  shows "round_to_float a \<le> round_to_float b"
proof -
  have le: "binade a \<le> binade b" using assms by (intro binade_mono) simp
  show ?thesis
  proof (cases "binade a = binade b")
    case True
    then show ?thesis using grd_mono [OF assms(2)] by (simp add: rtf_grd)
  next
    case False
    then have lt: "binade a < binade b" using le by simp
    have "binade a < 128" using lt binade_range [of b] by linarith
    then have a: "a \<le> 2 powi (binade a + 1)" using binade_upper [of a] assms by simp
    have "-126 < binade b" using lt binade_range [of a] by linarith
    then have b: "2 powi (binade b) \<le> b" using binade_lower [of b] assms by simp
    have "grd (binade a) a \<le> grd (binade a) (2 powi (binade a + 1))" using a by (rule grd_mono)
    also have "\<dots> = 2 powi (binade a + 1)" by (rule grd_p2) simp
    also have "\<dots> \<le> 2 powi (binade b)" using lt by (intro power_int_increasing) simp_all
    also have "\<dots> = grd (binade b) (2 powi (binade b))" by (rule grd_p2 [symmetric]) simp
    also have "\<dots> \<le> grd (binade b) b" using b by (rule grd_mono)
    finally show ?thesis by (simp add: rtf_grd)
  qed
qed

lemma rtf_zero: "round_to_float 0 = 0"
  by (simp add: round_to_float_def rne_def)

lemma rtf_exact:
  assumes "v = of_int m * 2 powi e" "\<bar>m\<bar> < 2 ^ 24" "-149 \<le> e"
  shows "round_to_float v = v"
proof (cases "binade v - 23 \<le> e")
  case True
  have "v = of_int (m * 2 ^ nat (e - (binade v - 23))) * 2 powi (binade v - 23)"
  proof -
    have "(2::real) powi e = 2 powi (e - (binade v - 23)) * 2 powi (binade v - 23)"
      by (simp flip: power_int_add)
    also have "(2::real) powi (e - (binade v - 23)) = 2 ^ nat (e - (binade v - 23))"
      using True by (simp add: power_int_nonneg_exp)
    finally show ?thesis using assms(1) by simp
  qed
  then show ?thesis unfolding rtf_grd by (rule grd_exact)
next
  case False
  then have "-126 < binade v" using assms(3) by linarith
  then have "2 powi (binade v) \<le> \<bar>v\<bar>" by (rule binade_lower)
  also have "\<bar>v\<bar> = of_int \<bar>m\<bar> * 2 powi e"
    using p2pos [of e] by (simp add: assms(1) abs_mult)
  also have "\<dots> < 2 ^ 24 * 2 powi e"
  proof -
    have "(of_int \<bar>m\<bar> :: real) < of_int (2 ^ 24)" using assms(2) by (simp only: of_int_less_iff)
    then show ?thesis using p2pos [of e] by simp
  qed
  also have "\<dots> = 2 powi (24 + e)" by (simp add: power_int_add)
  finally have lt: "(2::real) powi (binade v) < 2 powi (24 + e)" .
  have "binade v < 24 + e"
  proof (rule ccontr)
    assume "\<not> binade v < 24 + e"
    then have "(2::real) powi (24 + e) \<le> 2 powi (binade v)"
      by (intro power_int_increasing) simp_all
    then show False using lt by simp
  qed
  then show ?thesis using False by simp
qed


section \<open>The arithmetic on finite numbers\<close>

lemma fl_eq:
  "fl v = (let r = round_to_float v in
           if flt_max < r then PosInf else if r < - flt_max then NegInf
           else if r = 0 then signed_zero (v < 0) else Finite r)"
  by (simp add: fl_def fls_def Let_def)

lemma flt_max_gt0: "0 < flt_max"
  by (simp add: flt_max_def)

lemma fl_0 [simp]: "fl 0 = Finite 0"
  using flt_max_gt0 by (simp add: fl_eq rtf_zero signed_zero_def)

lemma fls_eq [simp]: "fls neg v = (if v = 0 \<and> neg then NegZero else fl v)"
  using flt_max_gt0 by (auto simp: fl_def fls_def Let_def rtf_zero signed_zero_def)

lemma fadd_Finite [simp]: "fadd (Finite a) (Finite b) = fl (a + b)"
  by (auto simp: fadd_def)

lemma fadd_NegZero [simp]:
  "fadd (Finite a) NegZero = fl a" "fadd NegZero (Finite b) = fl b"
  "fadd NegZero NegZero = NegZero"
  by (auto simp: fadd_def)

lemma fsub_Finite: "fsub (Finite a) (Finite b) = fl (a - b)"
  by (simp add: fsub_def)

lemma fsub_NegZero:
  "fsub (Finite a) NegZero = fl a" "fsub NegZero (Finite b) = (if b = 0 then NegZero else fl (- b))"
  "fsub NegZero NegZero = Finite 0"
  by (simp_all add: fsub_def)

lemma fmul_Finite [simp]:
  "fmul (Finite a) (Finite b) = (if a * b = 0 \<and> (a < 0) \<noteq> (b < 0) then NegZero else fl (a * b))"
  by (simp add: fmul_def)

lemma fmul_NegZero [simp]:
  "fmul NegZero (Finite b) = signed_zero (\<not> b < 0)" "fmul (Finite a) NegZero = signed_zero (\<not> a < 0)"
  "fmul NegZero NegZero = Finite 0"
  by (simp_all add: fmul_def signed_zero_def)

lemma fdiv_Finite [simp]:
  "fdiv (Finite a) (Finite b) =
     (if b = 0 then (if a = 0 then NaN else if 0 < a then PosInf else NegInf)
      else if a = 0 \<and> b < 0 then NegZero else fl (a / b))"
  by (auto simp: fdiv_def infinity_def)

lemma fdiv_NegZero [simp]:
  "fdiv NegZero (Finite b) = (if b = 0 then NaN else signed_zero (\<not> b < 0))"
  "fdiv (Finite a) NegZero = (if a = 0 then NaN else if 0 < a then NegInf else PosInf)"
  "fdiv NegZero NegZero = NaN"
  by (auto simp: fdiv_def infinity_def signed_zero_def)

lemma fneg_nonzero: "a \<noteq> 0 \<Longrightarrow> fneg (Finite a) = Finite (- a)"
  by simp
section \<open>Facts about the float operations\<close>

lemma flt_max_pos: "0 < flt_max"
  by (simp add: flt_max_def)

lemma flt_min_pos: "0 < flt_min"
  by (simp add: flt_min_def)

lemma rtf_nonneg: "0 \<le> v \<Longrightarrow> 0 \<le> round_to_float v"
  using rtf_mono_nonneg [of 0 v] by (simp add: rtf_zero)

lemma rtf_flt_max: "round_to_float flt_max = flt_max"
  by (rule rtf_exact [of _ "2 ^ 24 - 1" 104]) (simp_all add: flt_max_def)

lemma rtf_flt_min: "round_to_float flt_min = flt_min"
  by (rule rtf_exact [of _ 1 "-126"]) (simp_all add: flt_min_def)

lemma rtf_one: "round_to_float 1 = 1"
  by (rule rtf_exact [of _ 1 0]) simp_all

lemma rtf_half: "round_to_float (1 / 2) = 1 / 2"
  by (rule rtf_exact [of _ 1 "-1"]) simp_all

lemma rtf_almost256: "round_to_float (8388607 / 32768) = 8388607 / 32768"
  by (rule rtf_exact [of _ 8388607 "-15"]) simp_all

lemma rtf_almost128: "round_to_float (8388607 / 65536) = 8388607 / 65536"
  by (rule rtf_exact [of _ 8388607 "-16"]) simp_all

lemma fl_Finite: "0 \<le> v \<Longrightarrow> round_to_float v \<le> flt_max \<Longrightarrow> fl v = Finite (round_to_float v)"
  using rtf_nonneg [of v] flt_max_pos by (simp add: fl_eq Let_def signed_zero_def)

lemma fl_bounded: "0 \<le> v \<Longrightarrow> v \<le> b \<Longrightarrow> round_to_float b = b \<Longrightarrow> b \<le> flt_max
    \<Longrightarrow> fl v = Finite (round_to_float v) \<and> 0 \<le> round_to_float v \<and> round_to_float v \<le> b"
  using rtf_mono_nonneg [of v b] rtf_nonneg [of v] fl_Finite [of v] by simp

lemma fAlmost256_val: "fAlmost256 = Finite (8388607 / 32768)"
proof -
  have a: "round_to_float (8388607 / 8388608) = 8388607 / 8388608"
    by (rule rtf_exact [of _ 8388607 "-23"]) simp_all
  have "fsub (Finite 1) FLT_EPSILON = fl (8388607 / 8388608)"
    by (simp add: fsub_def FLT_EPSILON_def flt_epsilon_def)
  also have "\<dots> = Finite (8388607 / 8388608)"
    using fl_Finite [of "8388607 / 8388608"] a by (simp add: flt_max_def)
  finally have s: "fsub (Finite 1) FLT_EPSILON = Finite (8388607 / 8388608)" .
  have "fmul (Finite 256) (Finite (8388607 / 8388608)) = fl (8388607 / 32768)"
    by simp
  also have "\<dots> = Finite (8388607 / 32768)"
    using fl_Finite [of "8388607 / 32768"] rtf_almost256 by (simp add: flt_max_def)
  finally show ?thesis by (simp add: fAlmost256_def s)
qed

lemma MAX2_Finite: "MAX2 (Finite a) (Finite b) = Finite (max a b)"
  by (simp add: MAX2_def max_def)

lemma MIN2_Finite: "MIN2 (Finite a) (Finite b) = Finite (min a b)"
  by (simp add: MIN2_def min_def)

text \<open>The three roundings of one channel, on the reals.\<close>

lemma channel_real:
  assumes d: "0 \<le> d" "d \<le> D" and D: "round_to_float D \<le> flt_max"
    and R: "R = max (round_to_float D) flt_min"
  shows "fsub (Finite (d + mn)) (Finite mn) = Finite (round_to_float d)"
    and "0 \<le> round_to_float d" and "round_to_float d \<le> R" and "0 < R"
    and "channel0to1 (Finite mn) (Finite R) (Finite (d + mn))
           = Finite (round_to_float (round_to_float d / R))"
    and "0 \<le> round_to_float (round_to_float d / R)"
    and "round_to_float (round_to_float d / R) \<le> 1"
    and "channel0to255 (Finite mn) (Finite R) (Finite (d + mn))
           = Finite (round_to_float (round_to_float (round_to_float d / R) * (8388607 / 32768)))"
    and "0 \<le> round_to_float (round_to_float (round_to_float d / R) * (8388607 / 32768))"
    and "round_to_float (round_to_float (round_to_float d / R) * (8388607 / 32768)) \<le> 8388607 / 32768"
proof -
  let ?rd = "round_to_float d"
  let ?q = "round_to_float (?rd / R)"
  let ?A = "8388607 / 32768 :: real"
  let ?p = "round_to_float (?q * ?A)"
  have rd0: "0 \<le> ?rd" using d by (simp add: rtf_nonneg)
  have rdD: "?rd \<le> round_to_float D" using d by (rule rtf_mono_nonneg)
  show rdR: "?rd \<le> R" using rdD R by simp
  show Rpos: "0 < R" using R flt_min_pos by simp
  show "0 \<le> ?rd" by (rule rd0)
  have "fl d = Finite ?rd" using fl_Finite [of d] d rdD D by simp
  then show s: "fsub (Finite (d + mn)) (Finite mn) = Finite ?rd"
    by (simp add: fsub_Finite)
  have r0: "0 \<le> ?rd / R" using rd0 Rpos by simp
  have r1: "?rd / R \<le> 1" using rdR Rpos by simp
  have q: "fl (?rd / R) = Finite ?q \<and> 0 \<le> ?q \<and> ?q \<le> 1"
    using fl_bounded [OF r0 r1 rtf_one] by (simp add: flt_max_def)
  show c1: "channel0to1 (Finite mn) (Finite R) (Finite (d + mn)) = Finite ?q"
    using q Rpos by (simp add: channel0to1_def s)
  show "0 \<le> ?q" "?q \<le> 1" using q by simp_all
  have m0: "0 \<le> ?q * ?A" using q by simp
  have m1: "?q * ?A \<le> ?A" using q by simp
  have p: "fl (?q * ?A) = Finite ?p \<and> 0 \<le> ?p \<and> ?p \<le> ?A"
    using fl_bounded [OF m0 m1 rtf_almost256] by (simp add: flt_max_def)
  show "channel0to255 (Finite mn) (Finite R) (Finite (d + mn)) = Finite ?p"
    using p by (simp add: channel0to255_def c1 fAlmost256_val)
  show "0 \<le> ?p" "?p \<le> ?A" using p by simp_all
qed

lemma float_to_int_byte:
  assumes "0 \<le> p" "p \<le> 8388607 / 32768"
  shows "float_to_int (Finite p) = Inr \<lfloor>p\<rfloor>" and "0 \<le> \<lfloor>p\<rfloor>" and "\<lfloor>p\<rfloor> \<le> 255"
proof -
  show "0 \<le> \<lfloor>p\<rfloor>" using assms by simp
  have "p < 256" using assms by simp
  then have "\<lfloor>p\<rfloor> < 256" by (simp add: floor_less_iff)
  then show "\<lfloor>p\<rfloor> \<le> 255" by simp
  show "float_to_int (Finite p) = Inr \<lfloor>p\<rfloor>" using assms by simp
qed

lemma andThen_ASSERT: "andThen (ASSERT c) f = (if c then f () else Inl AssertionFailed)"
  by (simp add: andThen_def ASSERT_def)

lemma andThen_Inr: "andThen (Inr v) f = f v"
  by (simp add: andThen_def)

lemma andThen_Inl: "andThen (Inl e) f = Inl e"
  by (simp add: andThen_def)

lemma quantize_float_char:
  "quantize_float fMin fRange rVal =
     (if f_le (Finite 0) (fsub rVal fMin) \<and> in0to1 (channel0to1 fMin fRange rVal)
      then andThen (float_to_int (channel0to255 fMin fRange rVal))
             (\<lambda>iVal. if isByte iVal then Inr (to_uchar iVal) else Inl AssertionFailed)
      else Inl AssertionFailed)"
  by (simp add: quantize_float_def Let_def andThen_ASSERT channel0to1_def
      channel0to255_def in0to1_def isByte_def)



lemma plainFloat_iff: "plainFloat (Finite a) \<longleftrightarrow> round_to_float a = a \<and> \<bar>a\<bar> \<le> flt_max"
  by (auto simp: fl_eq Let_def signed_zero_def split: if_splits)

lemma if_chain: "(if a then (if b then X else E) else E) = (if a \<and> b then X else E)"
  by simp

lemma quantize_Vec3_char:
  "quantize_Vec3 enforce vMin vRange fMagMax rVec =
     (if f_le (Finite 0) (Magnitude rVec) \<and> f_le (Magnitude rVec) fMagMax \<and>
         channelChecks (vx vMin) (vx vRange) (vx rVec) \<and>
         channelChecks (vy vMin) (vy vRange) (vy rVec) \<and>
         channelChecks (vz vMin) (vz vRange) (vz rVec)
      then andThen (float_to_int (channel0to255 (vx vMin) (vx vRange) (vx rVec))) (\<lambda>i0.
           andThen (float_to_int (channel0to255 (vy vMin) (vy vRange) (vy rVec))) (\<lambda>i1.
           andThen (float_to_int (channel0to255 (vz vMin) (vz vRange) (vz rVec))) (\<lambda>i2.
           andThen (float_to_int (magnitude0to255 fMagMax rVec)) (\<lambda>i3.
           if isByte i0 \<and> isByte i1 \<and> isByte i2 \<and> isByte i3 \<and>
              (enforce \<longrightarrow> signConsistent (vx rVec) i0 \<and> signConsistent (vy rVec) i1 \<and>
                       signConsistent (vz rVec) i2)
           then Inr (to_uchar i0, to_uchar i1, to_uchar i2, to_uchar i3)
           else Inl AssertionFailed))))
      else Inl AssertionFailed)"
  by (simp add: quantize_Vec3_def Let_def andThen_ASSERT channel0to1_def
      channel0to255_def channelChecks_def magnitude0to255_def vsub_def vscale_def
      if_chain conj_ac imp_conjR split del: if_split cong: if_cong)

lemma range_val:
  assumes "a \<le> b" "round_to_float (b - a) \<le> flt_max"
  shows "MAX2 (fsub (Finite b) (Finite a)) FLT_MIN = Finite (max (round_to_float (b - a)) flt_min)"
    and "MAX2 FLT_MIN (fsub (Finite b) (Finite a)) = Finite (max (round_to_float (b - a)) flt_min)"
proof -
  have "0 \<le> b - a" using assms by simp
  then have "fsub (Finite b) (Finite a) = Finite (round_to_float (b - a))"
    using fl_Finite assms(2) by (simp add: fsub_Finite)
  then show "MAX2 (fsub (Finite b) (Finite a)) FLT_MIN = Finite (max (round_to_float (b - a)) flt_min)"
    and "MAX2 FLT_MIN (fsub (Finite b) (Finite a)) = Finite (max (round_to_float (b - a)) flt_min)"
    by (simp_all add: FLT_MIN_def MAX2_Finite max.commute)
qed

lemma channel_facts:
  assumes "mn \<le> v" "v \<le> mx" "round_to_float (mx - mn) \<le> flt_max"
    and R: "R = max (round_to_float (mx - mn)) flt_min"
  shows "channel0to255 (Finite mn) (Finite R) (Finite v) = Finite (channelValue (v - mn) R)"
    and "0 \<le> channelValue (v - mn) R"
    and "channelValue (v - mn) R \<le> 8388607 / 32768"
    and "channelChecks (Finite mn) (Finite R) (Finite v)"
    and "in0to1 (channel0to1 (Finite mn) (Finite R) (Finite v))"
    and "float_to_int (channel0to255 (Finite mn) (Finite R) (Finite v))
           = Inr \<lfloor>channelValue (v - mn) R\<rfloor>"
    and "isByte \<lfloor>channelValue (v - mn) R\<rfloor>"
proof -
  have d: "0 \<le> v - mn" "v - mn \<le> mx - mn" using assms by simp_all
  note c = channel_real [OF d assms(3) R]
  show c2: "channel0to255 (Finite mn) (Finite R) (Finite v) = Finite (channelValue (v - mn) R)"
    using c(8) [of mn] by (simp add: channelValue_def)
  show p0: "0 \<le> channelValue (v - mn) R" using c(9) by (simp add: channelValue_def)
  show p1: "channelValue (v - mn) R \<le> 8388607 / 32768" using c(10) by (simp add: channelValue_def)
  show i: "in0to1 (channel0to1 (Finite mn) (Finite R) (Finite v))"
    using c(5) [of mn] c(6) c(7) by (simp add: in0to1_def)
  show "channelChecks (Finite mn) (Finite R) (Finite v)"
    using i c(1) [of mn] c(2) p0 p1 by (simp add: channelChecks_def c2 in0to256_def)
  note b = float_to_int_byte [OF p0 p1]
  show "float_to_int (channel0to255 (Finite mn) (Finite R) (Finite v))
           = Inr \<lfloor>channelValue (v - mn) R\<rfloor>"
    using b(1) by (simp only: c2)
  show "isByte \<lfloor>channelValue (v - mn) R\<rfloor>" using b by (simp add: isByte_def)
qed

lemma channelValue_min: "channelValue 0 R = 0"
  by (simp add: channelValue_def rtf_zero)

lemma channelValue_max:
  assumes "0 < round_to_float D"
  shows "channelValue D (round_to_float D) = 8388607 / 32768"
  using assms rtf_almost256 by (simp add: channelValue_def rtf_one)

lemma floor_almost256: "\<lfloor>8388607 / 32768 :: real\<rfloor> = 255"
  by simp


section \<open>Facts about the loop bodies\<close>

lemma vecRange_vec:
  assumes "withinRange a1 b1 c1" "withinRange a2 b2 c2" "withinRange a3 b3 c3"
  shows "vecRange (vec a1 a2 a3) (vec b1 b2 b3) =
           \<lparr> vx = Finite (max (round_to_float (b1 - a1)) flt_min),
             vy = Finite (max (round_to_float (b2 - a2)) flt_min),
             vz = Finite (max (round_to_float (b3 - a3)) flt_min) \<rparr>"
  using assms range_val(2) [of a1 b1] range_val(2) [of a2 b2] range_val(2) [of a3 b3]
  by (simp add: vecRange_def vec_def vsub_def withinRange_def Let_def)

lemma quantize_Vec3_ok:
  assumes r: "withinRange a1 b1 c1" "withinRange a2 b2 c2" "withinRange a3 b3 c3"
    and mag: "f_le (Finite 0) (Magnitude (vec c1 c2 c3))"
      "f_le (Magnitude (vec c1 c2 c3)) fMagMax"
      "float_to_int (magnitude0to255 fMagMax (vec c1 c2 c3)) = Inr i3" "isByte i3"
    and i: "i0 = \<lfloor>channelValue (c1 - a1) (max (round_to_float (b1 - a1)) flt_min)\<rfloor>"
      "i1 = \<lfloor>channelValue (c2 - a2) (max (round_to_float (b2 - a2)) flt_min)\<rfloor>"
      "i2 = \<lfloor>channelValue (c3 - a3) (max (round_to_float (b3 - a3)) flt_min)\<rfloor>"
    and s: "enforce \<longrightarrow> signConsistent (Finite c1) i0 \<and> signConsistent (Finite c2) i1 \<and>
              signConsistent (Finite c3) i2"
  shows "quantize_Vec3 enforce (vec a1 a2 a3) (vecRange (vec a1 a2 a3) (vec b1 b2 b3)) fMagMax
           (vec c1 c2 c3) = Inr (to_uchar i0, to_uchar i1, to_uchar i2, to_uchar i3)"
    and "isByte i0 \<and> isByte i1 \<and> isByte i2"
proof -
  note f1 = channel_facts [OF r(1) [unfolded withinRange_def, THEN conjunct1]
      r(1) [unfolded withinRange_def, THEN conjunct2, THEN conjunct1]
      r(1) [unfolded withinRange_def, THEN conjunct2, THEN conjunct2] refl]
  note f2 = channel_facts [OF r(2) [unfolded withinRange_def, THEN conjunct1]
      r(2) [unfolded withinRange_def, THEN conjunct2, THEN conjunct1]
      r(2) [unfolded withinRange_def, THEN conjunct2, THEN conjunct2] refl]
  note f3 = channel_facts [OF r(3) [unfolded withinRange_def, THEN conjunct1]
      r(3) [unfolded withinRange_def, THEN conjunct2, THEN conjunct1]
      r(3) [unfolded withinRange_def, THEN conjunct2, THEN conjunct2] refl]
  show b: "isByte i0 \<and> isByte i1 \<and> isByte i2"
    using f1(7) f2(7) f3(7) by (simp add: i)
  have v: "vx (vec a1 a2 a3) = Finite a1" "vy (vec a1 a2 a3) = Finite a2"
    "vz (vec a1 a2 a3) = Finite a3" "vx (vec c1 c2 c3) = Finite c1"
    "vy (vec c1 c2 c3) = Finite c2" "vz (vec c1 c2 c3) = Finite c3"
    by (simp_all add: vec_def)
  show "quantize_Vec3 enforce (vec a1 a2 a3) (vecRange (vec a1 a2 a3) (vec b1 b2 b3)) fMagMax
           (vec c1 c2 c3) = Inr (to_uchar i0, to_uchar i1, to_uchar i2, to_uchar i3)"
    unfolding quantize_Vec3_char vecRange_vec [OF r]
    using mag b s f1(4) f2(4) f3(4)
    by (simp add: v f1(6) f2(6) f3(6) andThen_Inr i del: float_to_int.simps)
qed

lemma quantize_float_ok:
  assumes "withinRange mn mx v" and R: "R = max (round_to_float (mx - mn)) flt_min"
  shows "quantize_float (Finite mn) (Finite R) (Finite v) = Inr (to_uchar \<lfloor>channelValue (v - mn) R\<rfloor>)"
proof -
  note f = channel_facts [OF assms(1) [unfolded withinRange_def, THEN conjunct1]
      assms(1) [unfolded withinRange_def, THEN conjunct2, THEN conjunct1]
      assms(1) [unfolded withinRange_def, THEN conjunct2, THEN conjunct2] R]
  show ?thesis
    unfolding quantize_float_char
    using f(4) f(5) f(7) by (simp add: f(6) andThen_Inr channelChecks_def del: float_to_int.simps)
qed

lemma withinRange_ends:
  assumes "withinRange mn mx v"
  shows "withinRange mn mx mn" and "withinRange mn mx mx"
  using assms by (simp_all add: withinRange_def)

lemma to_uchar_0: "to_uchar 0 = 0"
  by (simp add: to_uchar_def)

lemma to_uchar_255: "to_uchar 255 = 255"
  by (simp add: to_uchar_def)

lemma fl_exact:
  assumes "v = of_int m * 2 powi e" "\<bar>m\<bar> < 2 ^ 24" "-149 \<le> e" "\<bar>v\<bar> \<le> flt_max"
  shows "fl v = Finite v"
proof -
  have "\<not> flt_max < v" "\<not> v < - flt_max" using assms(4) by linarith+
  then show ?thesis
    using rtf_exact [OF assms(1-3)] by (simp add: fl_eq Let_def signed_zero_def)
qed

lemma fl_zero: "fl 0 = Finite 0"
  using fl_exact [of 0 0 0] flt_max_pos by simp





lemma Magnitude_zero: "Magnitude (vec 0 0 0) = Finite 0"
  by (simp add: Magnitude_def vec_def fl_zero)

lemma magnitude0to255_zero: "0 < b \<Longrightarrow> magnitude0to255 (Finite b) (vec 0 0 0) = Finite 0"
  by (simp add: magnitude0to255_def Magnitude_zero fAlmost256_val fl_zero)



lemma vneg_vec:
  "a \<noteq> 0 \<Longrightarrow> b \<noteq> 0 \<Longrightarrow> c \<noteq> 0 \<Longrightarrow> vneg (vec a b c) = vec (- a) (- b) (- c)"
  by (simp add: vneg_def vec_def)


lemma binade_eq:
  assumes "2 powi e \<le> \<bar>v\<bar>" "\<bar>v\<bar> < 2 powi (e + 1)" "-126 \<le> e" "e \<le> 127"
  shows "binade v = e"
proof (rule ccontr)
  assume ne: "binade v \<noteq> e"
  show False
  proof (cases "binade v < e")
    case True
    then have "binade v < 128" using assms(4) by linarith
    then have "\<bar>v\<bar> < 2 powi (binade v + 1)" by (rule binade_upper)
    also have "\<dots> \<le> 2 powi e" using True by (intro power_int_increasing) simp_all
    finally show False using assms(1) by linarith
  next
    case False
    then have gt: "e < binade v" using ne by linarith
    then have "-126 < binade v" using assms(3) by linarith
    then have "2 powi (binade v) \<le> \<bar>v\<bar>" by (rule binade_lower)
    moreover have "(2::real) powi (e + 1) \<le> 2 powi (binade v)"
      using gt by (intro power_int_increasing) simp_all
    ultimately show False using assms(2) by linarith
  qed
qed

lemma rtf_eval:
  assumes "2 powi e \<le> \<bar>v\<bar>" "\<bar>v\<bar> < 2 powi (e + 1)" "-126 \<le> e" "e \<le> 127"
  shows "round_to_float v = 2 powi (e - 23) * of_int (rne (v / 2 powi (e - 23)))"
  by (simp add: round_to_float_def Let_def binade_eq [OF assms])


lemma rtf_two: "round_to_float 2 = 2"
  by (rule rtf_exact [of _ 1 1]) simp_all



lemma floor_almost128: "\<lfloor>8388607 / 65536 :: real\<rfloor> = 127"
  by simp


lemma withinRange_0: "withinRange 0 0 0"
  by (simp add: withinRange_def rtf_zero flt_max_def)


section \<open>The sign of a zero does not reach the bytes\<close>

lemma dropSign_number: "isNumber a \<Longrightarrow> dropSign a = Finite (realOf a)"
  by (cases a) simp_all

lemma f_le_dropSign: "f_le a b = f_le (dropSign a) (dropSign b)"
  by (cases a; cases b) simp_all

lemma f_less_dropSign: "f_less a b = f_less (dropSign a) (dropSign b)"
  by (cases a; cases b) simp_all

lemma fsub_dropSign: "dropSign (fsub c a) = dropSign (fsub (dropSign c) (dropSign a))"
  by (cases a; cases c) (simp_all add: fsub_def fadd_def)

lemma fdiv_dropSign: "dropSign (fdiv a b) = dropSign (fdiv (dropSign a) b)"
  by (cases a; cases b) (auto simp: fdiv_def signed_zero_def)

lemma fmul_dropSign: "dropSign (fmul a b) = dropSign (fmul (dropSign a) b)"
  by (cases a; cases b) (auto simp: fmul_def signed_zero_def)

lemma float_to_int_dropSign: "float_to_int a = float_to_int (dropSign a)"
  by (cases a) simp_all

lemma dropSign_idem [simp]: "dropSign (dropSign a) = dropSign a"
  by (cases a) simp_all

lemma MAX2_FLT_MIN_dropSign:
  "dropSign a = dropSign b \<Longrightarrow> MAX2 a FLT_MIN = MAX2 b FLT_MIN"
  "dropSign a = dropSign b \<Longrightarrow> MAX2 FLT_MIN a = MAX2 FLT_MIN b"
  using flt_min_pos
  by (cases a; cases b; simp add: MAX2_def FLT_MIN_def)+

lemma channel_dropSign:
  assumes "dropSign a = dropSign a'" "dropSign c = dropSign c'"
  shows "dropSign (fsub c a) = dropSign (fsub c' a')"
    and "dropSign (channel0to1 a R c) = dropSign (channel0to1 a' R c')"
    and "dropSign (channel0to255 a R c) = dropSign (channel0to255 a' R c')"
    and "channelChecks a R c = channelChecks a' R c'"
    and "channelInt a R c = channelInt a' R c'"
proof -
  show s: "dropSign (fsub c a) = dropSign (fsub c' a')"
    using fsub_dropSign [of c a] fsub_dropSign [of c' a'] assms by simp
  show n: "dropSign (channel0to1 a R c) = dropSign (channel0to1 a' R c')"
    unfolding channel0to1_def
    using fdiv_dropSign [of "fsub c a" R] fdiv_dropSign [of "fsub c' a'" R] s by simp
  show p: "dropSign (channel0to255 a R c) = dropSign (channel0to255 a' R c')"
    unfolding channel0to255_def
    using fmul_dropSign [of "channel0to1 a R c" fAlmost256]
      fmul_dropSign [of "channel0to1 a' R c'" fAlmost256] n by simp
  show "channelChecks a R c = channelChecks a' R c'"
    unfolding channelChecks_def in0to1_def in0to256_def
    using f_le_dropSign [of "Finite 0" "fsub c a"] f_le_dropSign [of "Finite 0" "fsub c' a'"]
      f_le_dropSign [of "Finite 0" "channel0to1 a R c"]
      f_le_dropSign [of "Finite 0" "channel0to1 a' R c'"]
      f_le_dropSign [of "channel0to1 a R c" "Finite 1"]
      f_le_dropSign [of "channel0to1 a' R c'" "Finite 1"]
      f_le_dropSign [of "Finite 0" "channel0to255 a R c"]
      f_le_dropSign [of "Finite 0" "channel0to255 a' R c'"]
      f_less_dropSign [of "channel0to255 a R c" "Finite 256"]
      f_less_dropSign [of "channel0to255 a' R c'" "Finite 256"] s n p
    by simp
  show "channelInt a R c = channelInt a' R c'"
    unfolding channelInt_def
    using float_to_int_dropSign [of "channel0to255 a R c"]
      float_to_int_dropSign [of "channel0to255 a' R c'"] p by simp
qed


lemma Magnitude_dropSign:
  assumes "dropSign (vx v) = dropSign (vx w)" "dropSign (vy v) = dropSign (vy w)"
    "dropSign (vz v) = dropSign (vz w)"
  shows "Magnitude v = Magnitude w"
proof -
  have k: "isNaN a = isNaN b \<and> isInf a = isInf b \<and> realOf a = realOf b"
    if "dropSign a = dropSign b" for a b
    using that by (cases a; cases b) simp_all
  show ?thesis
    using k [OF assms(1)] k [OF assms(2)] k [OF assms(3)] by (simp add: Magnitude_def)
qed

lemma signConsistent_dropSign:
  "dropSign c = dropSign c' \<Longrightarrow> signConsistent c i = signConsistent c' i"
  unfolding signConsistent_def
  using f_le_dropSign [of "Finite 0" c] f_le_dropSign [of "Finite 0" c']
    f_le_dropSign [of c "Finite 0"] f_le_dropSign [of c' "Finite 0"]
  by simp

lemma quantize_Vec3_dropSign:
  assumes "dropSign (vx vMin) = dropSign (vx vMin')" "dropSign (vy vMin) = dropSign (vy vMin')"
    "dropSign (vz vMin) = dropSign (vz vMin')"
    and "dropSign (vx rVec) = dropSign (vx rVec')" "dropSign (vy rVec) = dropSign (vy rVec')"
    "dropSign (vz rVec) = dropSign (vz rVec')"
  shows "quantize_Vec3 enforce vMin vRange fMagMax rVec
       = quantize_Vec3 enforce vMin' vRange fMagMax rVec'"
proof -
  note x4 = channel_dropSign(4) [OF assms(1) assms(4), of "vx vRange"]
  note y4 = channel_dropSign(4) [OF assms(2) assms(5), of "vy vRange"]
  note z4 = channel_dropSign(4) [OF assms(3) assms(6), of "vz vRange"]
  note x5 = channel_dropSign(5) [OF assms(1) assms(4), of "vx vRange"]
  note y5 = channel_dropSign(5) [OF assms(2) assms(5), of "vy vRange"]
  note z5 = channel_dropSign(5) [OF assms(3) assms(6), of "vz vRange"]
  note m = Magnitude_dropSign [OF assms(4-6)]
  note s = signConsistent_dropSign [OF assms(4)] signConsistent_dropSign [OF assms(5)]
    signConsistent_dropSign [OF assms(6)]
  show ?thesis
    unfolding quantize_Vec3_char x4 y4 z4 m magnitude0to255_def
      x5 [unfolded channelInt_def] y5 [unfolded channelInt_def]
      z5 [unfolded channelInt_def] s
    by (rule refl)
qed

lemma vecRange_dropSign:
  assumes "dropSign (vx a) = dropSign (vx a')" "dropSign (vy a) = dropSign (vy a')"
    "dropSign (vz a) = dropSign (vz a')"
    and "dropSign (vx b) = dropSign (vx b')" "dropSign (vy b) = dropSign (vy b')"
    "dropSign (vz b) = dropSign (vz b')"
  shows "vecRange a b = vecRange a' b'"
  unfolding vecRange_def vsub_def Let_def Vec3.select_convs
  using MAX2_FLT_MIN_dropSign(2) [OF channel_dropSign(1) [OF assms(1) assms(4)]]
    MAX2_FLT_MIN_dropSign(2) [OF channel_dropSign(1) [OF assms(2) assms(5)]]
    MAX2_FLT_MIN_dropSign(2) [OF channel_dropSign(1) [OF assms(3) assms(6)]]
  by simp



subsection \<open>Bounds of one channel\<close>




subsection \<open>A channel with the symmetric range\<close>


section \<open>Facts about the position of a cell\<close>

lemma rtf_err: "\<bar>round_to_float v - v\<bar> \<le> max \<bar>v\<bar> flt_min * 2 powi (-24)"
proof -
  define e where "e = binade v"
  define q :: real where "q = 2 powi (e - 23)"
  have q: "0 < q" by (simp add: q_def p2pos)
  have r: "round_to_float v = q * of_int (rne (v / q))"
    by (simp add: round_to_float_def Let_def q_def e_def)
  have "round_to_float v - v = q * (of_int (rne (v / q)) - v / q)"
    using q by (simp add: r algebra_simps)
  then have "\<bar>round_to_float v - v\<bar> = q * \<bar>of_int (rne (v / q)) - v / q\<bar>"
    using q by (simp add: abs_mult)
  also have "\<dots> \<le> q * (1 / 2)"
    using rne_err [of "v / q"] q by (intro mult_left_mono) simp_all
  also have "q * (1 / 2) = 2 powi e * 2 powi (-24)"
  proof -
    have "(2::real) powi (e - 23) = 2 powi e * 2 powi (-23)"
      using power_int_add [of "2::real" e "-23"] by simp
    then show ?thesis by (simp add: q_def)
  qed
  also have "\<dots> \<le> max \<bar>v\<bar> flt_min * 2 powi (-24)"
  proof (intro mult_right_mono)
    show "2 powi e \<le> max \<bar>v\<bar> flt_min"
    proof (cases "-126 < e")
      case True
      then show ?thesis using binade_lower [of v] by (simp add: e_def)
    next
      case False
      then have "e = -126" using binade_range [of v] by (simp add: e_def)
      then show ?thesis by (simp add: flt_min_def)
    qed
    show "(0::real) \<le> 2 powi (-24)" by simp
  qed
  finally show ?thesis .
qed

lemma quotient_floor:
  fixes X S d q :: real and i :: nat
  assumes S: "flt_min \<le> S"
    and lo: "(1 + 2 * flt_epsilon) * (real i * S) \<le> X"
    and hi: "X \<le> (1 - 2 * flt_epsilon) * ((real i + 1) * S)"
    and d: "d = round_to_float X" and q: "q = round_to_float (d / S)"
  shows "0 \<le> d" and "real i \<le> q" and "q < real i + 1"
proof -
  define u :: real where "u = 2 powi (-24)"
  define T where "T = (real i + 1) * S"
  define B where "B = real i * S"
  define k where "k = real i + 1"
  have u: "0 < u" "u < 1" "2 * flt_epsilon = 4 * u" "u = 1 / 16777216"
    by (simp_all add: u_def flt_epsilon_def)
  have Sp: "0 < S" using S by (simp add: flt_min_def)
  have fm: "flt_min \<le> 1" by (simp add: flt_min_def)
  have k: "1 \<le> k" "0 \<le> k" by (simp_all add: k_def)
  have T: "T = k * S" by (simp add: T_def k_def)
  have T0: "0 \<le> T" using Sp k by (simp add: T)
  have B0: "0 \<le> B" using Sp by (simp add: B_def)
  have lo': "(1 + 4 * u) * B \<le> X" using lo by (simp only: u(3) B_def)
  have hi': "X \<le> (1 - 4 * u) * T" using hi by (simp only: u(3) T_def)
  have X0: "0 \<le> X"
  proof -
    have "0 \<le> (1 + 4 * u) * B" using B0 u by simp
    then show ?thesis using lo' by linarith
  qed
  show d0: "0 \<le> d" unfolding d by (rule rtf_nonneg [OF X0])
  have XT: "X \<le> T"
  proof -
    have "(1 - 4 * u) * T \<le> 1 * T" using T0 u by (intro mult_right_mono) simp_all
    then show ?thesis using hi' by linarith
  qed
  have ST: "S \<le> T"
  proof -
    have "1 * S \<le> k * S" using Sp k by (intro mult_right_mono) simp_all
    then show ?thesis by (simp add: T)
  qed
  have eX: "\<bar>d - X\<bar> \<le> max \<bar>X\<bar> flt_min * u"
    unfolding d u_def by (rule rtf_err)
  have "max \<bar>X\<bar> flt_min \<le> T" using X0 XT S ST by simp
  then have "max \<bar>X\<bar> flt_min * u \<le> T * u"
    using u by (intro mult_right_mono) simp_all
  then have "d \<le> X + T * u" using eX by linarith
  also have "\<dots> \<le> (1 - 4 * u) * T + T * u" using hi' by simp
  also have "\<dots> = (1 - 3 * u) * k * S" by (simp add: T algebra_simps)
  finally have "d \<le> (1 - 3 * u) * k * S" .
  then have dS: "d / S \<le> (1 - 3 * u) * k"
    using Sp by (simp add: pos_divide_le_eq)
  have dS0: "0 \<le> d / S" using d0 Sp by simp
  have "(1 - 3 * u) * k \<le> 1 * k" using u k by (intro mult_right_mono) simp_all
  then have dS1: "d / S \<le> k" using dS by linarith
  have eq: "\<bar>q - d / S\<bar> \<le> max \<bar>d / S\<bar> flt_min * u"
    unfolding q u_def by (rule rtf_err)
  have "max \<bar>d / S\<bar> flt_min \<le> k" using dS0 dS1 fm k by simp
  then have "max \<bar>d / S\<bar> flt_min * u \<le> k * u"
    using u by (intro mult_right_mono) simp_all
  then have "q \<le> d / S + k * u" using eq by linarith
  also have "\<dots> \<le> (1 - 3 * u) * k + k * u" using dS by simp
  also have "\<dots> = (1 - 2 * u) * k" by (simp add: algebra_simps)
  also have "\<dots> < 1 * k" using u k by (intro mult_strict_right_mono) simp_all
  finally show "q < real i + 1" by (simp add: k_def)
  show "real i \<le> q"
  proof (cases "i = 0")
    case True
    have "0 \<le> q" unfolding q by (rule rtf_nonneg [OF dS0])
    then show ?thesis using True by simp
  next
    case False
    define j where "j = real i"
    have i1: "1 \<le> j" "0 \<le> j" using False by (simp_all add: j_def)
    have B: "B = j * S" by (simp add: B_def j_def)
    have c1: "1 \<le> (1 + 4 * u) * (1 - u)" by (simp add: u(4))
    have c2: "1 \<le> (1 + 4 * u) * (1 - u) * (1 - u)" by (simp add: u(4))
    have "1 * S \<le> j * S" using Sp i1 by (intro mult_right_mono) simp_all
    then have SB: "S \<le> B" by (simp add: B)
    have "1 * B \<le> (1 + 4 * u) * B" using B0 u by (intro mult_right_mono) simp_all
    then have SX: "S \<le> X" using lo' SB by linarith
    then have "max \<bar>X\<bar> flt_min = X" using S X0 by simp
    then have "X - X * u \<le> d" using eX by (simp add: abs_le_iff)
    then have "X * (1 - u) \<le> d" by (simp add: algebra_simps)
    moreover have "(1 + 4 * u) * B * (1 - u) \<le> X * (1 - u)"
      using lo' u(1,2) by (intro mult_right_mono) simp_all
    ultimately have "(1 + 4 * u) * B * (1 - u) \<le> d" by linarith
    then have "((1 + 4 * u) * (1 - u) * j) * S \<le> d" by (simp add: B algebra_simps)
    then have lq: "(1 + 4 * u) * (1 - u) * j \<le> d / S"
      using Sp by (simp only: pos_le_divide_eq)
    define w where "w = d / S"
    have lw: "(1 + 4 * u) * (1 - u) * j \<le> w" using lq by (simp only: w_def)
    have ew: "\<bar>q - w\<bar> \<le> max \<bar>w\<bar> flt_min * u" using eq by (simp only: w_def)
    have "1 * j \<le> (1 + 4 * u) * (1 - u) * j"
      using c1 i1 by (intro mult_right_mono) simp_all
    then have "1 \<le> w" using lw i1 by linarith
    then have "\<bar>w\<bar> = w" "flt_min \<le> w" using fm by linarith+
    then have "max \<bar>w\<bar> flt_min = w" by (simp only: max_def) simp
    then have "w - w * u \<le> q" using ew by (simp add: abs_le_iff)
    then have a: "w * (1 - u) \<le> q" by (simp add: algebra_simps)
    have b: "(1 + 4 * u) * (1 - u) * j * (1 - u) \<le> w * (1 - u)"
      using lw u(1,2) by (intro mult_right_mono) simp_all
    have "1 * j \<le> (1 + 4 * u) * (1 - u) * (1 - u) * j"
      using c2 i1 by (intro mult_right_mono) simp_all
    then have c: "j \<le> (1 + 4 * u) * (1 - u) * j * (1 - u)" by (simp add: algebra_simps)
    show ?thesis using a b c by (simp add: j_def)
  qed
qed

lemma isNumber_dropSign: "isNumber (dropSign a) = isNumber a"
  by (cases a) simp_all

lemma fl_number:
  assumes "isNumber (fl v)"
  shows "dropSign (fl v) = Finite (round_to_float v)" and "\<bar>round_to_float v\<bar> \<le> flt_max"
  using assms
  by (auto simp add: fl_eq Let_def signed_zero_def split: if_splits)

lemma fl_in_range:
  assumes "\<bar>round_to_float v\<bar> \<le> flt_max"
  shows "dropSign (fl v) = Finite (round_to_float v)"
  using assms
  by (auto simp add: fl_eq Let_def signed_zero_def split: if_splits)

lemma clampedFloor_dropSign: "clampedFloor n a = clampedFloor n (dropSign a)"
  by (cases a) simp_all

lemma axisIndex_nudged:
  assumes "nudgedBetween minCorner cellSpacing i pos" "i < numPoints" "numPoints \<le> 2 ^ 32"
  shows "axisIndex minCorner cellSpacing numPoints pos = Inr i"
proof -
  define S where "S = realOf cellSpacing"
  define X where "X = realOf pos - realOf minCorner"
  define d where "d = round_to_float X"
  define q where "q = round_to_float (d / S)"
  have n: "isNumber minCorner" "isNumber cellSpacing" "isNumber pos"
    "isNumber (fsub pos minCorner)" "flt_min \<le> S"
    and lo: "(1 + 2 * flt_epsilon) * (real i * S) \<le> X"
    and hi: "X \<le> (1 - 2 * flt_epsilon) * ((real i + 1) * S)"
    using assms(1) by (simp_all add: nudgedBetween_def S_def X_def)
  have Sp: "0 < S" using n(5) by (simp add: flt_min_def)
  have cs: "cellSpacing = Finite S" using n(2) Sp by (cases cellSpacing) (simp_all add: S_def)
  note k = quotient_floor [OF n(5) lo hi d_def q_def]
  have "dropSign (fsub pos minCorner) = dropSign (fsub (Finite (realOf pos)) (Finite (realOf minCorner)))"
    using fsub_dropSign [of pos minCorner] dropSign_number [OF n(1)] dropSign_number [OF n(3)]
    by simp
  then have e: "dropSign (fsub pos minCorner) = dropSign (fl X)"
    by (simp only: fsub_Finite X_def)
  then have "isNumber (fl X)"
    using n(4) isNumber_dropSign [of "fsub pos minCorner"] isNumber_dropSign [of "fl X"] by simp
  then have sub: "dropSign (fsub pos minCorner) = Finite d"
    using fl_number(1) [of X] e by (simp add: d_def)
  have "(2::real) ^ 32 \<le> flt_max" by (simp add: flt_max_def)
  moreover have "real i + 1 \<le> 2 ^ 32"
  proof -
    have "i + 1 \<le> 2 ^ 32" using assms(2) assms(3) by simp
    then have "real (i + 1) \<le> real (2 ^ 32)" by (simp only: of_nat_le_iff)
    then show ?thesis by simp
  qed
  ultimately have qb: "\<bar>q\<bar> \<le> flt_max" using k(2) k(3) by simp
  have "dropSign (fdiv (fsub pos minCorner) cellSpacing)
      = dropSign (fdiv (Finite d) (Finite S))"
    using fdiv_dropSign [of "fsub pos minCorner" cellSpacing] by (simp only: sub cs)
  also have "\<dots> = dropSign (fl (d / S))" using Sp by simp
  also have "\<dots> = Finite q" using fl_in_range [of "d / S"] qb by (simp add: q_def)
  finally have quo: "dropSign (fdiv (fsub pos minCorner) cellSpacing) = Finite q" .
  have "\<lfloor>q\<rfloor> = int i" using k(2) k(3) by (simp add: floor_eq_iff)
  then have "clampedFloor numPoints (Finite q) = Inr i" using assms(2) by simp
  then show ?thesis
    unfolding axisIndex_def
    using clampedFloor_dropSign [of numPoints "fdiv (fsub pos minCorner) cellSpacing"]
    by (simp only: quo)
qed

lemma numPoints_bounded:
  assumes "wellFormed g"
  shows "GetNumPoints g 0 \<le> 2 ^ 32" and "GetNumPoints g 1 \<le> 2 ^ 32"
    and "GetNumPoints g 2 \<le> 2 ^ 32"
proof -
  define a b c where "a = GetNumPoints g 0" and "b = GetNumPoints g 1" and "c = GetNumPoints g 2"
  have w: "a * b * c < 2 ^ 32" "2 \<le> a" "2 \<le> b" "2 \<le> c"
    using assms by (simp_all add: wellFormed_def GetGridCapacity_def a_def b_def c_def)
  have p: "0 < a" "0 < b" "0 < c" using w by simp_all
  have "a \<le> a * (b * c)" using p by simp
  moreover have "b \<le> b * (a * c)" using p by simp
  moreover have "c \<le> c * (a * b)" using p by simp
  moreover have "a * (b * c) = a * b * c" "b * (a * c) = a * b * c" "c * (a * b) = a * b * c"
    by (simp_all only: mult.assoc mult.commute mult.left_commute)
  ultimately have "a \<le> a * b * c" "b \<le> a * b * c" "c \<le> a * b * c" by (simp_all only:)
  then have "a \<le> 2 ^ 32" "b \<le> 2 ^ 32" "c \<le> 2 ^ 32" using w(1) by linarith+
  then show "GetNumPoints g 0 \<le> 2 ^ 32" and "GetNumPoints g 1 \<le> 2 ^ 32"
    and "GetNumPoints g 2 \<le> 2 ^ 32"
    by (simp_all only: a_def b_def c_def)
qed

section \<open>Facts about the loops\<close>

lemma forEach_append:
  "forEach (xs @ ys) body s = andThen (forEach xs body s) (forEach ys body)"
  by (induction xs arbitrary: s) (auto simp: andThen_def split: sum.splits)

lemma forEach_cong:
  "(\<And>i. i \<in> set xs \<Longrightarrow> body i = body' i) \<Longrightarrow> forEach xs body s = forEach xs body' s"
  by (induction xs arbitrary: s) (auto simp: andThen_def split: sum.splits)

lemma forEach_map: "forEach (map f xs) body s = forEach xs (\<lambda>i. body (f i)) s"
  by (induction xs arbitrary: s) (auto simp: andThen_def split: sum.splits)

lemma forEach_shift: "forEach [0 ..< n] (\<lambda>i. body (i + k)) s = forEach [k ..< k + n] body s"
proof -
  have "[k ..< k + n] = map (\<lambda>i. i + k) [0 ..< n]"
    by (simp add: map_add_upt add.commute)
  then show ?thesis using forEach_map [of "\<lambda>i. i + k" "[0 ..< n]" body s] by simp
qed

lemma forEach_nested:
  "forEach [0 ..< m] (\<lambda>j. forEach [0 ..< n] (\<lambda>i. body (i + n * j))) s
     = forEach [0 ..< n * m] body s"
proof (induction m arbitrary: s)
  case 0
  then show ?case by simp
next
  case (Suc m)
  have u: "[0 ..< n * Suc m] = [0 ..< n * m] @ [n * m ..< n * m + n]"
  proof -
    have "n * Suc m = n * m + n" by simp
    then show ?thesis using upt_add_eq_append [of 0 "n * m" n] by (simp only: le0)
  qed
  have l: "[0 ..< Suc m] = [0 ..< m] @ [m]" by simp
  have "forEach [0 ..< Suc m] (\<lambda>j. forEach [0 ..< n] (\<lambda>i. body (i + n * j))) s
      = andThen (forEach [0 ..< m] (\<lambda>j. forEach [0 ..< n] (\<lambda>i. body (i + n * j))) s)
          (forEach [m] (\<lambda>j. forEach [0 ..< n] (\<lambda>i. body (i + n * j))))"
    by (simp only: l forEach_append)
  also have "\<dots> = andThen (forEach [0 ..< n * m] body s)
          (forEach [m] (\<lambda>j. forEach [0 ..< n] (\<lambda>i. body (i + n * j))))"
    by (simp only: Suc.IH)
  also have "forEach [m] (\<lambda>j. forEach [0 ..< n] (\<lambda>i. body (i + n * j)))
      = forEach [n * m ..< n * m + n] body"
  proof
    fix t
    have "forEach [m] (\<lambda>j. forEach [0 ..< n] (\<lambda>i. body (i + n * j))) t
        = forEach [0 ..< n] (\<lambda>i. body (i + n * m)) t"
      by (simp add: andThen_def split: sum.splits)
    also have "\<dots> = forEach [n * m ..< n * m + n] body t"
      by (rule forEach_shift)
    finally show "forEach [m] (\<lambda>j. forEach [0 ..< n] (\<lambda>i. body (i + n * j))) t
        = forEach [n * m ..< n * m + n] body t" .
  qed
  finally show ?case
    using forEach_append [of "[0 ..< n * m]" "[n * m ..< n * m + n]" body s]
    by (simp only: u)
qed

lemma u32_id: "n < 2 ^ 32 \<Longrightarrow> u32 n = n"
  by (simp add: u32_def)

lemma u32_offset:
  "u32 (i0 + u32 (u32 (d0 * i1) + u32 (u32 (d0 * d1) * i2))) = u32 (i0 + d0 * i1 + d0 * d1 * i2)"
proof -
  have a: "u32 (u32 (d0 * d1) * i2) = u32 (d0 * d1 * i2)"
    by (simp add: u32_def mod_mult_left_eq)
  have b: "u32 (u32 (d0 * i1) + u32 (d0 * d1 * i2)) = u32 (d0 * i1 + d0 * d1 * i2)"
    by (simp add: u32_def mod_add_eq)
  have c: "u32 (i0 + u32 (d0 * i1 + d0 * d1 * i2)) = u32 (i0 + (d0 * i1 + d0 * d1 * i2))"
    by (simp add: u32_def mod_add_right_eq)
  show ?thesis by (simp only: a b c add.assoc)
qed

lemma u32_asserted:
  "u32 (i0 + u32 (d0 * u32 (i1 + u32 (d1 * i2)))) = u32 (i0 + d0 * i1 + d0 * d1 * i2)"
proof -
  have a: "u32 (i1 + u32 (d1 * i2)) = u32 (i1 + d1 * i2)"
    by (simp add: u32_def mod_add_right_eq)
  have b: "u32 (d0 * u32 (i1 + d1 * i2)) = u32 (d0 * (i1 + d1 * i2))"
    by (simp add: u32_def mod_mult_right_eq)
  have c: "u32 (i0 + u32 (d0 * (i1 + d1 * i2))) = u32 (i0 + d0 * (i1 + d1 * i2))"
    by (simp add: u32_def mod_add_right_eq)
  have d: "i0 + d0 * (i1 + d1 * i2) = i0 + d0 * i1 + d0 * d1 * i2"
    by (simp add: algebra_simps)
  show ?thesis by (simp only: a b c d)
qed

lemma flat_offset_bound:
  fixes d0 d1 d2 :: nat
  assumes "i0 < d0" "i1 < d1" "i2 < d2"
  shows "i0 + d0 * i1 + d0 * d1 * i2 < d0 * d1 * d2"
proof -
  have "i0 + d0 * i1 < d0 + d0 * i1" using assms by simp
  also have "\<dots> = d0 * Suc i1" by simp
  also have "\<dots> \<le> d0 * d1" using assms by (intro mult_le_mono2) simp
  finally have "i0 + d0 * i1 + d0 * d1 * i2 < d0 * d1 + d0 * d1 * i2" by simp
  also have "\<dots> = d0 * d1 * Suc i2" by simp
  also have "\<dots> \<le> d0 * d1 * d2" using assms by (intro mult_le_mono2) simp
  finally show ?thesis .
qed

lemma forEach3_cong:
  assumes "\<And>i0 i1 i2. i0 < n0 \<Longrightarrow> i1 < n1 \<Longrightarrow> i2 < n2 \<Longrightarrow> f i0 i1 i2 = f' i0 i1 i2"
  shows "forEach [0 ..< n2] (\<lambda>i2. forEach [0 ..< n1] (\<lambda>i1. forEach [0 ..< n0]
            (\<lambda>i0. body (f i0 i1 i2)))) s
       = forEach [0 ..< n2] (\<lambda>i2. forEach [0 ..< n1] (\<lambda>i1. forEach [0 ..< n0]
            (\<lambda>i0. body (f' i0 i1 i2)))) s"
proof (rule forEach_cong, rule ext, rule forEach_cong, rule ext, rule forEach_cong)
  fix i2 t1 i1 t0 i0
  assume "i2 \<in> set [0 ..< n2]" "i1 \<in> set [0 ..< n1]" "i0 \<in> set [0 ..< n0]"
  then show "body (f i0 i1 i2) = body (f' i0 i1 i2)" using assms by simp
qed

lemma traverse_Vec3_flat:
  assumes "GetGridCapacity g < 2 ^ 32"
  shows "traverse_Vec3 g visit s = forEach [0 ..< GetGridCapacity g] visit s"
proof -
  define d0 where "d0 = GetNumPoints g 0"
  define d1 where "d1 = GetNumPoints g 1"
  define d2 where "d2 = GetNumPoints g 2"
  have cap: "d0 * d1 * d2 < 2 ^ 32"
    using assms by (simp add: GetGridCapacity_def d0_def d1_def d2_def)
  have "traverse_Vec3 g visit s =
      forEach [0 ..< d2] (\<lambda>i2. forEach [0 ..< d1] (\<lambda>i1. forEach [0 ..< d0] (\<lambda>i0.
        visit (u32 (i0 + d0 * i1 + d0 * d1 * i2))))) s"
    unfolding traverse_Vec3_def Let_def d0_def [symmetric] d1_def [symmetric] d2_def [symmetric]
      u32_offset u32_asserted andThen_ASSERT
    by simp
  also have "\<dots> = forEach [0 ..< d2] (\<lambda>i2. forEach [0 ..< d1] (\<lambda>i1. forEach [0 ..< d0] (\<lambda>i0.
        visit (i0 + d0 * i1 + d0 * d1 * i2)))) s"
  proof (rule forEach3_cong)
    fix i0 i1 i2 assume "i0 < d0" "i1 < d1" "i2 < d2"
    then have "i0 + d0 * i1 + d0 * d1 * i2 < d0 * d1 * d2" by (rule flat_offset_bound)
    then show "u32 (i0 + d0 * i1 + d0 * d1 * i2) = i0 + d0 * i1 + d0 * d1 * i2"
      using cap by (intro u32_id) simp
  qed
  also have "\<dots> = forEach [0 ..< d2] (\<lambda>i2. forEach [0 ..< d0 * d1]
        (\<lambda>k. visit (k + d0 * d1 * i2))) s"
  proof (rule forEach_cong, rule ext)
    fix i2 t
    show "forEach [0 ..< d1] (\<lambda>i1. forEach [0 ..< d0] (\<lambda>i0. visit (i0 + d0 * i1 + d0 * d1 * i2))) t
        = forEach [0 ..< d0 * d1] (\<lambda>k. visit (k + d0 * d1 * i2)) t"
      by (rule forEach_nested [of d1 d0 "\<lambda>k. visit (k + d0 * d1 * i2)" t])
  qed
  also have "\<dots> = forEach [0 ..< d0 * d1 * d2] visit s"
    by (rule forEach_nested [of d2 "d0 * d1" visit s])
  finally show ?thesis
    by (simp only: GetGridCapacity_def d0_def d1_def d2_def)
qed

lemma forEach_fold:
  "forEach [0 ..< length xs] (\<lambda>i s. Inr (f s (xs ! i))) s0 = Inr (foldl f s0 xs)"
proof (induction xs rule: rev_induct)
  case Nil
  then show ?case by simp
next
  case (snoc x xs)
  have "forEach [0 ..< length xs] (\<lambda>i s. Inr (f s ((xs @ [x]) ! i))) s0
      = forEach [0 ..< length xs] (\<lambda>i s. Inr (f s (xs ! i))) s0"
    by (rule forEach_cong) (simp add: nth_append)
  then show ?case
    by (simp add: forEach_append snoc.IH andThen_def)
qed

lemma forEach_At:
  assumes "n = length (mContents g)"
  shows "forEach [0 ..< n] (\<lambda>offset mm. andThen (At g offset) (\<lambda>rVal. Inr (f mm rVal))) s0
           = Inr (foldl f s0 (mContents g))"
proof -
  have "forEach [0 ..< n] (\<lambda>offset mm. andThen (At g offset) (\<lambda>rVal. Inr (f mm rVal))) s0
      = forEach [0 ..< n] (\<lambda>i s. Inr (f s (mContents g ! i))) s0"
    by (rule forEach_cong) (simp add: At_def assms andThen_def)
  then show ?thesis by (simp only: assms forEach_fold)
qed

section \<open>Facts about the statistics\<close>

lemma plainFloat_realOf:
  assumes "plainFloat a"
  shows "a = Finite (realOf a) \<and> \<bar>realOf a\<bar> \<le> flt_max"
proof (cases a)
  case (Finite r)
  then show ?thesis using assms plainFloat_iff [of r] by (simp del: plainFloat.simps)
qed (use assms in simp_all)

lemma foldl_MIN2:
  assumes "\<forall>v \<in> set xs. plainFloat (c v)"
  shows "foldl (\<lambda>m v. MIN2 m (c v)) (Finite a) xs
           = Finite (Min (set (a # map (\<lambda>v. realOf (c v)) xs)))"
proof -
  have "foldl (\<lambda>m v. MIN2 m (c v)) (Finite a) xs
      = Finite (fold min (map (\<lambda>v. realOf (c v)) xs) a)"
    using assms
  proof (induction xs arbitrary: a)
    case Nil
    then show ?case by simp
  next
    case (Cons x xs)
    have x: "c x = Finite (realOf (c x))" using Cons.prems plainFloat_realOf by simp
    have "MIN2 (Finite a) (c x) = Finite (min (realOf (c x)) a)"
      using MIN2_Finite [of a "realOf (c x)"] x by (simp add: min.commute)
    then show ?case using Cons.prems by (simp add: Cons.IH)
  qed
  then show ?thesis by (simp only: Min.set_eq_fold)
qed

lemma foldl_MAX2:
  assumes "\<forall>v \<in> set xs. plainFloat (c v)"
  shows "foldl (\<lambda>m v. MAX2 m (c v)) (Finite a) xs
           = Finite (Max (set (a # map (\<lambda>v. realOf (c v)) xs)))"
proof -
  have "foldl (\<lambda>m v. MAX2 m (c v)) (Finite a) xs
      = Finite (fold max (map (\<lambda>v. realOf (c v)) xs) a)"
    using assms
  proof (induction xs arbitrary: a)
    case Nil
    then show ?case by simp
  next
    case (Cons x xs)
    have x: "c x = Finite (realOf (c x))" using Cons.prems plainFloat_realOf by simp
    have "MAX2 (Finite a) (c x) = Finite (max (realOf (c x)) a)"
      using MAX2_Finite [of a "realOf (c x)"] x by (simp add: max.commute)
    then show ?case using Cons.prems by (simp add: Cons.IH)
  qed
  then show ?thesis by (simp only: Max.set_eq_fold)
qed

lemma foldl_MIN2_seed:
  assumes "xs \<noteq> []" "\<forall>v \<in> set xs. plainFloat (c v)"
  shows "foldl (\<lambda>m v. MIN2 m (c v)) FLT_MAX xs = componentMin c xs"
proof -
  let ?S = "set (map (\<lambda>v. realOf (c v)) xs)"
  have ne: "?S \<noteq> {}" using assms(1) by simp
  obtain x where x: "x \<in> set xs" using assms(1) by (cases xs) auto
  have "Min ?S \<le> realOf (c x)" using x by (intro Min_le) auto
  moreover have "realOf (c x) \<le> flt_max" using assms(2) x plainFloat_realOf [of "c x"] by auto
  ultimately have le: "Min ?S \<le> flt_max" by linarith
  note le
  moreover have "Min (insert flt_max ?S) = min flt_max (Min ?S)"
    by (rule Min_insert) (use ne in simp_all)
  ultimately have "Min (insert flt_max ?S) = Min ?S" by (simp only: min.absorb2)
  then show ?thesis
    using foldl_MIN2 [OF assms(2), of flt_max] by (simp add: FLT_MAX_def componentMin_def)
qed

lemma foldl_MAX2_seed:
  assumes "xs \<noteq> []" "\<forall>v \<in> set xs. plainFloat (c v)"
  shows "foldl (\<lambda>m v. MAX2 m (c v)) (fneg FLT_MAX) xs = componentMax c xs"
proof -
  let ?S = "set (map (\<lambda>v. realOf (c v)) xs)"
  have ne: "?S \<noteq> {}" using assms(1) by simp
  obtain x where x: "x \<in> set xs" using assms(1) by (cases xs) auto
  have "realOf (c x) \<le> Max ?S" using x by (intro Max_ge) auto
  moreover have "- flt_max \<le> realOf (c x)" using assms(2) x plainFloat_realOf [of "c x"] by auto
  ultimately have le: "- flt_max \<le> Max ?S" by linarith
  note le
  moreover have "Max (insert (- flt_max) ?S) = max (- flt_max) (Max ?S)"
    by (rule Max_insert) (use ne in simp_all)
  ultimately have "Max (insert (- flt_max) ?S) = Max ?S" by (simp only: max.absorb2)
  then show ?thesis
    using foldl_MAX2 [OF assms(2), of "- flt_max"] flt_max_gt0
    by (simp add: FLT_MAX_def componentMax_def)
qed

lemma foldl_foldVec3:
  "foldl foldVec3 (mn, mx) xs =
     (\<lparr> vx = foldl (\<lambda>m v. MIN2 m (vx v)) (vx mn) xs,
        vy = foldl (\<lambda>m v. MIN2 m (vy v)) (vy mn) xs,
        vz = foldl (\<lambda>m v. MIN2 m (vz v)) (vz mn) xs \<rparr>,
      \<lparr> vx = foldl (\<lambda>m v. MAX2 m (vx v)) (vx mx) xs,
        vy = foldl (\<lambda>m v. MAX2 m (vy v)) (vy mx) xs,
        vz = foldl (\<lambda>m v. MAX2 m (vz v)) (vz mx) xs \<rparr>)"
  by (induction xs arbitrary: mn mx) (simp_all add: foldVec3_def)

lemma foldl_foldVec3_seed:
  assumes "xs \<noteq> []" "\<forall>v \<in> set xs. plainVec v"
  shows "foldl foldVec3 seed_Vec3 xs = (vecMin xs, vecMax xs)"
proof -
  have f: "\<forall>v \<in> set xs. plainFloat (vx v)" "\<forall>v \<in> set xs. plainFloat (vy v)"
    "\<forall>v \<in> set xs. plainFloat (vz v)"
    using assms(2) by (simp_all add: plainVec_def)
  show ?thesis
    unfolding seed_Vec3_def foldl_foldVec3 vecMin_def vecMax_def
    by (simp add: foldl_MIN2_seed [OF assms(1)] foldl_MAX2_seed [OF assms(1)] f)
qed

lemma foldl_foldVorton:
  "foldl foldVorton (mn, mx) xs =
     (\<lparr> mPosition = fst (foldl foldVec3 (mPosition mn, mPosition mx) (map mPosition xs)),
        mVorticity = fst (foldl foldVec3 (mVorticity mn, mVorticity mx) (map mVorticity xs)) \<rparr>,
      \<lparr> mPosition = snd (foldl foldVec3 (mPosition mn, mPosition mx) (map mPosition xs)),
        mVorticity = snd (foldl foldVec3 (mVorticity mn, mVorticity mx) (map mVorticity xs)) \<rparr>)"
  by (induction xs arbitrary: mn mx) (simp_all add: foldVorton_def split: prod.splits)

section \<open>The statistics in any order of traversal\<close>

lemma forEach_order:
  assumes "\<forall>i \<in> set order. i < length xs"
  shows "forEach order (\<lambda>i s. Inr (f s (xs ! i))) s0 = Inr (foldl f s0 (map ((!) xs) order))"
  using assms by (induction order arbitrary: s0) (simp_all add: andThen_def)

lemma forEach_order_At:
  assumes "\<forall>i \<in> set order. i < length (mContents g)"
  shows "forEach order (\<lambda>offset mm. andThen (At g offset) (\<lambda>rVal. Inr (f mm rVal))) s0
           = Inr (foldl f s0 (map ((!) (mContents g)) order))"
proof -
  have "forEach order (\<lambda>offset mm. andThen (At g offset) (\<lambda>rVal. Inr (f mm rVal))) s0
      = forEach order (\<lambda>i s. Inr (f s (mContents g ! i))) s0"
    by (rule forEach_cong) (use assms in \<open>simp add: At_def andThen_def\<close>)
  then show ?thesis by (simp only: forEach_order [OF assms])
qed

lemma permuted_offsets:
  assumes "mset order = mset [0 ..< length xs]"
  shows "\<forall>i \<in> set order. i < length xs" and "mset (map ((!) xs) order) = mset xs"
proof -
  have "set order = set [0 ..< length xs]" using assms by (rule mset_eq_setD)
  then show "\<forall>i \<in> set order. i < length xs" by simp
  have "mset (map ((!) xs) order) = image_mset ((!) xs) (mset order)"
    by (simp only: mset_map)
  also have "\<dots> = image_mset ((!) xs) (mset [0 ..< length xs])" by (simp only: assms)
  also have "\<dots> = mset (map ((!) xs) [0 ..< length xs])" by (simp only: mset_map)
  also have "\<dots> = mset xs" by (simp only: map_nth)
  finally show "mset (map ((!) xs) order) = mset xs" .
qed

lemma componentMin_set: "set ys = set xs \<Longrightarrow> componentMin c ys = componentMin c xs"
  by (simp add: componentMin_def)

lemma componentMax_set: "set ys = set xs \<Longrightarrow> componentMax c ys = componentMax c xs"
  by (simp add: componentMax_def)

lemma vecMinMax_set:
  "set ys = set xs \<Longrightarrow> vecMin ys = vecMin xs \<and> vecMax ys = vecMax xs"
  by (simp add: vecMin_def vecMax_def componentMin_set [of ys xs] componentMax_set [of ys xs])

lemma wellFormed_contents:
  assumes "wellFormed g"
  shows "length (mContents g) = GetGridCapacity g" and "GetGridCapacity g < 2 ^ 32"
    and "mContents g \<noteq> []" and "Size g = length (mContents g)"
proof -
  show l: "length (mContents g) = GetGridCapacity g" and "GetGridCapacity g < 2 ^ 32"
    using assms by (simp_all add: wellFormed_def)
  have "2 \<le> GetNumPoints g 0" "2 \<le> GetNumPoints g 1" "2 \<le> GetNumPoints g 2"
    using assms by (simp_all add: wellFormed_def)
  then have "0 < GetGridCapacity g" by (simp add: GetGridCapacity_def)
  then show "mContents g \<noteq> []" using l by auto
  show "Size g = length (mContents g)" using l by (simp add: Size_def)
qed

lemma forEach_sim:
  assumes "\<And>i s. body1 i (g, s) = andThen (body2 i s) (\<lambda>s'. Inr (g, s'))"
  shows "forEach xs body1 (g, s) = andThen (forEach xs body2 s) (\<lambda>s'. Inr (g, s'))"
proof (induction xs arbitrary: s)
  case Nil
  show ?case by (simp add: andThen_def)
next
  case (Cons i xs)
  show ?case
    by (cases "body2 i s") (simp_all add: assms andThen_def Cons.IH)
qed

lemma traverse_Vec3_sim:
  assumes "\<And>offset s. visit1 offset (g, s) = andThen (visit2 offset s) (\<lambda>s'. Inr (g, s'))"
  shows "traverse_Vec3 h visit1 (g, s) = andThen (traverse_Vec3 h visit2 s) (\<lambda>s'. Inr (g, s'))"
  unfolding traverse_Vec3_def Let_def
  by (intro forEach_sim) (simp add: assms andThen_def ASSERT_def)

lemma body_Vec3_visit:
  "body_Vec3 offset (g, s) = andThen (visit_Vec3 g offset s) (\<lambda>s'. Inr (g, s'))"
  by (simp add: body_Vec3_def visit_Vec3_def andThen_def split: sum.splits)

lemma body_Vorton_visit:
  "body_Vorton offset (g, s) = andThen (visit_Vorton g offset s) (\<lambda>s'. Inr (g, s'))"
  by (simp add: body_Vorton_def visit_Vorton_def andThen_def split: sum.splits)

lemma ComputeStatistics_Vec3_state_traverse:
  "ComputeStatistics_Vec3_state g
     = andThen (traverse_Vec3 g (visit_Vec3 g) seed_Vec3) (\<lambda>s'. Inr (g, s'))"
  unfolding ComputeStatistics_Vec3_state_def Let_def
  using traverse_Vec3_sim [of body_Vec3 g "visit_Vec3 g" g seed_Vec3, OF body_Vec3_visit]
  by (simp add: seed_Vec3_def)

lemma ComputeStatistics_Vorton_state_loop:
  "ComputeStatistics_Vorton_state h
     = andThen (forEach [0 ..< Size h] (visit_Vorton h) seed_Vorton) (\<lambda>s'. Inr (h, s'))"
  unfolding ComputeStatistics_Vorton_state_def Let_def
  using forEach_sim [of body_Vorton h "visit_Vorton h" "[0 ..< Size h]" seed_Vorton,
      OF body_Vorton_visit]
  by (simp add: seed_Vorton_def seed_Vec3_def)

lemma ComputeStatistics_Vec3_traverse:
  "ComputeStatistics_Vec3 g = traverse_Vec3 g (visit_Vec3 g) seed_Vec3"
  unfolding ComputeStatistics_Vec3_def ComputeStatistics_Vec3_state_traverse
  by (simp add: andThen_def split: sum.splits)

lemma ComputeStatistics_Vorton_loop:
  "ComputeStatistics_Vorton h = forEach [0 ..< Size h] (visit_Vorton h) seed_Vorton"
  unfolding ComputeStatistics_Vorton_def ComputeStatistics_Vorton_state_loop
  by (simp add: andThen_def split: sum.splits)

lemma Vec3_order:
  assumes "mContents g \<noteq> []" "\<forall>v \<in> set (mContents g). plainVec v"
    and "mset order = mset [0 ..< length (mContents g)]"
  shows "forEach order (visit_Vec3 g) seed_Vec3
           = Inr (vecMin (mContents g), vecMax (mContents g))"
proof -
  let ?ys = "map ((!) (mContents g)) order"
  note p = permuted_offsets [OF assms(3)]
  have s: "set ?ys = set (mContents g)" using p(2) by (rule mset_eq_setD)
  then have ne: "?ys \<noteq> []" using assms(1) by auto
  have fv: "\<forall>v \<in> set ?ys. plainVec v" using assms(2) s by simp
  have "forEach order (visit_Vec3 g) seed_Vec3 = Inr (foldl foldVec3 seed_Vec3 ?ys)"
    using forEach_order_At [OF p(1), of foldVec3 seed_Vec3]
    by (simp add: visit_Vec3_def [abs_def])
  also have "\<dots> = Inr (vecMin ?ys, vecMax ?ys)"
    by (simp only: foldl_foldVec3_seed [OF ne fv])
  finally show ?thesis using vecMinMax_set [OF s] by simp
qed

lemma Vorton_order:
  assumes "mContents h \<noteq> []" "\<forall>w \<in> set (mContents h). plainVorton w"
    and "mset order = mset [0 ..< length (mContents h)]"
  shows "forEach order (visit_Vorton h) seed_Vorton
           = Inr (\<lparr> mPosition = vecMin (map mPosition (mContents h)),
                     mVorticity = vecMin (map mVorticity (mContents h)) \<rparr>,
                  \<lparr> mPosition = vecMax (map mPosition (mContents h)),
                     mVorticity = vecMax (map mVorticity (mContents h)) \<rparr>)"
proof -
  let ?ys = "map ((!) (mContents h)) order"
  note p = permuted_offsets [OF assms(3)]
  have s: "set ?ys = set (mContents h)" using p(2) by (rule mset_eq_setD)
  then have ne: "?ys \<noteq> []" using assms(1) by auto
  have sp: "set (map mPosition ?ys) = set (map mPosition (mContents h))"
    and sw: "set (map mVorticity ?ys) = set (map mVorticity (mContents h))"
    using s by (simp_all only: set_map)
  have fp: "\<forall>v \<in> set (map mPosition ?ys). plainVec v"
    and fw: "\<forall>v \<in> set (map mVorticity ?ys). plainVec v"
    using assms(2) unfolding sp sw by (simp_all add: plainVorton_def)
  have nep: "map mPosition ?ys \<noteq> []" and new: "map mVorticity ?ys \<noteq> []"
    using ne by simp_all
  have "forEach order (visit_Vorton h) seed_Vorton = Inr (foldl foldVorton seed_Vorton ?ys)"
    using forEach_order_At [OF p(1), of foldVorton seed_Vorton]
    by (simp add: visit_Vorton_def [abs_def])
  also have "foldl foldVorton seed_Vorton ?ys
      = (\<lparr> mPosition = vecMin (map mPosition ?ys), mVorticity = vecMin (map mVorticity ?ys) \<rparr>,
         \<lparr> mPosition = vecMax (map mPosition ?ys), mVorticity = vecMax (map mVorticity ?ys) \<rparr>)"
    unfolding seed_Vorton_def foldl_foldVorton
    by (simp only: Vorton.select_convs prod.collapse fst_conv snd_conv
        foldl_foldVec3_seed [OF nep fp] foldl_foldVec3_seed [OF new fw])
  finally show ?thesis
    using vecMinMax_set [OF sp] vecMinMax_set [OF sw] by simp
qed

lemma plainFloat_small:
  "plainFloat (Finite 0)" "plainFloat (Finite 1)" "plainFloat (Finite 2)"
  "plainFloat (Finite (- 2))" "plainFloat (Finite 3)" "plainFloat (Finite 4)"
  "plainFloat (Finite 5)"
  using fl_exact [of 0 0 0] fl_exact [of 1 1 0] fl_exact [of 2 2 0] fl_exact [of "- 2" "- 2" 0]
    fl_exact [of 3 3 0] fl_exact [of 4 4 0] fl_exact [of 5 5 0]
  by (simp_all add: flt_max_def)

lemma wellFormed_statGrid: "wellFormed statGrid" "list_all plainVec (mContents statGrid)"
  using plainFloat_small
  by (simp_all add: wellFormed_def statGrid_def GetGridCapacity_def GetNumPoints_def
      plainVec_def vec_def list_all_iff del: plainFloat.simps)

lemma wellFormed_vortonGrid:
  "wellFormed (vortonGrid (vec 3 4 5))" "list_all plainVorton (mContents (vortonGrid (vec 3 4 5)))"
  using plainFloat_small
  by (simp_all add: wellFormed_def vortonGrid_def GetGridCapacity_def GetNumPoints_def
      plainVec_def plainVorton_def vec_def list_all_iff del: plainFloat.simps)

lemma foldl_MIN2_unbounded:
  assumes "xs \<noteq> []" "\<forall>v \<in> set xs. plainFloat (c v)"
  shows "foldl (\<lambda>m v. MIN2 m (c v)) PosInf xs = componentMin c xs"
proof -
  obtain x rest where xs: "xs = x # rest" using assms(1) by (cases xs) auto
  have x: "c x = Finite (realOf (c x))" using plainFloat_realOf [of "c x"] assms(2) xs by simp
  have "MIN2 PosInf (c x) = Finite (realOf (c x))"
    using x by (cases "c x") (simp_all add: MIN2_def)
  then have "foldl (\<lambda>m v. MIN2 m (c v)) PosInf xs
      = foldl (\<lambda>m v. MIN2 m (c v)) (Finite (realOf (c x))) rest" by (simp add: xs)
  also have "\<dots> = Finite (Min (set (realOf (c x) # map (\<lambda>v. realOf (c v)) rest)))"
    using foldl_MIN2 [of rest c "realOf (c x)"] assms(2) xs by simp
  finally show ?thesis by (simp add: componentMin_def xs)
qed

lemma foldl_MAX2_unbounded:
  assumes "xs \<noteq> []" "\<forall>v \<in> set xs. plainFloat (c v)"
  shows "foldl (\<lambda>m v. MAX2 m (c v)) NegInf xs = componentMax c xs"
proof -
  obtain x rest where xs: "xs = x # rest" using assms(1) by (cases xs) auto
  have x: "c x = Finite (realOf (c x))" using plainFloat_realOf [of "c x"] assms(2) xs by simp
  have "MAX2 NegInf (c x) = Finite (realOf (c x))"
    using x by (cases "c x") (simp_all add: MAX2_def)
  then have "foldl (\<lambda>m v. MAX2 m (c v)) NegInf xs
      = foldl (\<lambda>m v. MAX2 m (c v)) (Finite (realOf (c x))) rest" by (simp add: xs)
  also have "\<dots> = Finite (Max (set (realOf (c x) # map (\<lambda>v. realOf (c v)) rest)))"
    using foldl_MAX2 [of rest c "realOf (c x)"] assms(2) xs by simp
  finally show ?thesis by (simp add: componentMax_def xs)
qed

lemma foldl_foldVec3_unbounded:
  assumes "xs \<noteq> []" "\<forall>v \<in> set xs. plainVec v"
  shows "foldl foldVec3 unbounded_seed xs = (vecMin xs, vecMax xs)"
proof -
  have f: "\<forall>v \<in> set xs. plainFloat (vx v)" "\<forall>v \<in> set xs. plainFloat (vy v)"
    "\<forall>v \<in> set xs. plainFloat (vz v)"
    using assms(2) by (simp_all add: plainVec_def)
  show ?thesis
    unfolding unbounded_seed_def foldl_foldVec3
    by (simp add: vecMin_def vecMax_def foldl_MIN2_unbounded [OF assms(1)]
        foldl_MAX2_unbounded [OF assms(1)] f)
qed

lemma foldl_replicate_idem:
  assumes "f (f s v) v = f s v"
  shows "foldl f s (replicate (Suc n) v) = f s v"
proof (induction n)
  case 0
  show ?case by simp
next
  case (Suc n)
  have "replicate (Suc (Suc n)) v = replicate (Suc n) v @ [v]"
    using replicate_append_same [of "Suc n" v] by simp
  then have "foldl f s (replicate (Suc (Suc n)) v) = f (foldl f s (replicate (Suc n) v)) v"
    by (simp only: foldl_append foldl.simps)
  then show ?case using Suc assms by simp
qed

lemma ComputeStatistics_Vec3_fold:
  assumes "wellFormed g"
  shows "ComputeStatistics_Vec3 g = Inr (foldl foldVec3 seed_Vec3 (mContents g))"
proof -
  note w = wellFormed_contents [OF assms]
  have "ComputeStatistics_Vec3 g
      = forEach [0 ..< GetGridCapacity g] (visit_Vec3 g) seed_Vec3"
    by (simp only: ComputeStatistics_Vec3_traverse traverse_Vec3_flat [OF w(2)])
  also have "\<dots> = Inr (foldl foldVec3 seed_Vec3 (mContents g))"
    unfolding visit_Vec3_def by (rule forEach_At) (simp only: w(1))
  finally show ?thesis .
qed

lemma wellFormed_infGrid: "wellFormed infGrid"
  by (simp add: wellFormed_def infGrid_def GetGridCapacity_def GetNumPoints_def)

lemma infGrid_folds:
  "foldl foldVec3 seed_Vec3 (mContents infGrid)
     = (\<lparr> vx = FLT_MAX, vy = Finite 0, vz = Finite 0 \<rparr>,
        \<lparr> vx = PosInf, vy = Finite 0, vz = Finite 0 \<rparr>)"
  "foldl foldVec3 unbounded_seed (mContents infGrid)
     = (\<lparr> vx = PosInf, vy = Finite 0, vz = Finite 0 \<rparr>,
        \<lparr> vx = PosInf, vy = Finite 0, vz = Finite 0 \<rparr>)"
proof -
  have e: "(8::nat) = Suc 7" by simp
  have c: "mContents infGrid = replicate (Suc 7) \<lparr> vx = PosInf, vy = Finite 0, vz = Finite 0 \<rparr>"
    by (simp only: infGrid_def e UniformGrid.select_convs)
  show "foldl foldVec3 seed_Vec3 (mContents infGrid)
     = (\<lparr> vx = FLT_MAX, vy = Finite 0, vz = Finite 0 \<rparr>,
        \<lparr> vx = PosInf, vy = Finite 0, vz = Finite 0 \<rparr>)"
    unfolding c using flt_max_pos
    by (subst foldl_replicate_idem)
      (simp_all add: foldVec3_def seed_Vec3_def MIN2_def MAX2_def FLT_MAX_def)
  show "foldl foldVec3 unbounded_seed (mContents infGrid)
     = (\<lparr> vx = PosInf, vy = Finite 0, vz = Finite 0 \<rparr>,
        \<lparr> vx = PosInf, vy = Finite 0, vz = Finite 0 \<rparr>)"
    unfolding c
    by (subst foldl_replicate_idem)
      (simp_all add: foldVec3_def unbounded_seed_def MIN2_def MAX2_def)
qed

subsection \<open>The statistics as numbers\<close>

lemma MIN2_number:
  assumes "isNumber a" "isNumber b"
  shows "isNumber (MIN2 a b)" and "realOf (MIN2 a b) = min (realOf a) (realOf b)"
  using assms by (cases a; cases b; simp add: MIN2_def min_def)+

lemma MAX2_number:
  assumes "isNumber a" "isNumber b"
  shows "isNumber (MAX2 a b)" and "realOf (MAX2 a b) = max (realOf a) (realOf b)"
  using assms by (cases a; cases b; simp add: MAX2_def max_def)+

lemma foldl_MIN2_number:
  assumes "\<forall>v \<in> set xs. isNumber (c v)" "isNumber m"
  shows "isNumber (foldl (\<lambda>m v. MIN2 m (c v)) m xs) \<and>
         realOf (foldl (\<lambda>m v. MIN2 m (c v)) m xs)
           = Min (set (realOf m # map (\<lambda>v. realOf (c v)) xs))"
proof -
  have "isNumber (foldl (\<lambda>m v. MIN2 m (c v)) m xs) \<and>
         realOf (foldl (\<lambda>m v. MIN2 m (c v)) m xs)
           = fold min (map (\<lambda>v. realOf (c v)) xs) (realOf m)"
    using assms
  proof (induction xs arbitrary: m)
    case Nil
    then show ?case by simp
  next
    case (Cons x xs)
    have x: "isNumber (c x)" using Cons.prems by simp
    note k = MIN2_number [OF Cons.prems(2) x]
    have "\<forall>v \<in> set xs. isNumber (c v)" using Cons.prems by simp
    from Cons.IH [OF this k(1)] show ?case by (simp add: k(2) min.commute)
  qed
  then show ?thesis by (simp only: Min.set_eq_fold)
qed

lemma foldl_MAX2_number:
  assumes "\<forall>v \<in> set xs. isNumber (c v)" "isNumber m"
  shows "isNumber (foldl (\<lambda>m v. MAX2 m (c v)) m xs) \<and>
         realOf (foldl (\<lambda>m v. MAX2 m (c v)) m xs)
           = Max (set (realOf m # map (\<lambda>v. realOf (c v)) xs))"
proof -
  have "isNumber (foldl (\<lambda>m v. MAX2 m (c v)) m xs) \<and>
         realOf (foldl (\<lambda>m v. MAX2 m (c v)) m xs)
           = fold max (map (\<lambda>v. realOf (c v)) xs) (realOf m)"
    using assms
  proof (induction xs arbitrary: m)
    case Nil
    then show ?case by simp
  next
    case (Cons x xs)
    have x: "isNumber (c x)" using Cons.prems by simp
    note k = MAX2_number [OF Cons.prems(2) x]
    have "\<forall>v \<in> set xs. isNumber (c v)" using Cons.prems by simp
    from Cons.IH [OF this k(1)] show ?case by (simp add: k(2) max.commute)
  qed
  then show ?thesis by (simp only: Max.set_eq_fold)
qed

lemma finiteFloat_number:
  assumes "finiteFloat a"
  shows "isNumber a" and "\<bar>realOf a\<bar> \<le> flt_max"
proof -
  show "isNumber a" using assms by (cases a) simp_all
  show "\<bar>realOf a\<bar> \<le> flt_max"
  proof (cases a)
    case (Finite r)
    then have "plainFloat (Finite r)" using assms by simp
    then show ?thesis using Finite plainFloat_iff [of r] by (simp del: plainFloat.simps)
  qed (use assms flt_max_gt0 in simp_all)
qed

lemma plainFloat_finiteFloat: "plainFloat a \<Longrightarrow> finiteFloat a"
  by (cases a) simp_all

lemma foldl_MIN2_seed_number:
  assumes "xs \<noteq> []" "\<forall>v \<in> set xs. finiteFloat (c v)"
  shows "dropSign (foldl (\<lambda>m v. MIN2 m (c v)) FLT_MAX xs) = componentMin c xs"
proof -
  let ?S = "set (map (\<lambda>v. realOf (c v)) xs)"
  have n: "\<forall>v \<in> set xs. isNumber (c v)" using assms(2) finiteFloat_number(1) by blast
  have ne: "?S \<noteq> {}" using assms(1) by simp
  obtain x where x: "x \<in> set xs" using assms(1) by (cases xs) auto
  have "Min ?S \<le> realOf (c x)" using x by (intro Min_le) auto
  moreover have "realOf (c x) \<le> flt_max"
    using assms(2) x finiteFloat_number(2) [of "c x"] by auto
  ultimately have le: "Min ?S \<le> flt_max" by linarith
  note le
  moreover have "Min (insert flt_max ?S) = min flt_max (Min ?S)"
    by (rule Min_insert) (use ne in simp_all)
  ultimately have m: "Min (insert flt_max ?S) = Min ?S" by (simp only: min.absorb2)
  have "isNumber FLT_MAX" by (simp add: FLT_MAX_def)
  note f = foldl_MIN2_number [OF n this]
  show ?thesis
    using dropSign_number [OF f [THEN conjunct1]] f [THEN conjunct2] m
    by (simp add: FLT_MAX_def componentMin_def)
qed

lemma foldl_MAX2_seed_number:
  assumes "xs \<noteq> []" "\<forall>v \<in> set xs. finiteFloat (c v)"
  shows "dropSign (foldl (\<lambda>m v. MAX2 m (c v)) (fneg FLT_MAX) xs) = componentMax c xs"
proof -
  let ?S = "set (map (\<lambda>v. realOf (c v)) xs)"
  have n: "\<forall>v \<in> set xs. isNumber (c v)" using assms(2) finiteFloat_number(1) by blast
  have ne: "?S \<noteq> {}" using assms(1) by simp
  obtain x where x: "x \<in> set xs" using assms(1) by (cases xs) auto
  have "realOf (c x) \<le> Max ?S" using x by (intro Max_ge) auto
  moreover have "- flt_max \<le> realOf (c x)"
    using assms(2) x finiteFloat_number(2) [of "c x"] by auto
  ultimately have le: "- flt_max \<le> Max ?S" by linarith
  note le
  moreover have "Max (insert (- flt_max) ?S) = max (- flt_max) (Max ?S)"
    by (rule Max_insert) (use ne in simp_all)
  ultimately have m: "Max (insert (- flt_max) ?S) = Max ?S" by (simp only: max.absorb2)
  have s: "fneg FLT_MAX = Finite (- flt_max)" using flt_max_gt0 by (simp add: FLT_MAX_def)
  have "isNumber (fneg FLT_MAX)" by (simp add: s)
  note f = foldl_MAX2_number [OF n this]
  show ?thesis
    using dropSign_number [OF f [THEN conjunct1]] f [THEN conjunct2] m
    by (simp add: s componentMax_def)
qed

lemma foldl_MIN2_unbounded_number:
  assumes "xs \<noteq> []" "\<forall>v \<in> set xs. finiteFloat (c v)"
  shows "dropSign (foldl (\<lambda>m v. MIN2 m (c v)) PosInf xs) = componentMin c xs"
proof -
  obtain x ys where xs: "xs = x # ys" using assms(1) by (cases xs) auto
  have n: "\<forall>v \<in> set ys. isNumber (c v)" "isNumber (c x)"
    using assms(2) finiteFloat_number(1) xs by auto
  have "MIN2 PosInf (c x) = c x" by (cases "c x") (simp_all add: MIN2_def)
  then have "foldl (\<lambda>m v. MIN2 m (c v)) PosInf xs = foldl (\<lambda>m v. MIN2 m (c v)) (c x) ys"
    by (simp add: xs)
  moreover note f = foldl_MIN2_number [OF n]
  ultimately show ?thesis
    using dropSign_number [OF f [THEN conjunct1]] f [THEN conjunct2]
    by (simp add: componentMin_def xs)
qed

lemma foldl_MAX2_unbounded_number:
  assumes "xs \<noteq> []" "\<forall>v \<in> set xs. finiteFloat (c v)"
  shows "dropSign (foldl (\<lambda>m v. MAX2 m (c v)) NegInf xs) = componentMax c xs"
proof -
  obtain x ys where xs: "xs = x # ys" using assms(1) by (cases xs) auto
  have n: "\<forall>v \<in> set ys. isNumber (c v)" "isNumber (c x)"
    using assms(2) finiteFloat_number(1) xs by auto
  have "MAX2 NegInf (c x) = c x" by (cases "c x") (simp_all add: MAX2_def)
  then have "foldl (\<lambda>m v. MAX2 m (c v)) NegInf xs = foldl (\<lambda>m v. MAX2 m (c v)) (c x) ys"
    by (simp add: xs)
  moreover note f = foldl_MAX2_number [OF n]
  ultimately show ?thesis
    using dropSign_number [OF f [THEN conjunct1]] f [THEN conjunct2]
    by (simp add: componentMax_def xs)
qed

lemma numbers_foldVec3:
  assumes "xs \<noteq> []" "\<forall>v \<in> set xs. floatVec v"
  shows "numbers (foldl foldVec3 seed_Vec3 xs) = (vecMin xs, vecMax xs)"
    and "numbers (foldl foldVec3 unbounded_seed xs) = (vecMin xs, vecMax xs)"
proof -
  have f: "\<forall>v \<in> set xs. finiteFloat (vx v)" "\<forall>v \<in> set xs. finiteFloat (vy v)"
    "\<forall>v \<in> set xs. finiteFloat (vz v)"
    using assms(2) by (simp_all add: floatVec_def)
  show "numbers (foldl foldVec3 seed_Vec3 xs) = (vecMin xs, vecMax xs)"
    unfolding seed_Vec3_def foldl_foldVec3 vecMin_def vecMax_def numbers_def dropSigns_def
    by (simp add: foldl_MIN2_seed_number [OF assms(1)] foldl_MAX2_seed_number [OF assms(1)] f)
  show "numbers (foldl foldVec3 unbounded_seed xs) = (vecMin xs, vecMax xs)"
    unfolding unbounded_seed_def foldl_foldVec3 vecMin_def vecMax_def numbers_def dropSigns_def
    by (simp add: foldl_MIN2_unbounded_number [OF assms(1)]
        foldl_MAX2_unbounded_number [OF assms(1)] f)
qed

lemma Vec3_order_numbers:
  assumes "mContents g \<noteq> []" "\<forall>v \<in> set (mContents g). floatVec v"
    and "mset order = mset [0 ..< length (mContents g)]"
  shows "\<exists>stats. forEach order (visit_Vec3 g) seed_Vec3 = Inr stats \<and>
           numbers stats = (vecMin (mContents g), vecMax (mContents g))"
proof -
  let ?ys = "map ((!) (mContents g)) order"
  note p = permuted_offsets [OF assms(3)]
  have s: "set ?ys = set (mContents g)" using p(2) by (rule mset_eq_setD)
  have ne: "?ys \<noteq> []" using s assms(1) by auto
  have fl: "\<forall>v \<in> set ?ys. floatVec v" using assms(2) by (simp only: s)
  have "forEach order (visit_Vec3 g) seed_Vec3 = Inr (foldl foldVec3 seed_Vec3 ?ys)"
    using forEach_order_At [OF p(1), of foldVec3 seed_Vec3]
    by (simp add: visit_Vec3_def [abs_def])
  moreover have "numbers (foldl foldVec3 seed_Vec3 ?ys)
      = (vecMin (mContents g), vecMax (mContents g))"
    using numbers_foldVec3(1) [OF ne fl] vecMinMax_set [OF s] by simp
  ultimately show ?thesis by blast
qed

lemma Vorton_order_numbers:
  assumes "mContents h \<noteq> []" "\<forall>w \<in> set (mContents h). floatVorton w"
    and "mset order = mset [0 ..< length (mContents h)]"
  shows "\<exists>stats. forEach order (visit_Vorton h) seed_Vorton = Inr stats \<and>
           vortonNumbers stats
             = (\<lparr> mPosition = vecMin (map mPosition (mContents h)),
                   mVorticity = vecMin (map mVorticity (mContents h)) \<rparr>,
                \<lparr> mPosition = vecMax (map mPosition (mContents h)),
                   mVorticity = vecMax (map mVorticity (mContents h)) \<rparr>)"
proof -
  let ?ys = "map ((!) (mContents h)) order"
  note p = permuted_offsets [OF assms(3)]
  have s: "set ?ys = set (mContents h)" using p(2) by (rule mset_eq_setD)
  have ne: "map mPosition ?ys \<noteq> []" "map mVorticity ?ys \<noteq> []"
    using s assms(1) by auto
  have sp: "set (map mPosition ?ys) = set (map mPosition (mContents h))"
    and sw: "set (map mVorticity ?ys) = set (map mVorticity (mContents h))"
    using s by (simp_all only: set_map)
  have fp: "\<forall>v \<in> set (map mPosition ?ys). floatVec v"
    and fw: "\<forall>v \<in> set (map mVorticity ?ys). floatVec v"
    using assms(2) unfolding sp sw by (simp_all add: floatVorton_def)
  have e: "forEach order (visit_Vorton h) seed_Vorton = Inr (foldl foldVorton seed_Vorton ?ys)"
    using forEach_order_At [OF p(1), of foldVorton seed_Vorton]
    by (simp add: visit_Vorton_def [abs_def])
  note np = numbers_foldVec3(1) [OF ne(1) fp]
  note nw = numbers_foldVec3(1) [OF ne(2) fw]
  have "vortonNumbers (foldl foldVorton seed_Vorton ?ys)
      = (\<lparr> mPosition = vecMin (map mPosition (mContents h)),
            mVorticity = vecMin (map mVorticity (mContents h)) \<rparr>,
         \<lparr> mPosition = vecMax (map mPosition (mContents h)),
            mVorticity = vecMax (map mVorticity (mContents h)) \<rparr>)"
    using np nw vecMinMax_set [OF sp] vecMinMax_set [OF sw]
    unfolding seed_Vorton_def foldl_foldVorton vortonNumbers_def numbers_def
    by (simp del: map_map)
  then show ?thesis using e by blast
qed

lemma statistics_state:
  assumes "wellFormed g" "wellFormed h"
  shows "ComputeStatistics_Vec3_state g = Inr (g, foldl foldVec3 seed_Vec3 (mContents g))"
    and "ComputeStatistics_Vorton h = Inr (foldl foldVorton seed_Vorton (mContents h))"
    and "ComputeStatistics_Vorton_state h
           = Inr (h, foldl foldVorton seed_Vorton (mContents h))"
proof -
  note wh = wellFormed_contents [OF assms(2)]
  have "traverse_Vec3 g (visit_Vec3 g) seed_Vec3 = Inr (foldl foldVec3 seed_Vec3 (mContents g))"
    using ComputeStatistics_Vec3_fold [OF assms(1)]
    by (simp only: ComputeStatistics_Vec3_traverse)
  then show "ComputeStatistics_Vec3_state g = Inr (g, foldl foldVec3 seed_Vec3 (mContents g))"
    by (simp add: ComputeStatistics_Vec3_state_traverse andThen_Inr)
  have l: "forEach [0 ..< Size h] (visit_Vorton h) seed_Vorton
      = Inr (foldl foldVorton seed_Vorton (mContents h))"
    using forEach_At [OF wh(4), of foldVorton seed_Vorton]
    by (simp add: visit_Vorton_def [abs_def])
  then show "ComputeStatistics_Vorton h = Inr (foldl foldVorton seed_Vorton (mContents h))"
    by (simp only: ComputeStatistics_Vorton_loop)
  show "ComputeStatistics_Vorton_state h = Inr (h, foldl foldVorton seed_Vorton (mContents h))"
    by (simp add: ComputeStatistics_Vorton_state_loop l andThen_Inr)
qed

lemma floatVec_plain:
  "list_all plainVec xs \<Longrightarrow> list_all floatVec xs"
  "list_all plainVorton ws \<Longrightarrow> list_all floatVorton ws"
  by (auto simp add: list_all_iff plainVec_def floatVec_def plainVorton_def floatVorton_def
      plainFloat_finiteFloat)

section \<open>The exporters on the file system\<close>

lemma thenDo_lift_Inr: "thenDo (lift (Inr a)) f fs = f a fs"
  by (simp add: thenDo_def lift_def)

lemma thenDo_lift_Inl: "thenDo (lift (Inl e)) f fs = (Inl e, fs)"
  by (simp add: thenDo_def lift_def)

lemma thenDo_lift_andThen:
  "thenDo (lift r) (\<lambda>a. thenDo (lift (q a)) k) fs = thenDo (lift (andThen r q)) k fs"
  by (cases r) (simp_all add: thenDo_def lift_def andThen_def)

lemma forEachIO_cong:
  "(\<And>i fs. i \<in> set xs \<Longrightarrow> body i fs = body' i fs) \<Longrightarrow> forEachIO xs body fs = forEachIO xs body' fs"
  by (induction xs arbitrary: fs) (auto split: prod.splits sum.splits)





lemma fput_known:
  "files fs n = Some old \<Longrightarrow> fput n it fs = fs \<lparr> files := (files fs)(n \<mapsto> old @ [it]) \<rparr>"
  by (simp add: fput_def)

lemma forEachIO_bricks:
  assumes d: "distinct [n0, n1, n2, n3]"
    and c: "\<forall>i \<in> set order. cell i = Inr (q i)"
    and f: "files fs n0 = Some c0" "files fs n1 = Some c1" "files fs n2 = Some c2"
      "files fs n3 = Some c3"
  shows "forEachIO order (\<lambda>offset. thenDo (lift (cell offset)) (\<lambda>cVec.
           case cVec of (cVec0, cVec1, cVec2, cVec3) \<Rightarrow>
             thenDo (fwrite cVec0 (Some n0)) (\<lambda>_.
             thenDo (fwrite cVec1 (Some n1)) (\<lambda>_.
             thenDo (fwrite cVec2 (Some n2)) (\<lambda>_.
             fwrite cVec3 (Some n3)))))) fs
       = (Inr (), fs \<lparr> files := (files fs)
            (n0 \<mapsto> c0 @ map (\<lambda>i. Byte (fst (q i))) order,
             n1 \<mapsto> c1 @ map (\<lambda>i. Byte (fst (snd (q i)))) order,
             n2 \<mapsto> c2 @ map (\<lambda>i. Byte (fst (snd (snd (q i))))) order,
             n3 \<mapsto> c3 @ map (\<lambda>i. Byte (snd (snd (snd (q i))))) order) \<rparr>)"
  using c f
proof (induction order arbitrary: fs c0 c1 c2 c3)
  case Nil
  have "(files fs)(n0 \<mapsto> c0, n1 \<mapsto> c1, n2 \<mapsto> c2, n3 \<mapsto> c3) = files fs"
    using Nil.prems by (auto simp: fun_eq_iff)
  then have "fs \<lparr> files := (files fs)(n0 \<mapsto> c0, n1 \<mapsto> c1, n2 \<mapsto> c2, n3 \<mapsto> c3) \<rparr> = fs"
    by (simp only:) simp
  then show ?case by (simp only: forEachIO.simps list.map append_Nil2)
next
  case (Cons i order)
  obtain b0 b1 b2 b3 where q: "q i = (b0, b1, b2, b3)" by (cases "q i") auto
  define fs1 where "fs1 = fs \<lparr> files := (files fs)
      (n0 \<mapsto> c0 @ [Byte b0], n1 \<mapsto> c1 @ [Byte b1], n2 \<mapsto> c2 @ [Byte b2],
       n3 \<mapsto> c3 @ [Byte b3]) \<rparr>"
  have dd: "n0 \<noteq> n1" "n0 \<noteq> n2" "n0 \<noteq> n3" "n1 \<noteq> n2" "n1 \<noteq> n3" "n2 \<noteq> n3"
    "n1 \<noteq> n0" "n2 \<noteq> n0" "n3 \<noteq> n0" "n2 \<noteq> n1" "n3 \<noteq> n1" "n3 \<noteq> n2"
    using d by auto
  have ci: "cell i = Inr (b0, b1, b2, b3)" using Cons.prems(1) q by simp
  have body: "thenDo (lift (cell i)) (\<lambda>cVec.
           case cVec of (cVec0, cVec1, cVec2, cVec3) \<Rightarrow>
             thenDo (fwrite cVec0 (Some n0)) (\<lambda>_.
             thenDo (fwrite cVec1 (Some n1)) (\<lambda>_.
             thenDo (fwrite cVec2 (Some n2)) (\<lambda>_.
             fwrite cVec3 (Some n3))))) fs = (Inr (), fs1)"
    using Cons.prems(2-5)
    by (simp add: ci lift_def thenDo_def fput_def fs1_def dd)
  have f1: "files fs1 n0 = Some (c0 @ [Byte b0])" "files fs1 n1 = Some (c1 @ [Byte b1])"
    "files fs1 n2 = Some (c2 @ [Byte b2])" "files fs1 n3 = Some (c3 @ [Byte b3])"
    by (simp_all add: fs1_def dd)
  have r: "\<forall>i \<in> set order. cell i = Inr (q i)" using Cons.prems(1) by simp
  note ih = Cons.IH [OF r f1]
  have e: "fs1 \<lparr> files := (files fs1)
            (n0 \<mapsto> (c0 @ [Byte b0]) @ map (\<lambda>i. Byte (fst (q i))) order,
             n1 \<mapsto> (c1 @ [Byte b1]) @ map (\<lambda>i. Byte (fst (snd (q i)))) order,
             n2 \<mapsto> (c2 @ [Byte b2]) @ map (\<lambda>i. Byte (fst (snd (snd (q i))))) order,
             n3 \<mapsto> (c3 @ [Byte b3]) @ map (\<lambda>i. Byte (snd (snd (snd (q i))))) order) \<rparr>
         = fs \<lparr> files := (files fs)
            (n0 \<mapsto> c0 @ map (\<lambda>i. Byte (fst (q i))) (i # order),
             n1 \<mapsto> c1 @ map (\<lambda>i. Byte (fst (snd (q i)))) (i # order),
             n2 \<mapsto> c2 @ map (\<lambda>i. Byte (fst (snd (snd (q i))))) (i # order),
             n3 \<mapsto> c3 @ map (\<lambda>i. Byte (snd (snd (snd (q i))))) (i # order)) \<rparr>"
    by (simp add: fs1_def q dd)
  show ?case
    by (simp only: forEachIO.simps body prod.case sum.case ih e)
qed

lemma forEachIO_brick:
  assumes c: "\<forall>i \<in> set order. cell i = Inr (q i)"
    and f: "files fs n = Some c0"
  shows "forEachIO order (\<lambda>offset. thenDo (lift (cell offset)) (\<lambda>cVal. fwrite cVal (Some n))) fs
       = (Inr (), fs \<lparr> files := (files fs) (n \<mapsto> c0 @ map (\<lambda>i. Byte (q i)) order) \<rparr>)"
  using c f
proof (induction order arbitrary: fs c0)
  case Nil
  have "(files fs)(n \<mapsto> c0) = files fs"
    using Nil.prems by (auto simp: fun_eq_iff)
  then have "fs \<lparr> files := (files fs)(n \<mapsto> c0) \<rparr> = fs"
    by (simp only:) simp
  then show ?case by (simp only: forEachIO.simps list.map append_Nil2)
next
  case (Cons i order)
  define fs1 where "fs1 = fs \<lparr> files := (files fs) (n \<mapsto> c0 @ [Byte (q i)]) \<rparr>"
  have body: "thenDo (lift (cell i)) (\<lambda>cVal. fwrite cVal (Some n)) fs = (Inr (), fs1)"
    using Cons.prems by (simp add: thenDo_lift_Inr fput_def fs1_def)
  have f1: "files fs1 n = Some (c0 @ [Byte (q i)])" by (simp add: fs1_def)
  have r: "\<forall>i \<in> set order. cell i = Inr (q i)" using Cons.prems(1) by simp
  note ih = Cons.IH [OF r f1]
  have e: "fs1 \<lparr> files := (files fs1) (n \<mapsto> (c0 @ [Byte (q i)]) @ map (\<lambda>i. Byte (q i)) order) \<rparr>
         = fs \<lparr> files := (files fs) (n \<mapsto> c0 @ map (\<lambda>i. Byte (q i)) (i # order)) \<rparr>"
    by (simp add: fs1_def)
  show ?case
    by (simp only: forEachIO.simps body prod.case sum.case ih e)
qed

lemma thenDo_fopen:
  "writable fs name \<Longrightarrow> thenDo (fopen name mode) k fs =
     k (Some name) (fs \<lparr> files := (files fs) (name \<mapsto>
                   (case mode of
                      WriteBinary \<Rightarrow> []
                    | AppendText \<Rightarrow> (case files fs name of None \<Rightarrow> [] | Some old \<Rightarrow> old))) \<rparr>)"
  by (simp add: thenDo_def fopen_def)

lemma thenDo_fopen_fails:
  "\<not> writable fs name \<Longrightarrow> thenDo (fopen name mode) k fs = k None fs"
  by (simp add: thenDo_def fopen_def)

lemma thenDo_fprintf:
  "thenDo (fprintf (Some name) fmt args) k fs = k () (fput name (Printf fmt args) fs)"
  by (simp add: thenDo_def)

lemma thenDo_fclose: "thenDo (fclose (Some name)) k fs = k () fs"
  by (simp add: thenDo_def)

lemma thenDo_result: "m fs = (Inr a, fs') \<Longrightarrow> thenDo m k fs = k a fs'"
  by (simp add: thenDo_def)

lemma loop_body:
  "(\<lambda>offset. thenDo (lift (At g offset)) (\<lambda>rVec. thenDo (lift (quantize rVec)) k))
     = (\<lambda>offset. thenDo (lift (andThen (At g offset) quantize)) k)"
  by (intro ext) (simp only: thenDo_lift_andThen)

lemma emit_Inr: "emit s (Inr t) = Inr (s @ t)"
  by (simp add: emit_def)

lemma dataFilename_text:
  assumes "dataFilename [c] strFilenameBase uFrame g = Inr n" "c \<noteq> CHR ''%''"
  shows "n = ''Vols/'' @ strFilenameBase @ [c] @ pad0 5 (show_nat uFrame) @ ''-'' @
             show_nat (GetNumPoints g 0) @ ''x'' @ show_nat (GetNumPoints g 1) @ ''x'' @
             show_nat (GetNumPoints g 2) @ ''.dat''"
  using assms
  by (simp add: dataFilename_def sprintf_def emit_Inr split: if_splits del: show_nat.simps)

lemma scriptFilename_text:
  assumes "sprintf ''%s.ogle'' [ArgString strFilenameBase] = Inr n"
  shows "n = strFilenameBase @ ''.ogle''"
  using assms by (simp add: sprintf_def emit_Inr split: if_splits)

lemma names_distinct:
  assumes "dataFilename ''X'' strFilenameBase uFrame g = Inr n0"
      "dataFilename ''Y'' strFilenameBase uFrame g = Inr n1"
      "dataFilename ''Z'' strFilenameBase uFrame g = Inr n2"
      "dataFilename ''M'' strFilenameBase uFrame g = Inr n3"
      "sprintf ''%s.ogle'' [ArgString strFilenameBase] = Inr nS"
  shows "distinct [nS, n0, n1, n2, n3]"
proof -
  note t = dataFilename_text [OF assms(1)] dataFilename_text [OF assms(2)]
    dataFilename_text [OF assms(3)] dataFilename_text [OF assms(4)]
  note s = scriptFilename_text [OF assms(5)]
  have l: "last nS = CHR ''e''" "last n0 = CHR ''t''" "last n1 = CHR ''t''"
    "last n2 = CHR ''t''" "last n3 = CHR ''t''"
    using t s by (simp_all del: show_nat.simps)
  have a: "nS \<noteq> n0" "nS \<noteq> n1" "nS \<noteq> n2" "nS \<noteq> n3" using l by auto
  have b: "n0 \<noteq> n1" "n0 \<noteq> n2" "n0 \<noteq> n3" "n1 \<noteq> n2" "n1 \<noteq> n3" "n2 \<noteq> n3"
    using t by (simp_all del: show_nat.simps)
  show ?thesis using a b by simp
qed

lemma cell_ok:
  assumes "\<forall>v \<in> set (mContents g). quantize v = Inr (q v)"
  shows "\<forall>i \<in> set [0 ..< length (mContents g)].
           andThen (At g i) quantize = Inr (q (mContents g ! i))"
  using assms by (simp add: At_def andThen_def)

lemma writeBricks_ok:
  assumes names: "dataFilename ''X'' strFilenameBase uFrame g = Inr n0"
      "dataFilename ''Y'' strFilenameBase uFrame g = Inr n1"
      "dataFilename ''Z'' strFilenameBase uFrame g = Inr n2"
      "dataFilename ''M'' strFilenameBase uFrame g = Inr n3"
      "sprintf ''%s.ogle'' [ArgString strFilenameBase] = Inr nS"
    and w: "writable fs nS" "writable fs n0" "writable fs n1" "writable fs n2" "writable fs n3"
    and l: "Size g = length (mContents g)"
    and c: "\<forall>v \<in> set (mContents g). quantize v = Inr (q v)"
  shows "writeBricks g strFilenameBase uFrame vMin vMax fMagMax quantize fs =
     (Inr (), fs \<lparr> files := (files fs)
        (nS \<mapsto> (case files fs nS of None \<Rightarrow> [] | Some old \<Rightarrow> old) @
           [Printf ''# %s ranges: {%9.7g,%9.7g,%9.7g} to {%9.7g,%9.7g,%9.7g}\<newline>''
              [ArgString strFilenameBase, ArgDouble (vx vMin), ArgDouble (vy vMin),
               ArgDouble (vz vMin), ArgDouble (vx vMax), ArgDouble (vy vMax),
               ArgDouble (vz vMax)],
            Printf ''%ux%ux%u %s %s %s\<newline>''
              [ArgUnsigned (GetNumPoints g 0), ArgUnsigned (GetNumPoints g 1),
               ArgUnsigned (GetNumPoints g 2), ArgString n0, ArgString n1, ArgString n2]],
         n0 \<mapsto> map (\<lambda>v. Byte (fst (q v))) (mContents g) @
           [Printf ''MIN %g MAX %g\<newline>'' [ArgDouble (vx vMin), ArgDouble (vx vMax)]],
         n1 \<mapsto> map (\<lambda>v. Byte (fst (snd (q v)))) (mContents g) @
           [Printf ''MIN %g MAX %g\<newline>'' [ArgDouble (vy vMin), ArgDouble (vy vMax)]],
         n2 \<mapsto> map (\<lambda>v. Byte (fst (snd (snd (q v))))) (mContents g) @
           [Printf ''MIN %g MAX %g\<newline>'' [ArgDouble (vz vMin), ArgDouble (vz vMax)]],
         n3 \<mapsto> map (\<lambda>v. Byte (snd (snd (snd (q v))))) (mContents g) @
           [Printf ''MIN %g MAX %g\<newline>'' [ArgInt 0, ArgDouble fMagMax]]) \<rparr>)"
proof -
  note d = names_distinct [OF names]
  have dd: "nS \<noteq> n0" "nS \<noteq> n1" "nS \<noteq> n2" "nS \<noteq> n3" "n0 \<noteq> nS" "n1 \<noteq> nS" "n2 \<noteq> nS" "n3 \<noteq> nS"
    "n0 \<noteq> n1" "n0 \<noteq> n2" "n0 \<noteq> n3" "n1 \<noteq> n2" "n1 \<noteq> n3" "n2 \<noteq> n3"
    "n1 \<noteq> n0" "n2 \<noteq> n0" "n3 \<noteq> n0" "n2 \<noteq> n1" "n3 \<noteq> n1" "n3 \<noteq> n2"
    using d by auto
  have d4: "distinct [n0, n1, n2, n3]" using d by simp
  define script where "script = (case files fs nS of None \<Rightarrow> [] | Some old \<Rightarrow> old) @
           [Printf ''# %s ranges: {%9.7g,%9.7g,%9.7g} to {%9.7g,%9.7g,%9.7g}\<newline>''
              [ArgString strFilenameBase, ArgDouble (vx vMin), ArgDouble (vy vMin),
               ArgDouble (vz vMin), ArgDouble (vx vMax), ArgDouble (vy vMax),
               ArgDouble (vz vMax)],
            Printf ''%ux%ux%u %s %s %s\<newline>''
              [ArgUnsigned (GetNumPoints g 0), ArgUnsigned (GetNumPoints g 1),
               ArgUnsigned (GetNumPoints g 2), ArgString n0, ArgString n1, ArgString n2]]"
  define fs1 where "fs1 = fs \<lparr> files := (files fs)
      (nS \<mapsto> (case files fs nS of None \<Rightarrow> [] | Some old \<Rightarrow> old)) \<rparr>"
  define fs3 where "fs3 = fs \<lparr> files := (files fs) (nS \<mapsto> script) \<rparr>"
  define fs4 where "fs4 = fs \<lparr> files := (files fs) (nS \<mapsto> script, n0 \<mapsto> []) \<rparr>"
  define fs5 where "fs5 = fs \<lparr> files := (files fs) (nS \<mapsto> script, n0 \<mapsto> [], n1 \<mapsto> []) \<rparr>"
  define fs6 where "fs6 = fs \<lparr> files := (files fs)
      (nS \<mapsto> script, n0 \<mapsto> [], n1 \<mapsto> [], n2 \<mapsto> []) \<rparr>"
  define fs7 where "fs7 = fs \<lparr> files := (files fs)
      (nS \<mapsto> script, n0 \<mapsto> [], n1 \<mapsto> [], n2 \<mapsto> [], n3 \<mapsto> []) \<rparr>"
  define b0 where "b0 = map (\<lambda>v. Byte (fst (q v))) (mContents g)"
  define b1 where "b1 = map (\<lambda>v. Byte (fst (snd (q v)))) (mContents g)"
  define b2 where "b2 = map (\<lambda>v. Byte (fst (snd (snd (q v))))) (mContents g)"
  define b3 where "b3 = map (\<lambda>v. Byte (snd (snd (snd (q v))))) (mContents g)"
  define fs8 where "fs8 = fs \<lparr> files := (files fs)
      (nS \<mapsto> script, n0 \<mapsto> b0, n1 \<mapsto> b1, n2 \<mapsto> b2, n3 \<mapsto> b3) \<rparr>"
  have o1: "thenDo (fopen nS AppendText) k fs = k (Some nS) fs1" for k :: "string option \<Rightarrow> unit io"
    using w(1) by (simp add: thenDo_def fopen_def fs1_def)
  have p1: "thenDo (fprintf (Some nS) fmt1 args1)
              (\<lambda>_. thenDo (fprintf (Some nS) fmt2 args2) k) fs1
          = k () (fs \<lparr> files := (files fs) (nS \<mapsto>
               (case files fs nS of None \<Rightarrow> [] | Some old \<Rightarrow> old) @
               [Printf fmt1 args1, Printf fmt2 args2]) \<rparr>)"
    for k :: "unit \<Rightarrow> unit io" and fmt1 args1 fmt2 args2
    by (simp add: thenDo_def fput_def fs1_def)
  have o2: "thenDo (fopen n0 WriteBinary) k fs3 = k (Some n0) fs4" for k :: "string option \<Rightarrow> unit io"
    using w(2) by (simp add: thenDo_def fopen_def fs3_def fs4_def)
  have o3: "thenDo (fopen n1 WriteBinary) k fs4 = k (Some n1) fs5" for k :: "string option \<Rightarrow> unit io"
    using w(3) by (simp add: thenDo_def fopen_def fs4_def fs5_def)
  have o4: "thenDo (fopen n2 WriteBinary) k fs5 = k (Some n2) fs6" for k :: "string option \<Rightarrow> unit io"
    using w(4) by (simp add: thenDo_def fopen_def fs5_def fs6_def)
  have o5: "thenDo (fopen n3 WriteBinary) k fs6 = k (Some n3) fs7" for k :: "string option \<Rightarrow> unit io"
    using w(5) by (simp add: thenDo_def fopen_def fs6_def fs7_def)
  have fB: "files fs7 n0 = Some []" "files fs7 n1 = Some []" "files fs7 n2 = Some []"
    "files fs7 n3 = Some []"
    by (simp_all add: fs7_def dd)
  have m: "map (\<lambda>i. Byte (fst (q (mContents g ! i)))) [0 ..< length (mContents g)] = b0"
    "map (\<lambda>i. Byte (fst (snd (q (mContents g ! i))))) [0 ..< length (mContents g)] = b1"
    "map (\<lambda>i. Byte (fst (snd (snd (q (mContents g ! i)))))) [0 ..< length (mContents g)] = b2"
    "map (\<lambda>i. Byte (snd (snd (snd (q (mContents g ! i)))))) [0 ..< length (mContents g)] = b3"
    unfolding b0_def b1_def b2_def b3_def by (rule nth_equalityI; simp)+
  have e8: "fs7 \<lparr> files := (files fs7) (n0 \<mapsto> b0, n1 \<mapsto> b1, n2 \<mapsto> b2, n3 \<mapsto> b3) \<rparr> = fs8"
    by (simp add: fs7_def fs8_def)
  have loop: "thenDo (forEachIO [0 ..< length (mContents g)]
      (\<lambda>offset. thenDo (lift (andThen (At g offset) quantize)) (\<lambda>cVec.
           case cVec of (cVec0, cVec1, cVec2, cVec3) \<Rightarrow>
             thenDo (fwrite cVec0 (Some n0)) (\<lambda>_.
             thenDo (fwrite cVec1 (Some n1)) (\<lambda>_.
             thenDo (fwrite cVec2 (Some n2)) (\<lambda>_.
             fwrite cVec3 (Some n3))))))) k fs7 = k () fs8" for k :: "unit \<Rightarrow> unit io"
    unfolding thenDo_def [of "forEachIO _ _"]
    by (simp only: forEachIO_bricks [OF d4 cell_ok [OF c] fB] append_Nil m e8 prod.case sum.case)
  have foot: "thenDo (fprintf (Some n0) fmt0 args0) (\<lambda>_.
              thenDo (fprintf (Some n1) fmt1 args1) (\<lambda>_.
              thenDo (fprintf (Some n2) fmt2 args2) (\<lambda>_.
              thenDo (fprintf (Some n3) fmt3 args3) (\<lambda>_.
              thenDo (fclose (Some n0)) (\<lambda>_.
              thenDo (fclose (Some n1)) (\<lambda>_.
              thenDo (fclose (Some n2)) (\<lambda>_.
              fclose (Some n3)))))))) fs8
        = (Inr (), fs \<lparr> files := (files fs)
            (nS \<mapsto> script, n0 \<mapsto> b0 @ [Printf fmt0 args0], n1 \<mapsto> b1 @ [Printf fmt1 args1],
             n2 \<mapsto> b2 @ [Printf fmt2 args2], n3 \<mapsto> b3 @ [Printf fmt3 args3]) \<rparr>)"
    for fmt0 args0 fmt1 args1 fmt2 args2 fmt3 args3
    by (simp add: thenDo_def fput_def fs8_def dd)
  show ?thesis
    unfolding writeBricks_def loop_body
    by (simp only: names thenDo_lift_Inr o1 p1 thenDo_fclose script_def [symmetric]
        fs3_def [symmetric] o2 o3 o4 o5 option.distinct if_False l loop foot
        b0_def b1_def b2_def b3_def)
qed

lemma scalar_names_distinct:
  assumes "sprintf ''Vols/%s%05u-%ux%ux%u.dat''
             [ArgString strFilenameBase, ArgUnsigned uFrame, ArgUnsigned d0, ArgUnsigned d1,
              ArgUnsigned d2] = Inr nD"
    and "sprintf ''%s.ogle'' [ArgString strFilenameBase] = Inr nS"
  shows "nS \<noteq> nD" and "nD \<noteq> nS"
proof -
  have "nD = ''Vols/'' @ strFilenameBase @ pad0 5 (show_nat uFrame) @ ''-'' @
             show_nat d0 @ ''x'' @ show_nat d1 @ ''x'' @ show_nat d2 @ ''.dat''"
    using assms(1) by (simp add: sprintf_def emit_Inr split: if_splits del: show_nat.simps)
  then have "last nD = CHR ''t''" by (simp del: show_nat.simps)
  moreover have "last nS = CHR ''e''" using scriptFilename_text [OF assms(2)] by simp
  ultimately show "nS \<noteq> nD" and "nD \<noteq> nS" by auto
qed

lemma GenerateBrickOfBytes_float_ok:
  assumes stats: "range_float enforce (ComputeStatistics_float g (FLT_MAX, fneg FLT_MAX))
                    = (fMin, fMax)"
    and names: "sprintf ''Vols/%s%05u-%ux%ux%u.dat''
             [ArgString strFilenameBase, ArgUnsigned uFrame, ArgUnsigned (GetNumPoints g 0),
              ArgUnsigned (GetNumPoints g 1), ArgUnsigned (GetNumPoints g 2)] = Inr nD"
      "sprintf ''%s.ogle'' [ArgString strFilenameBase] = Inr nS"
    and w: "writable fs nS" "writable fs nD"
    and l: "Size g = length (mContents g)"
    and c: "\<forall>v \<in> set (mContents g).
              quantize_float fMin (MAX2 (fsub fMax fMin) FLT_MIN) v = Inr (q v)"
  shows "GenerateBrickOfBytes_float enforce g strFilenameBase uFrame fs =
     (Inr (), fs \<lparr> files := (files fs)
        (nS \<mapsto> (case files fs nS of None \<Rightarrow> [] | Some old \<Rightarrow> old) @
           [Printf ''# %s ranges: %9.7g to %9.7g\<newline>''
              [ArgString strFilenameBase, ArgDouble fMin, ArgDouble fMax],
            Printf ''%ux%ux%u %s\<newline>''
              [ArgUnsigned (GetNumPoints g 0), ArgUnsigned (GetNumPoints g 1),
               ArgUnsigned (GetNumPoints g 2), ArgString nD]],
         nD \<mapsto> map (\<lambda>v. Byte (q v)) (mContents g) @
           [Printf ''MIN %g MAX %g\<newline>'' [ArgDouble fMin, ArgDouble fMax]]) \<rparr>)"
proof -
  note dd = scalar_names_distinct [OF names]
  define script where "script = (case files fs nS of None \<Rightarrow> [] | Some old \<Rightarrow> old) @
           [Printf ''# %s ranges: %9.7g to %9.7g\<newline>''
              [ArgString strFilenameBase, ArgDouble fMin, ArgDouble fMax],
            Printf ''%ux%ux%u %s\<newline>''
              [ArgUnsigned (GetNumPoints g 0), ArgUnsigned (GetNumPoints g 1),
               ArgUnsigned (GetNumPoints g 2), ArgString nD]]"
  define fs1 where "fs1 = fs \<lparr> files := (files fs)
      (nS \<mapsto> (case files fs nS of None \<Rightarrow> [] | Some old \<Rightarrow> old)) \<rparr>"
  define fs3 where "fs3 = fs \<lparr> files := (files fs) (nS \<mapsto> script) \<rparr>"
  define fs4 where "fs4 = fs \<lparr> files := (files fs) (nS \<mapsto> script, nD \<mapsto> []) \<rparr>"
  define b where "b = map (\<lambda>v. Byte (q v)) (mContents g)"
  define fs5 where "fs5 = fs \<lparr> files := (files fs) (nS \<mapsto> script, nD \<mapsto> b) \<rparr>"
  have o1: "thenDo (fopen nS AppendText) k fs = k (Some nS) fs1"
    for k :: "string option \<Rightarrow> unit io"
    using w(1) by (simp add: thenDo_def fopen_def fs1_def)
  have p1: "thenDo (fprintf (Some nS) fmt1 args1)
              (\<lambda>_. thenDo (fprintf (Some nS) fmt2 args2) k) fs1
          = k () (fs \<lparr> files := (files fs) (nS \<mapsto>
               (case files fs nS of None \<Rightarrow> [] | Some old \<Rightarrow> old) @
               [Printf fmt1 args1, Printf fmt2 args2]) \<rparr>)"
    for k :: "unit \<Rightarrow> unit io" and fmt1 args1 fmt2 args2
    by (simp add: thenDo_def fput_def fs1_def)
  have o2: "thenDo (fopen nD WriteBinary) k fs3 = k (Some nD) fs4"
    for k :: "string option \<Rightarrow> unit io"
    using w(2) by (simp add: thenDo_def fopen_def fs3_def fs4_def)
  have fB: "files fs4 nD = Some []" by (simp add: fs4_def)
  have m: "map (\<lambda>i. Byte (q (mContents g ! i))) [0 ..< length (mContents g)] = b"
    unfolding b_def by (rule nth_equalityI; simp)
  have e5: "fs4 \<lparr> files := (files fs4) (nD \<mapsto> b) \<rparr> = fs5"
    by (simp add: fs4_def fs5_def)
  have loop: "thenDo (forEachIO [0 ..< length (mContents g)]
      (\<lambda>offset. thenDo (lift (andThen (At g offset)
                    (quantize_float fMin (MAX2 (fsub fMax fMin) FLT_MIN))))
         (\<lambda>cVal. fwrite cVal (Some nD)))) k fs4 = k () fs5" for k :: "unit \<Rightarrow> unit io"
    unfolding thenDo_def [of "forEachIO _ _"]
    by (simp only: forEachIO_brick [OF cell_ok [OF c] fB] append_Nil m e5 prod.case sum.case)
  have foot: "thenDo (fprintf (Some nD) fmt0 args0) (\<lambda>_. fclose (Some nD)) fs5
        = (Inr (), fs \<lparr> files := (files fs)
            (nS \<mapsto> script, nD \<mapsto> b @ [Printf fmt0 args0]) \<rparr>)"
    for fmt0 args0
    by (simp add: thenDo_def fput_def fs5_def)
  show ?thesis
    unfolding GenerateBrickOfBytes_float_def stats prod.case Let_def loop_body
    by (simp only: names thenDo_lift_Inr o1 p1 thenDo_fclose script_def [symmetric]
        fs3_def [symmetric] o2 option.distinct if_False l loop foot b_def)
qed

lemma GenerateBrickOfBytes_float_no_script:
  assumes "sprintf ''Vols/%s%05u-%ux%ux%u.dat''
             [ArgString strFilenameBase, ArgUnsigned uFrame, ArgUnsigned (GetNumPoints g 0),
              ArgUnsigned (GetNumPoints g 1), ArgUnsigned (GetNumPoints g 2)] = Inr nD"
      "sprintf ''%s.ogle'' [ArgString strFilenameBase] = Inr nS"
    and "\<not> writable fs nS"
  shows "GenerateBrickOfBytes_float enforce g strFilenameBase uFrame fs = (Inl AssertionFailed, fs)"
  unfolding GenerateBrickOfBytes_float_def Let_def
  by (simp add: assms thenDo_lift_Inr thenDo_fopen_fails abort_def split: prod.splits
      del: One_nat_def)

lemma GenerateBrickOfBytes_float_no_data:
  assumes stats: "range_float enforce (ComputeStatistics_float g (FLT_MAX, fneg FLT_MAX))
                    = (fMin, fMax)"
    and names: "sprintf ''Vols/%s%05u-%ux%ux%u.dat''
             [ArgString strFilenameBase, ArgUnsigned uFrame, ArgUnsigned (GetNumPoints g 0),
              ArgUnsigned (GetNumPoints g 1), ArgUnsigned (GetNumPoints g 2)] = Inr nD"
      "sprintf ''%s.ogle'' [ArgString strFilenameBase] = Inr nS"
    and w: "writable fs nS" "\<not> writable fs nD"
  shows "GenerateBrickOfBytes_float enforce g strFilenameBase uFrame fs =
     (Inl AssertionFailed, fs \<lparr> files := (files fs)
        (nS \<mapsto> (case files fs nS of None \<Rightarrow> [] | Some old \<Rightarrow> old) @
           [Printf ''# %s ranges: %9.7g to %9.7g\<newline>''
              [ArgString strFilenameBase, ArgDouble fMin, ArgDouble fMax],
            Printf ''%ux%ux%u %s\<newline>''
              [ArgUnsigned (GetNumPoints g 0), ArgUnsigned (GetNumPoints g 1),
               ArgUnsigned (GetNumPoints g 2), ArgString nD]]) \<rparr>)"
  unfolding GenerateBrickOfBytes_float_def stats prod.case Let_def
  using scalar_names_distinct [OF names]
  by (simp add: names w thenDo_lift_Inr thenDo_fopen thenDo_fopen_fails thenDo_fprintf
      thenDo_fclose abort_def fput_def del: One_nat_def)

lemma writeBricks_no_script:
  assumes names: "dataFilename ''X'' strFilenameBase uFrame g = Inr n0"
      "dataFilename ''Y'' strFilenameBase uFrame g = Inr n1"
      "dataFilename ''Z'' strFilenameBase uFrame g = Inr n2"
      "dataFilename ''M'' strFilenameBase uFrame g = Inr n3"
      "sprintf ''%s.ogle'' [ArgString strFilenameBase] = Inr nS"
    and "\<not> writable fs nS"
  shows "writeBricks g strFilenameBase uFrame vMin vMax fMagMax quantize fs
           = (Inl NullFileWrite, fs)"
  unfolding writeBricks_def
  by (simp add: assms thenDo_lift_Inr thenDo_fopen_fails thenDo_def [of "fprintf None _ _"])

lemma range_float_encoded: "range_float enforce stats = encodedRange enforce stats"
  by (cases stats) (simp add: range_float_def encodedRange_def symmetricRange_def Let_def)

lemma encodedVecRange_True:
  "encodedVecRange True (mn, mx) = (vneg (vecExtreme mn mx), vecExtreme mn mx)"
  by (simp add: encodedVecRange_def encodedRange_def symmetricRange_def vneg_def vecExtreme_def)

lemma encodedVecRange_False: "encodedVecRange False (mn, mx) = (mn, mx)"
  by (simp add: encodedVecRange_def encodedRange_def)

lemma GenerateBrickOfBytes_Vec3_range:
  assumes "ComputeStatistics_Vec3 g = Inr (mn, mx)"
    and "encodedVecRange enforce (mn, mx) = (lo, hi)"
  shows "GenerateBrickOfBytes_Vec3 enforce g strFilenameBase uFrame fs
       = writeBricks g strFilenameBase uFrame lo hi (Magnitude (vecExtreme mn mx))
           (quantize_Vec3 enforce lo (vecRange lo hi) (Magnitude (vecExtreme mn mx))) fs"
  using assms(2)
  by (cases enforce)
    (auto simp add: GenerateBrickOfBytes_Vec3_def assms(1) thenDo_lift_Inr Let_def
      encodedVecRange_True encodedVecRange_False)

lemma GenerateBrickOfBytes_Vorton_range:
  assumes "ComputeStatistics_Vorton g = Inr (mn, mx)"
    and "encodedVecRange True (mVorticity mn, mVorticity mx) = (lo, hi)"
  shows "GenerateBrickOfBytes_Vorton enforce g strFilenameBase uFrame fs
       = writeBricks g strFilenameBase uFrame lo hi
           (Magnitude (vecExtreme (mVorticity mn) (mVorticity mx)))
           (\<lambda>rVorton. quantize_Vec3 False lo (vecRange lo hi)
              (Magnitude (vecExtreme (mVorticity mn) (mVorticity mx))) (mVorticity rVorton)) fs"
  using assms(2)
  by (auto simp add: GenerateBrickOfBytes_Vorton_def assms(1) thenDo_lift_Inr Let_def
      encodedVecRange_True)

lemma names_222:
  assumes "mNumPoints g = (2, 2, 2)"
  shows "dataFilename ''X'' ''vort'' 0 g = Inr ''Vols/vortX00000-2x2x2.dat''"
    and "dataFilename ''Y'' ''vort'' 0 g = Inr ''Vols/vortY00000-2x2x2.dat''"
    and "dataFilename ''Z'' ''vort'' 0 g = Inr ''Vols/vortZ00000-2x2x2.dat''"
    and "dataFilename ''M'' ''vort'' 0 g = Inr ''Vols/vortM00000-2x2x2.dat''"
    and "sprintf ''%s.ogle'' [ArgString ''vort''] = Inr ''vort.ogle''"
  by (simp_all add: dataFilename_def sprintf_def emit_Inr pad0_def GetNumPoints_def assms
      eval_nat_numeral)

lemma names_444:
  "sprintf ''Vols/%s%05u-%ux%ux%u.dat''
     [ArgString ''test'', ArgUnsigned 0, ArgUnsigned (GetNumPoints grid444 0),
      ArgUnsigned (GetNumPoints grid444 1), ArgUnsigned (GetNumPoints grid444 2)]
     = Inr ''Vols/test00000-4x4x4.dat''"
  "sprintf ''%s.ogle'' [ArgString ''test''] = Inr ''test.ogle''"
  by (simp_all add: sprintf_def emit_Inr pad0_def GetNumPoints_def grid444_def eval_nat_numeral)

lemma wellFormed_examples:
  "wellFormed vorticityGrid" "wellFormed zeroGrid" "wellFormed (vortonGrid p)" "wellFormed grid444"
  by (simp_all add: wellFormed_def vorticityGrid_def zeroGrid_def vortonGrid_def grid444_def
      GetGridCapacity_def GetNumPoints_def)

lemma plainVec_small: "plainVec (vec 0 0 0)" "plainVec (vec 2 0 0)"
  using plainFloat_small by (simp_all add: plainVec_def vec_def del: plainFloat.simps)

lemma ComputeStatistics_vorticityGrid:
  "ComputeStatistics_Vec3 vorticityGrid = Inr (vec 0 0 0, vec 2 0 0)"
proof -
  have f: "\<forall>v \<in> set (mContents vorticityGrid). plainVec v"
    using plainVec_small by (simp add: vorticityGrid_def)
  have n: "mContents vorticityGrid \<noteq> []" by (simp add: vorticityGrid_def)
  have "vecMin (mContents vorticityGrid) = vec 0 0 0" "vecMax (mContents vorticityGrid) = vec 2 0 0"
    by (simp_all add: vecMin_def vecMax_def componentMin_def componentMax_def vorticityGrid_def
        vec_def)
  then show ?thesis
    by (simp only: ComputeStatistics_Vec3_fold [OF wellFormed_examples(1)]
        foldl_foldVec3_seed [OF n f])
qed

lemma ComputeStatistics_zeroGrid:
  "ComputeStatistics_Vec3 zeroGrid = Inr (vec 0 0 0, vec 0 0 0)"
proof -
  have f: "\<forall>v \<in> set (mContents zeroGrid). plainVec v"
    using plainVec_small by (simp add: zeroGrid_def)
  have n: "mContents zeroGrid \<noteq> []" by (simp add: zeroGrid_def)
  have "vecMin (mContents zeroGrid) = vec 0 0 0" "vecMax (mContents zeroGrid) = vec 0 0 0"
    by (simp_all add: vecMin_def vecMax_def componentMin_def componentMax_def zeroGrid_def
        vec_def)
  then show ?thesis
    by (simp only: ComputeStatistics_Vec3_fold [OF wellFormed_examples(2)]
        foldl_foldVec3_seed [OF n f])
qed

lemma ComputeStatistics_vortonGrid:
  "ComputeStatistics_Vorton (vortonGrid (vec 0 0 0))
     = Inr (\<lparr> mPosition = vec 0 0 0, mVorticity = vec 0 0 0 \<rparr>,
            \<lparr> mPosition = vec 0 0 0, mVorticity = vec 2 0 0 \<rparr>)"
proof -
  let ?h = "vortonGrid (vec 0 0 0)"
  note w = wellFormed_contents [OF wellFormed_examples(3) [of "vec 0 0 0"]]
  have f: "\<forall>w \<in> set (mContents ?h). plainVorton w"
    using plainVec_small by (simp add: vortonGrid_def plainVorton_def)
  have b: "vecMin (map mPosition (mContents ?h)) = vec 0 0 0"
    "vecMax (map mPosition (mContents ?h)) = vec 0 0 0"
    "vecMin (map mVorticity (mContents ?h)) = vec 0 0 0"
    "vecMax (map mVorticity (mContents ?h)) = vec 2 0 0"
    by (simp_all add: vecMin_def vecMax_def componentMin_def componentMax_def vortonGrid_def
        vec_def)
  show ?thesis
    using Vorton_order [OF w(3) f refl]
    by (simp only: ComputeStatistics_Vorton_loop w(4) b)
qed

lemma MAX2_NegZero: "0 \<le> b \<Longrightarrow> MAX2 NegZero (Finite b) = Finite b"
  by (simp add: MAX2_def)

lemma MAX2_fneg: "0 \<le> b \<Longrightarrow> MAX2 (fneg (Finite a)) (Finite b) = Finite (max (- a) b)"
  by (simp add: MAX2_NegZero MAX2_Finite)

lemma vecExtreme_vec:
  "0 \<le> b1 \<Longrightarrow> 0 \<le> b2 \<Longrightarrow> 0 \<le> b3 \<Longrightarrow>
   vecExtreme (vec a1 a2 a3) (vec b1 b2 b3) = vec (max (- a1) b1) (max (- a2) b2) (max (- a3) b3)"
  by (simp only: vecExtreme_def vec_def Vec3.select_convs MAX2_fneg)

lemma quantize_Vec3_signs:
  assumes "dropSigns lo = dropSigns lo'"
  shows "quantize_Vec3 enforce lo (vecRange lo hi) m w
       = quantize_Vec3 enforce lo' (vecRange lo' hi) m w"
proof -
  have d: "dropSign (vx lo) = dropSign (vx lo')" "dropSign (vy lo) = dropSign (vy lo')"
    "dropSign (vz lo) = dropSign (vz lo')"
    using assms by (simp_all add: dropSigns_def)
  have "vecRange lo hi = vecRange lo' hi"
    by (rule vecRange_dropSign [OF d refl refl refl])
  then show ?thesis
    using quantize_Vec3_dropSign [OF d refl refl refl, of enforce "vecRange lo' hi" m w]
    by simp
qed

lemma vneg_signs:
  "dropSigns (vneg (vec a b c)) = dropSigns (vec (- a) (- b) (- c))"
  by (simp add: dropSigns_def vneg_def vec_def)

lemma Magnitude_two: "Magnitude (vec 2 0 0) = Finite 2"
proof -
  have "sqrt (2 * 2) = 2" using real_sqrt_abs2 [of 2] by simp
  then show ?thesis
    using fl_exact [of 2 1 1] by (simp add: Magnitude_def vec_def flt_max_def)
qed

lemma magnitude0to255_full: "magnitude0to255 (Finite 2) (vec 2 0 0) = Finite (8388607 / 32768)"
proof -
  have a: "fl (8388607 / 32768 * 2) = Finite (8388607 / 32768 * 2)"
    by (rule fl_exact [of _ 8388607 "-14"]) (simp_all add: flt_max_def)
  have b: "fl (8388607 / 32768) = Finite (8388607 / 32768)"
    by (rule fl_exact [of _ 8388607 "-15"]) (simp_all add: flt_max_def)
  have c: "fl (8388607 / 16384) = Finite (8388607 / 16384)"
    by (rule fl_exact [of _ 8388607 "-14"]) (simp_all add: flt_max_def)
  show ?thesis
    by (simp add: magnitude0to255_def Magnitude_two fAlmost256_val b c)
qed

lemma magnitude_facts:
  "f_le (Finite 0) (Magnitude (vec 0 0 0))" "f_le (Magnitude (vec 0 0 0)) (Finite 2)"
  "float_to_int (magnitude0to255 (Finite 2) (vec 0 0 0)) = Inr 0"
  "f_le (Finite 0) (Magnitude (vec 2 0 0))" "f_le (Magnitude (vec 2 0 0)) (Finite 2)"
  "float_to_int (magnitude0to255 (Finite 2) (vec 2 0 0)) = Inr 255"
  "isByte 0" "isByte 255"
  by (simp_all add: Magnitude_zero Magnitude_two magnitude0to255_zero magnitude0to255_full
      isByte_def)

lemma rtf_four: "round_to_float 4 = 4"
  by (rule rtf_exact [of _ 1 2]) simp_all

lemma withinRange_small:
  "withinRange (- 2) 2 0" "withinRange (- 2) 2 2" "withinRange 0 2 0" "withinRange 0 2 2"
  "withinRange 0 0 0"
  using rtf_four rtf_two by (simp_all add: withinRange_def rtf_zero flt_max_def)

lemma channelValue_quarter: "channelValue 2 4 = 8388607 / 65536"
  by (simp add: channelValue_def rtf_two rtf_half rtf_almost128)

lemma channel_bytes:
  "\<lfloor>channelValue (0 - (- 2)) (max (round_to_float (2 - (- 2))) flt_min)\<rfloor> = 127"
  "\<lfloor>channelValue (2 - (- 2)) (max (round_to_float (2 - (- 2))) flt_min)\<rfloor> = 255"
  "\<lfloor>channelValue (0 - 0) (max (round_to_float (2 - 0)) flt_min)\<rfloor> = 0"
  "\<lfloor>channelValue (2 - 0) (max (round_to_float (2 - 0)) flt_min)\<rfloor> = 255"
  "\<lfloor>channelValue (0 - 0) (max (round_to_float (0 - 0)) flt_min)\<rfloor> = 0"
proof -
  have m: "max (4 :: real) flt_min = 4" "max (2 :: real) flt_min = 2"
    by (simp_all add: flt_min_def)
  have e: "(0 :: real) - (- 2) = 2" "(2 :: real) - (- 2) = 4" "(2 :: real) - 0 = 2"
    "(0 :: real) - 0 = 0" by simp_all
  have x: "channelValue 4 4 = 8388607 / 32768" "channelValue 2 2 = 8388607 / 32768"
    using channelValue_max [of 4] channelValue_max [of 2] by (simp_all add: rtf_four rtf_two)
  show "\<lfloor>channelValue (0 - (- 2)) (max (round_to_float (2 - (- 2))) flt_min)\<rfloor> = 127"
    by (simp only: e rtf_four m channelValue_quarter floor_almost128)
  show "\<lfloor>channelValue (2 - (- 2)) (max (round_to_float (2 - (- 2))) flt_min)\<rfloor> = 255"
    by (simp only: e rtf_four m x floor_almost256)
  show "\<lfloor>channelValue (0 - 0) (max (round_to_float (2 - 0)) flt_min)\<rfloor> = 0"
    by (simp only: e channelValue_min floor_zero)
  show "\<lfloor>channelValue (2 - 0) (max (round_to_float (2 - 0)) flt_min)\<rfloor> = 255"
    by (simp only: e rtf_two m x floor_almost256)
  show "\<lfloor>channelValue (0 - 0) (max (round_to_float (0 - 0)) flt_min)\<rfloor> = 0"
    by (simp only: e channelValue_min floor_zero)
qed

lemma to_uchar_127: "to_uchar 127 = 127"
  by (simp add: to_uchar_def)

lemma cells_symmetric:
  "quantize_Vec3 False (vec (- 2) 0 0) (vecRange (vec (- 2) 0 0) (vec 2 0 0)) (Finite 2)
     (vec 0 0 0) = Inr (127, 0, 0, 0)"
  "quantize_Vec3 False (vec (- 2) 0 0) (vecRange (vec (- 2) 0 0) (vec 2 0 0)) (Finite 2)
     (vec 2 0 0) = Inr (255, 0, 0, 255)"
  using quantize_Vec3_ok(1) [OF withinRange_small(1) withinRange_small(5) withinRange_small(5)
      magnitude_facts(1-3) magnitude_facts(7) refl refl refl, of False]
    quantize_Vec3_ok(1) [OF withinRange_small(2) withinRange_small(5) withinRange_small(5)
      magnitude_facts(4-6) magnitude_facts(8) refl refl refl, of False]
  by (simp_all only: channel_bytes to_uchar_0 to_uchar_127 to_uchar_255 simp_thms)

lemma cells_plain:
  "quantize_Vec3 False (vec 0 0 0) (vecRange (vec 0 0 0) (vec 2 0 0)) (Finite 2)
     (vec 0 0 0) = Inr (0, 0, 0, 0)"
  "quantize_Vec3 False (vec 0 0 0) (vecRange (vec 0 0 0) (vec 2 0 0)) (Finite 2)
     (vec 2 0 0) = Inr (255, 0, 0, 255)"
  using quantize_Vec3_ok(1) [OF withinRange_small(3) withinRange_small(5) withinRange_small(5)
      magnitude_facts(1-3) magnitude_facts(7) refl refl refl, of False]
    quantize_Vec3_ok(1) [OF withinRange_small(4) withinRange_small(5) withinRange_small(5)
      magnitude_facts(4-6) magnitude_facts(8) refl refl refl, of False]
  by (simp_all only: channel_bytes to_uchar_0 to_uchar_127 to_uchar_255 simp_thms)

section \<open>The exporters on the example grids\<close>

lemma size_examples:
  "Size vorticityGrid = length (mContents vorticityGrid)"
  "Size zeroGrid = length (mContents zeroGrid)"
  "Size (vortonGrid p) = length (mContents (vortonGrid p))"
  "Size grid444 = length (mContents grid444)"
  using wellFormed_contents(4) wellFormed_examples by blast+

lemma numPoints_examples:
  "mNumPoints vorticityGrid = (2, 2, 2)" "mNumPoints zeroGrid = (2, 2, 2)"
  "mNumPoints (vortonGrid p) = (2, 2, 2)"
  by (simp_all add: vorticityGrid_def zeroGrid_def vortonGrid_def)

lemma export_vortonGrid:
  "GenerateBrickOfBytes_Vorton enforce (vortonGrid (vec 0 0 0)) ''vort'' 0 fs0 =
     (Inr (), fs0 \<lparr> files :=
        [''vort.ogle'' \<mapsto>
           [Printf ''# %s ranges: {%9.7g,%9.7g,%9.7g} to {%9.7g,%9.7g,%9.7g}\<newline>''
              [ArgString ''vort'', ArgDouble (Finite (- 2)), ArgDouble NegZero,
               ArgDouble NegZero, ArgDouble (Finite 2), ArgDouble (Finite 0),
               ArgDouble (Finite 0)],
            Printf ''%ux%ux%u %s %s %s\<newline>''
              [ArgUnsigned 2, ArgUnsigned 2, ArgUnsigned 2,
               ArgString ''Vols/vortX00000-2x2x2.dat'', ArgString ''Vols/vortY00000-2x2x2.dat'',
               ArgString ''Vols/vortZ00000-2x2x2.dat'']],
         ''Vols/vortX00000-2x2x2.dat'' \<mapsto>
           brick (127 # replicate 7 255) [ArgDouble (Finite (- 2)), ArgDouble (Finite 2)],
         ''Vols/vortY00000-2x2x2.dat'' \<mapsto>
           brick (replicate 8 0) [ArgDouble NegZero, ArgDouble (Finite 0)],
         ''Vols/vortZ00000-2x2x2.dat'' \<mapsto>
           brick (replicate 8 0) [ArgDouble NegZero, ArgDouble (Finite 0)],
         ''Vols/vortM00000-2x2x2.dat'' \<mapsto>
           brick (0 # replicate 7 255) [ArgInt 0, ArgDouble (Finite 2)]] \<rparr>)"
proof -
  let ?h = "vortonGrid (vec 0 0 0)"
  define q :: "Vorton \<Rightarrow> 8 word \<times> 8 word \<times> 8 word \<times> 8 word" where
    "q w = (if mVorticity w = vec 0 0 0 then (127, 0, 0, 0) else (255, 0, 0, 255))" for w
  have r: "encodedVecRange True (mVorticity \<lparr> mPosition = vec 0 0 0, mVorticity = vec 0 0 0 \<rparr>,
             mVorticity \<lparr> mPosition = vec 0 0 0, mVorticity = vec 2 0 0 \<rparr>)
           = (\<lparr> vx = Finite (- 2), vy = NegZero, vz = NegZero \<rparr>, vec 2 0 0)"
    by (simp add: encodedVecRange_True vecExtreme_vec) (simp add: vneg_def vec_def)
  have m: "Magnitude (vecExtreme (mVorticity \<lparr> mPosition = vec 0 0 0, mVorticity = vec 0 0 0 \<rparr>)
             (mVorticity \<lparr> mPosition = vec 0 0 0, mVorticity = vec 2 0 0 \<rparr>)) = Finite 2"
    by (simp add: vecExtreme_vec Magnitude_two)
  have ne: "vec 2 0 0 \<noteq> vec 0 0 0" by (simp add: vec_def)
  have d: "dropSigns \<lparr> vx = Finite (- 2), vy = NegZero, vz = NegZero \<rparr>
      = dropSigns (vec (- 2) 0 0)"
    by (simp add: dropSigns_def vec_def)
  have c: "\<forall>w \<in> set (mContents ?h).
             quantize_Vec3 False \<lparr> vx = Finite (- 2), vy = NegZero, vz = NegZero \<rparr>
               (vecRange \<lparr> vx = Finite (- 2), vy = NegZero, vz = NegZero \<rparr> (vec 2 0 0))
               (Finite 2) (mVorticity w) = Inr (q w)"
    unfolding quantize_Vec3_signs [OF d]
    by (simp add: vortonGrid_def q_def cells_symmetric ne)
  have w: "writable fs0 n" for n by (simp add: fs0_def)
  note n = names_222 [OF numPoints_examples(3) [of "vec 0 0 0"]]
  have v: "vx (vec a b c) = Finite a" "vy (vec a b c) = Finite b" "vz (vec a b c) = Finite c"
    for a b c by (simp_all add: vec_def)
  have g: "GetNumPoints ?h 0 = 2" "GetNumPoints ?h 1 = 2" "GetNumPoints ?h 2 = 2"
    by (simp_all add: GetNumPoints_def vortonGrid_def)
  have b: "map (\<lambda>v. Byte (fst (q v))) (mContents ?h) = map Byte (127 # replicate 7 255)"
    "map (\<lambda>v. Byte (fst (snd (q v)))) (mContents ?h) = map Byte (replicate 8 0)"
    "map (\<lambda>v. Byte (fst (snd (snd (q v))))) (mContents ?h) = map Byte (replicate 8 0)"
    "map (\<lambda>v. Byte (snd (snd (snd (q v))))) (mContents ?h) = map Byte (0 # replicate 7 255)"
    by (simp_all add: vortonGrid_def q_def ne eval_nat_numeral)
  have f: "files fs0 = Map.empty" by (simp add: fs0_def)
  show ?thesis
    unfolding GenerateBrickOfBytes_Vorton_range [OF ComputeStatistics_vortonGrid r] m
      writeBricks_ok [OF n w w w w w size_examples(3) c] v g b f brick_def
    by simp
qed

lemma export_vorticityGrid:
  "GenerateBrickOfBytes_Vec3 False vorticityGrid ''vort'' 0 fs0 =
     (Inr (), fs0 \<lparr> files :=
        [''vort.ogle'' \<mapsto>
           [Printf ''# %s ranges: {%9.7g,%9.7g,%9.7g} to {%9.7g,%9.7g,%9.7g}\<newline>''
              [ArgString ''vort'', ArgDouble (Finite 0), ArgDouble (Finite 0),
               ArgDouble (Finite 0), ArgDouble (Finite 2), ArgDouble (Finite 0),
               ArgDouble (Finite 0)],
            Printf ''%ux%ux%u %s %s %s\<newline>''
              [ArgUnsigned 2, ArgUnsigned 2, ArgUnsigned 2,
               ArgString ''Vols/vortX00000-2x2x2.dat'', ArgString ''Vols/vortY00000-2x2x2.dat'',
               ArgString ''Vols/vortZ00000-2x2x2.dat'']],
         ''Vols/vortX00000-2x2x2.dat'' \<mapsto>
           brick (0 # replicate 7 255) [ArgDouble (Finite 0), ArgDouble (Finite 2)],
         ''Vols/vortY00000-2x2x2.dat'' \<mapsto>
           brick (replicate 8 0) [ArgDouble (Finite 0), ArgDouble (Finite 0)],
         ''Vols/vortZ00000-2x2x2.dat'' \<mapsto>
           brick (replicate 8 0) [ArgDouble (Finite 0), ArgDouble (Finite 0)],
         ''Vols/vortM00000-2x2x2.dat'' \<mapsto>
           brick (0 # replicate 7 255) [ArgInt 0, ArgDouble (Finite 2)]] \<rparr>)"
proof -
  let ?h = "vorticityGrid"
  define q :: "float Vec3 \<Rightarrow> 8 word \<times> 8 word \<times> 8 word \<times> 8 word" where
    "q w = (if w = vec 0 0 0 then (0, 0, 0, 0) else (255, 0, 0, 255))" for w
  have r: "encodedVecRange False (vec 0 0 0, vec 2 0 0) = (vec 0 0 0, vec 2 0 0)"
    by (rule encodedVecRange_False)
  have m: "Magnitude (vecExtreme (vec 0 0 0) (vec 2 0 0)) = Finite 2"
    by (simp add: vecExtreme_vec Magnitude_two)
  have ne: "vec 2 0 0 \<noteq> vec 0 0 0" by (simp add: vec_def)
  have c: "\<forall>w \<in> set (mContents ?h).
             quantize_Vec3 False (vec 0 0 0) (vecRange (vec 0 0 0) (vec 2 0 0)) (Finite 2) w
               = Inr (q w)"
    by (simp add: vorticityGrid_def q_def cells_plain ne)
  have w: "writable fs0 n" for n by (simp add: fs0_def)
  note n = names_222 [OF numPoints_examples(1)]
  have v: "vx (vec a b c) = Finite a" "vy (vec a b c) = Finite b" "vz (vec a b c) = Finite c"
    for a b c by (simp_all add: vec_def)
  have g: "GetNumPoints ?h 0 = 2" "GetNumPoints ?h 1 = 2" "GetNumPoints ?h 2 = 2"
    by (simp_all add: GetNumPoints_def vorticityGrid_def)
  have b: "map (\<lambda>v. Byte (fst (q v))) (mContents ?h) = map Byte (0 # replicate 7 255)"
    "map (\<lambda>v. Byte (fst (snd (q v)))) (mContents ?h) = map Byte (replicate 8 0)"
    "map (\<lambda>v. Byte (fst (snd (snd (q v))))) (mContents ?h) = map Byte (replicate 8 0)"
    "map (\<lambda>v. Byte (snd (snd (snd (q v))))) (mContents ?h) = map Byte (0 # replicate 7 255)"
    by (simp_all add: vorticityGrid_def q_def ne eval_nat_numeral)
  have f: "files fs0 = Map.empty" by (simp add: fs0_def)
  show ?thesis
    unfolding GenerateBrickOfBytes_Vec3_range [OF ComputeStatistics_vorticityGrid r] m
      writeBricks_ok [OF n w w w w w size_examples(1) c] v g b f brick_def
    by simp
qed

lemma foldl_pair:
  "foldl (\<lambda>(mn, mx) rVal. (MIN2 mn rVal, MAX2 mx rVal)) (a, b) xs
     = (foldl (\<lambda>m v. MIN2 m v) a xs, foldl (\<lambda>m v. MAX2 m v) b xs)"
  by (induction xs arbitrary: a b) simp_all

lemma plainFloat_nat: "n < 2 ^ 24 \<Longrightarrow> plainFloat (Finite (real n))"
proof -
  assume n: "n < 2 ^ 24"
  then have "real n < 2 ^ 24" by (metis of_nat_less_iff of_nat_numeral of_nat_power)
  then have "fl (real n) = Finite (real n)"
    using n by (intro fl_exact [of _ "int n" 0]) (simp_all add: flt_max_def)
  then show ?thesis by simp
qed

lemma ComputeStatistics_grid444:
  "ComputeStatistics_float grid444 (FLT_MAX, fneg FLT_MAX) = (Finite 0, Finite 63)"
proof -
  let ?xs = "mContents grid444"
  have c: "?xs = map (\<lambda>n. Finite (real n)) [0 ..< 64]" by (simp add: grid444_def)
  have ne: "?xs \<noteq> []" by (simp add: c)
  have f: "\<forall>v \<in> set ?xs. plainFloat ((\<lambda>v. v) v)"
    using plainFloat_nat by (auto simp: c simp del: plainFloat.simps)
  have s: "set (map (\<lambda>v. realOf v) ?xs) = real ` {0 ..< 64}"
    by (auto simp: c)
  have mn: "Min (real ` {0 ..< 64 :: nat}) = 0"
    by (rule Min_eqI) auto
  have mx: "Max (real ` {0 ..< 64 :: nat}) = 63"
    by (rule Max_eqI) auto
  show ?thesis
    unfolding ComputeStatistics_float_def foldl_pair
    using foldl_MIN2_seed [OF ne f] foldl_MAX2_seed [OF ne f]
    by (simp add: componentMin_def componentMax_def s mn mx del: set_map)
qed

lemma rtf_126: "round_to_float 126 = 126"
  by (rule rtf_exact [of _ 63 1]) simp_all

lemma export_grid444:
  "GenerateBrickOfBytes_float True grid444 ''test'' 0 fs0 =
     (Inr (), fs0 \<lparr> files :=
        [''test.ogle'' \<mapsto>
           [Printf ''# %s ranges: %9.7g to %9.7g\<newline>''
              [ArgString ''test'', ArgDouble (Finite (- 63)), ArgDouble (Finite 63)],
            Printf ''%ux%ux%u %s\<newline>''
              [ArgUnsigned 4, ArgUnsigned 4, ArgUnsigned 4,
               ArgString ''Vols/test00000-4x4x4.dat'']],
         ''Vols/test00000-4x4x4.dat'' \<mapsto>
           brick (map (\<lambda>n. to_uchar \<lfloor>channelValue (real n + 63) 126\<rfloor>) [0 ..< 64])
             [ArgDouble (Finite (- 63)), ArgDouble (Finite 63)]] \<rparr>)"
proof -
  define q :: "float \<Rightarrow> 8 word" where
    "q v = to_uchar \<lfloor>channelValue (realOf v + 63) 126\<rfloor>" for v
  have r: "range_float True (ComputeStatistics_float grid444 (FLT_MAX, fneg FLT_MAX))
             = (Finite (- 63), Finite 63)"
    by (simp add: ComputeStatistics_grid444 range_float_def MAX2_NegZero)
  have R: "max (round_to_float (63 - (- 63))) flt_min = 126"
    by (simp add: rtf_126 flt_min_def)
  have rv: "MAX2 (fsub (Finite 63) (Finite (- 63))) FLT_MIN = Finite 126"
    using range_val(1) [of "- 63" 63] R by (simp add: rtf_126 flt_max_def)
  have c: "\<forall>v \<in> set (mContents grid444).
             quantize_float (Finite (- 63)) (MAX2 (fsub (Finite 63) (Finite (- 63))) FLT_MIN) v
               = Inr (q v)"
  proof
    fix v assume "v \<in> set (mContents grid444)"
    then obtain n :: nat where n: "v = Finite (real n)" "n < 64" by (auto simp: grid444_def)
    have w: "withinRange (- 63) 63 (real n)"
      using n(2) by (simp add: withinRange_def rtf_126 flt_max_def)
    show "quantize_float (Finite (- 63)) (MAX2 (fsub (Finite 63) (Finite (- 63))) FLT_MIN) v
            = Inr (q v)"
      using quantize_float_ok [OF w R [symmetric]] by (simp add: rv n(1) q_def)
  qed
  have w: "writable fs0 n" for n by (simp add: fs0_def)
  have g: "GetNumPoints grid444 0 = 4" "GetNumPoints grid444 1 = 4" "GetNumPoints grid444 2 = 4"
    by (simp_all add: GetNumPoints_def grid444_def)
  have b: "map (\<lambda>v. Byte (q v)) (mContents grid444)
         = map Byte (map (\<lambda>n. to_uchar \<lfloor>channelValue (real n + 63) 126\<rfloor>) [0 ..< 64])"
    by (simp add: grid444_def q_def o_def)
  have f: "files fs0 = Map.empty" by (simp add: fs0_def)
  show ?thesis
    unfolding GenerateBrickOfBytes_float_ok [OF r names_444 w w size_examples(4) c] g b f
      brick_def
    by simp
qed

lemma render_footer_63:
  "render ''MIN %g MAX %g\<newline>'' [ArgDouble (Finite (- 63)), ArgDouble (Finite 63)]
     = Inr ''MIN -63 MAX 63\<newline>''"
  by (simp add: emit_Inr)

lemma render_footer_int:
  "render ''MIN %g MAX %g\<newline>'' (ArgInt i # args) = Inl ArgTypeMismatch"
  by (simp add: emit_def)

lemma forEachIO_fails_first:
  assumes "0 < n" "body 0 fs = (Inl e, fs')"
  shows "forEachIO [0 ..< n] body fs = (Inl e, fs')"
proof -
  have "[0 ..< n] = 0 # [1 ..< n]" using assms(1) by (simp add: upt_conv_Cons)
  then show ?thesis by (simp add: assms(2))
qed

lemma writeBricks_cell_fails:
  assumes names: "dataFilename ''X'' strFilenameBase uFrame g = Inr n0"
      "dataFilename ''Y'' strFilenameBase uFrame g = Inr n1"
      "dataFilename ''Z'' strFilenameBase uFrame g = Inr n2"
      "dataFilename ''M'' strFilenameBase uFrame g = Inr n3"
      "sprintf ''%s.ogle'' [ArgString strFilenameBase] = Inr nS"
    and w: "writable fs nS" "writable fs n0" "writable fs n1" "writable fs n2" "writable fs n3"
    and l: "0 < Size g"
    and c: "andThen (At g 0) quantize = Inl e"
  shows "writeBricks g strFilenameBase uFrame vMin vMax fMagMax quantize fs =
     (Inl e, fs \<lparr> files := (files fs)
        (nS \<mapsto> (case files fs nS of None \<Rightarrow> [] | Some old \<Rightarrow> old) @
           [Printf ''# %s ranges: {%9.7g,%9.7g,%9.7g} to {%9.7g,%9.7g,%9.7g}\<newline>''
              [ArgString strFilenameBase, ArgDouble (vx vMin), ArgDouble (vy vMin),
               ArgDouble (vz vMin), ArgDouble (vx vMax), ArgDouble (vy vMax),
               ArgDouble (vz vMax)],
            Printf ''%ux%ux%u %s %s %s\<newline>''
              [ArgUnsigned (GetNumPoints g 0), ArgUnsigned (GetNumPoints g 1),
               ArgUnsigned (GetNumPoints g 2), ArgString n0, ArgString n1, ArgString n2]],
         n0 \<mapsto> [], n1 \<mapsto> [], n2 \<mapsto> [], n3 \<mapsto> []) \<rparr>)"
proof -
  define script where "script = (case files fs nS of None \<Rightarrow> [] | Some old \<Rightarrow> old) @
           [Printf ''# %s ranges: {%9.7g,%9.7g,%9.7g} to {%9.7g,%9.7g,%9.7g}\<newline>''
              [ArgString strFilenameBase, ArgDouble (vx vMin), ArgDouble (vy vMin),
               ArgDouble (vz vMin), ArgDouble (vx vMax), ArgDouble (vy vMax),
               ArgDouble (vz vMax)],
            Printf ''%ux%ux%u %s %s %s\<newline>''
              [ArgUnsigned (GetNumPoints g 0), ArgUnsigned (GetNumPoints g 1),
               ArgUnsigned (GetNumPoints g 2), ArgString n0, ArgString n1, ArgString n2]]"
  define fs1 where "fs1 = fs \<lparr> files := (files fs)
      (nS \<mapsto> (case files fs nS of None \<Rightarrow> [] | Some old \<Rightarrow> old)) \<rparr>"
  define fs3 where "fs3 = fs \<lparr> files := (files fs) (nS \<mapsto> script) \<rparr>"
  define fs4 where "fs4 = fs \<lparr> files := (files fs) (nS \<mapsto> script, n0 \<mapsto> []) \<rparr>"
  define fs5 where "fs5 = fs \<lparr> files := (files fs) (nS \<mapsto> script, n0 \<mapsto> [], n1 \<mapsto> []) \<rparr>"
  define fs6 where "fs6 = fs \<lparr> files := (files fs)
      (nS \<mapsto> script, n0 \<mapsto> [], n1 \<mapsto> [], n2 \<mapsto> []) \<rparr>"
  define fs7 where "fs7 = fs \<lparr> files := (files fs)
      (nS \<mapsto> script, n0 \<mapsto> [], n1 \<mapsto> [], n2 \<mapsto> [], n3 \<mapsto> []) \<rparr>"
  have o1: "thenDo (fopen nS AppendText) k fs = k (Some nS) fs1"
    for k :: "string option \<Rightarrow> unit io"
    using w(1) by (simp add: thenDo_def fopen_def fs1_def)
  have p1: "thenDo (fprintf (Some nS) fmt1 args1)
              (\<lambda>_. thenDo (fprintf (Some nS) fmt2 args2) k) fs1
          = k () (fs \<lparr> files := (files fs) (nS \<mapsto>
               (case files fs nS of None \<Rightarrow> [] | Some old \<Rightarrow> old) @
               [Printf fmt1 args1, Printf fmt2 args2]) \<rparr>)"
    for k :: "unit \<Rightarrow> unit io" and fmt1 args1 fmt2 args2
    by (simp add: thenDo_def fput_def fs1_def)
  have o2: "thenDo (fopen n0 WriteBinary) k fs3 = k (Some n0) fs4"
    for k :: "string option \<Rightarrow> unit io"
    using w(2) by (simp add: thenDo_def fopen_def fs3_def fs4_def)
  have o3: "thenDo (fopen n1 WriteBinary) k fs4 = k (Some n1) fs5"
    for k :: "string option \<Rightarrow> unit io"
    using w(3) by (simp add: thenDo_def fopen_def fs4_def fs5_def)
  have o4: "thenDo (fopen n2 WriteBinary) k fs5 = k (Some n2) fs6"
    for k :: "string option \<Rightarrow> unit io"
    using w(4) by (simp add: thenDo_def fopen_def fs5_def fs6_def)
  have o5: "thenDo (fopen n3 WriteBinary) k fs6 = k (Some n3) fs7"
    for k :: "string option \<Rightarrow> unit io"
    using w(5) by (simp add: thenDo_def fopen_def fs6_def fs7_def)
  have loop: "thenDo (forEachIO [0 ..< Size g]
      (\<lambda>offset. thenDo (lift (andThen (At g offset) quantize)) body)) k fs7 = (Inl e, fs7)"
    for k :: "unit \<Rightarrow> unit io" and body
    unfolding thenDo_def [of "forEachIO _ _"]
    using forEachIO_fails_first [OF l, of "\<lambda>offset. thenDo (lift (andThen (At g offset) quantize)) body" fs7 e fs7]
    by (simp add: c thenDo_lift_Inl)
  show ?thesis
    unfolding writeBricks_def loop_body
    by (simp only: names thenDo_lift_Inr o1 p1 thenDo_fclose script_def [symmetric]
        fs3_def [symmetric] o2 o3 o4 o5 option.distinct if_False loop)
      (simp only: fs7_def)
qed

lemma magnitude0to255_undefined: "magnitude0to255 (Finite 0) (vec 0 0 0) = NaN"
  by (simp add: magnitude0to255_def Magnitude_zero fAlmost256_val fl_zero)

lemma cell_zero:
  "quantize_Vec3 enforce (vec 0 0 0) (vecRange (vec 0 0 0) (vec 0 0 0)) (Finite 0) (vec 0 0 0)
     = Inl UndefinedConversion"
proof -
  note f = channel_facts [OF _ _ _ refl, of 0 0 0]
  have r: "round_to_float (0 - 0) \<le> flt_max" by (simp add: rtf_zero flt_max_def)
  have k: "channelChecks (Finite 0) (Finite (max (round_to_float (0 - 0)) flt_min)) (Finite 0)"
    "float_to_int (channel0to255 (Finite 0) (Finite (max (round_to_float (0 - 0)) flt_min))
       (Finite 0)) = Inr \<lfloor>channelValue (0 - 0) (max (round_to_float (0 - 0)) flt_min)\<rfloor>"
    using f(4) [OF _ _ r] f(6) [OF _ _ r] by simp_all
  have v: "vx (vec a b c) = Finite a" "vy (vec a b c) = Finite b" "vz (vec a b c) = Finite c"
    for a b c by (simp_all add: vec_def)
  show ?thesis
    unfolding quantize_Vec3_char vecRange_vec [OF withinRange_0 withinRange_0 withinRange_0]
      v Vec3.select_convs magnitude0to255_undefined
    using k by (simp add: Magnitude_zero andThen_Inr andThen_def)
qed

lemma export_zeroGrid:
  "GenerateBrickOfBytes_Vec3 enforce zeroGrid ''vort'' 0 fs0 =
     (Inl UndefinedConversion, fs0 \<lparr> files :=
        [''vort.ogle'' \<mapsto>
           [Printf ''# %s ranges: {%9.7g,%9.7g,%9.7g} to {%9.7g,%9.7g,%9.7g}\<newline>''
              [ArgString ''vort'', ArgDouble (signed_zero enforce), ArgDouble (signed_zero enforce),
               ArgDouble (signed_zero enforce), ArgDouble (Finite 0), ArgDouble (Finite 0),
               ArgDouble (Finite 0)],
            Printf ''%ux%ux%u %s %s %s\<newline>''
              [ArgUnsigned 2, ArgUnsigned 2, ArgUnsigned 2,
               ArgString ''Vols/vortX00000-2x2x2.dat'', ArgString ''Vols/vortY00000-2x2x2.dat'',
               ArgString ''Vols/vortZ00000-2x2x2.dat'']],
         ''Vols/vortX00000-2x2x2.dat'' \<mapsto> [],
         ''Vols/vortY00000-2x2x2.dat'' \<mapsto> [],
         ''Vols/vortZ00000-2x2x2.dat'' \<mapsto> [],
         ''Vols/vortM00000-2x2x2.dat'' \<mapsto> []] \<rparr>)"
proof -
  define lo where
    "lo = \<lparr> vx = signed_zero enforce, vy = signed_zero enforce, vz = signed_zero enforce \<rparr>"
  have e: "vecExtreme (vec 0 0 0) (vec 0 0 0) = vec 0 0 0"
    by (simp add: vecExtreme_vec)
  have r: "encodedVecRange enforce (vec 0 0 0, vec 0 0 0) = (lo, vec 0 0 0)"
    by (cases enforce) (simp_all add: encodedVecRange_True encodedVecRange_False
        e [unfolded vec_def] lo_def signed_zero_def vneg_def vec_def)
  have m: "Magnitude (vecExtreme (vec 0 0 0) (vec 0 0 0)) = Finite 0"
    by (simp add: vecExtreme_vec Magnitude_zero)
  have s: "0 < Size zeroGrid"
    by (simp add: Size_def GetGridCapacity_def GetNumPoints_def zeroGrid_def)
  have d: "dropSigns lo = dropSigns (vec 0 0 0)"
    by (simp add: dropSigns_def lo_def vec_def signed_zero_def)
  have c: "andThen (At zeroGrid 0)
             (quantize_Vec3 enforce lo (vecRange lo (vec 0 0 0)) (Finite 0))
           = Inl UndefinedConversion"
    by (simp add: At_def zeroGrid_def andThen_Inr quantize_Vec3_signs [OF d] cell_zero)
  have w: "writable fs0 n" for n by (simp add: fs0_def)
  note n = names_222 [OF numPoints_examples(2)]
  have v: "vx (vec a b c) = Finite a" "vy (vec a b c) = Finite b" "vz (vec a b c) = Finite c"
    for a b c by (simp_all add: vec_def)
  have l: "vx lo = signed_zero enforce" "vy lo = signed_zero enforce" "vz lo = signed_zero enforce"
    by (simp_all add: lo_def)
  have g: "GetNumPoints zeroGrid 0 = 2" "GetNumPoints zeroGrid 1 = 2" "GetNumPoints zeroGrid 2 = 2"
    by (simp_all add: GetNumPoints_def zeroGrid_def)
  have f: "files fs0 = Map.empty" by (simp add: fs0_def)
  show ?thesis
    unfolding GenerateBrickOfBytes_Vec3_range [OF ComputeStatistics_zeroGrid r] m
      writeBricks_cell_fails [OF n w w w w w s c] v l g f
    by simp
qed

lemma export_no_script:
  "GenerateBrickOfBytes_Vec3 enforce vorticityGrid ''vort'' 0 (fsWithout ''vort.ogle'')
     = (Inl NullFileWrite, fsWithout ''vort.ogle'')"
  "GenerateBrickOfBytes_Vorton enforce (vortonGrid (vec 0 0 0)) ''vort'' 0 (fsWithout ''vort.ogle'')
     = (Inl NullFileWrite, fsWithout ''vort.ogle'')"
  "GenerateBrickOfBytes_float enforce grid444 ''test'' 0 (fsWithout ''test.ogle'')
     = (Inl AssertionFailed, fsWithout ''test.ogle'')"
proof -
  have w: "\<not> writable (fsWithout n) n" for n by (simp add: fsWithout_def)
  obtain lo hi where r: "encodedVecRange enforce (vec 0 0 0, vec 2 0 0) = (lo, hi)"
    by (cases "encodedVecRange enforce (vec 0 0 0, vec 2 0 0)") blast
  show "GenerateBrickOfBytes_Vec3 enforce vorticityGrid ''vort'' 0 (fsWithout ''vort.ogle'')
     = (Inl NullFileWrite, fsWithout ''vort.ogle'')"
    unfolding GenerateBrickOfBytes_Vec3_range [OF ComputeStatistics_vorticityGrid r]
    by (rule writeBricks_no_script [OF names_222 [OF numPoints_examples(1)] w])
  obtain lo' hi' where r': "encodedVecRange True
      (mVorticity \<lparr> mPosition = vec 0 0 0, mVorticity = vec 0 0 0 \<rparr>,
       mVorticity \<lparr> mPosition = vec 0 0 0, mVorticity = vec 2 0 0 \<rparr>) = (lo', hi')"
    by (simp add: encodedVecRange_True)
  show "GenerateBrickOfBytes_Vorton enforce (vortonGrid (vec 0 0 0)) ''vort'' 0
          (fsWithout ''vort.ogle'') = (Inl NullFileWrite, fsWithout ''vort.ogle'')"
    unfolding GenerateBrickOfBytes_Vorton_range [OF ComputeStatistics_vortonGrid r']
    by (rule writeBricks_no_script [OF names_222 [OF numPoints_examples(3)] w])
  show "GenerateBrickOfBytes_float enforce grid444 ''test'' 0 (fsWithout ''test.ogle'')
     = (Inl AssertionFailed, fsWithout ''test.ogle'')"
    by (rule GenerateBrickOfBytes_float_no_script [OF names_444 w])
qed

section \<open>Offset bijection\<close>

lemma indices_of_flat:
  fixes n0 n1 :: nat
  assumes "ix < n0" "iy < n1"
  shows "(ix + n0 * (iy + n1 * iz)) div (n0 * n1) = iz"
    and "(ix + n0 * (iy + n1 * iz) - iz * n0 * n1) div n0 = iy"
proof -
  have e: "ix + n0 * (iy + n1 * iz) = (ix + n0 * iy) + iz * (n0 * n1)"
    by (simp add: algebra_simps)
  have "ix + n0 * iy < n0 * n1"
  proof -
    have "ix + n0 * iy < n0 + n0 * iy" using assms by simp
    also have "\<dots> = n0 * Suc iy" by simp
    also have "\<dots> \<le> n0 * n1" using assms by (intro mult_le_mono2) simp
    finally show ?thesis .
  qed
  then show "(ix + n0 * (iy + n1 * iz)) div (n0 * n1) = iz"
    unfolding e using assms by simp
  have "ix + n0 * (iy + n1 * iz) - iz * n0 * n1 = ix + iy * n0"
    by (simp add: algebra_simps)
  then show "(ix + n0 * (iy + n1 * iz) - iz * n0 * n1) div n0 = iy"
    using assms by simp
qed

lemma flat_of_indices:
  fixes n0 n1 :: nat
  shows "n0 * ((off - off div (n0 * n1) * n0 * n1) div n0 + n1 * (off div (n0 * n1))) \<le> off"
proof -
  let ?iz = "off div (n0 * n1)"
  let ?r = "off - ?iz * n0 * n1"
  have a: "?iz * n0 * n1 \<le> off"
    by (metis div_times_less_eq_dividend mult.assoc)
  have "n0 * (?r div n0) \<le> ?r"
    by (simp add: mult.commute)
  then have "n0 * (?r div n0) + ?iz * n0 * n1 \<le> off"
    using a by linarith
  then show ?thesis
    by (simp add: algebra_simps)
qed

text \<open>
  C1. For every valid index triple, \<^verbatim>\<open>IndicesFromOffset\<close> undoes \<^verbatim>\<open>OffsetFromIndices\<close>
  and the offset is below the capacity; for every valid offset (below the capacity),
  \<^verbatim>\<open>IndicesFromOffset\<close> yields a valid index triple that \<^verbatim>\<open>OffsetFromIndices\<close> maps back
  to the offset.
\<close>

theorem offset_bijection:
  "(validIndices g idx \<longrightarrow>
      IndicesFromOffset g (OffsetFromIndices g idx) = idx \<and>
      OffsetFromIndices g idx < GetGridCapacity g) \<and>
   (off < GetGridCapacity g \<longrightarrow>
      validIndices g (IndicesFromOffset g off) \<and>
      OffsetFromIndices g (IndicesFromOffset g off) = off)"
proof (intro conjI impI)
  obtain ix iy iz where idx: "idx = (ix, iy, iz)" by (cases idx) auto
  let ?n0 = "GetNumPoints g 0" and ?n1 = "GetNumPoints g 1" and ?n2 = "GetNumPoints g 2"
  {
    assume v: "validIndices g idx"
    then have b: "ix < ?n0" "iy < ?n1" "iz < ?n2"
      by (simp_all add: validIndices_def idx)
    show "IndicesFromOffset g (OffsetFromIndices g idx) = idx"
      using indices_of_flat [OF b(1) b(2), of iz]
      by (simp add: IndicesFromOffset_def OffsetFromIndices_def idx Let_def)
    have "ix + ?n0 * (iy + ?n1 * iz) < ?n0 + ?n0 * (iy + ?n1 * iz)" using b by simp
    also have "\<dots> = ?n0 * Suc (iy + ?n1 * iz)" by simp
    also have "\<dots> \<le> ?n0 * (?n1 * Suc iz)"
      using b by (intro mult_le_mono2) simp
    also have "\<dots> \<le> ?n0 * (?n1 * ?n2)"
      using b by (intro mult_le_mono2) simp
    finally show "OffsetFromIndices g idx < GetGridCapacity g"
      by (simp add: OffsetFromIndices_def GetGridCapacity_def idx mult.assoc)
  }
  {
    assume o: "off < GetGridCapacity g"
    then have pos: "0 < ?n0" "0 < ?n1"
      by (auto simp: GetGridCapacity_def intro: Nat.gr0I)
    let ?iz = "off div (?n0 * ?n1)"
    let ?r = "off - ?iz * ?n0 * ?n1"
    let ?iy = "?r div ?n0"
    have r: "?r = off mod (?n0 * ?n1)"
      by (metis minus_div_mult_eq_mod mult.assoc)
    have z: "?iz < ?n2"
      using o by (simp add: GetGridCapacity_def less_mult_imp_div_less mult.commute)
    have "?r < ?n0 * ?n1" unfolding r using pos by simp
    then have yb: "?iy < ?n1"
      by (simp add: less_mult_imp_div_less mult.commute)
    have xe: "off - ?n0 * (?iy + ?n1 * ?iz) = ?r mod ?n0"
    proof -
      have "off - ?n0 * (?iy + ?n1 * ?iz) = ?r - ?iy * ?n0"
        by (simp add: algebra_simps)
      also have "\<dots> = ?r mod ?n0"
        by (simp add: minus_div_mult_eq_mod)
      finally show ?thesis .
    qed
    have xb: "off - ?n0 * (?iy + ?n1 * ?iz) < ?n0"
      unfolding xe using pos by simp
    show "validIndices g (IndicesFromOffset g off)"
      using xb yb z by (simp add: validIndices_def IndicesFromOffset_def Let_def)
    show "OffsetFromIndices g (IndicesFromOffset g off) = off"
      using flat_of_indices [of ?n0 off ?n1]
      by (simp add: OffsetFromIndices_def IndicesFromOffset_def Let_def)
  }
qed

theorem offset_bijection_witness:
  "validIndices grid444 (1, 2, 3) \<and>
   IndicesFromOffset grid444 (OffsetFromIndices grid444 (1, 2, 3)) = (1, 2, 3) \<and>
   OffsetFromIndices grid444 (1, 2, 3) = 57 \<and>
   (57::nat) < GetGridCapacity grid444 \<and>
   validIndices grid444 (IndicesFromOffset grid444 57) \<and>
   OffsetFromIndices grid444 (IndicesFromOffset grid444 57) = 57"
  using offset_bijection [of grid444 "(1, 2, 3)" 57]
  by (simp add: validIndices_def GetNumPoints_def grid444_def GetGridCapacity_def
      OffsetFromIndices_def)

section \<open>Quantisation bounds\<close>




section \<open>The symmetric range\<close>

text \<open>
  C3 (amended). The scalar exporter and the \<^verbatim>\<open>Vec3\<close> exporter encode the range that the
  policy gives: the statistics as they are when \<^verbatim>\<open>ENFORCE_SYMMETRIC_RANGE\<close> is off, and
  when it is on the range with the maximum \<^verbatim>\<open>MAX2( -min , max )\<close>, component by
  component, and the minimum \<^verbatim>\<open>-max\<close>. The scalar exporter, where its files can be
  written and its loop body passes on every stored value, writes the bytes of the
  stored values and the footer with this range; the \<^verbatim>\<open>Vec3\<close> exporter writes its bricks
  with this range. The \<^verbatim>\<open>Vorton\<close> exporter writes its bricks with the symmetric range of
  the vorticity whether the switch is on or off. For the scalar grid that holds the
  values 0 to 63, exported with the symmetric range, the footer line of the data file
  reads \<^verbatim>\<open>MIN -63 MAX 63\<close>.
\<close>

theorem symmetric_range_policy:
  assumes "encodedRange enforce (ComputeStatistics_float f (FLT_MAX, fneg FLT_MAX))
             = (fMin, fMax)"
    and "sprintf ''Vols/%s%05u-%ux%ux%u.dat''
           [ArgString strFilenameBase, ArgUnsigned uFrame, ArgUnsigned (GetNumPoints f 0),
            ArgUnsigned (GetNumPoints f 1), ArgUnsigned (GetNumPoints f 2)] = Inr nD"
    and "sprintf ''%s.ogle'' [ArgString strFilenameBase] = Inr nS"
    and "writable fs nS" "writable fs nD"
    and "Size f = length (mContents f)"
    and "list_all (\<lambda>v. quantize_float fMin (MAX2 (fsub fMax fMin) FLT_MIN) v = Inr (q v))
           (mContents f)"
    and "ComputeStatistics_Vec3 g = Inr stats" "encodedVecRange enforce stats = (lo, hi)"
    and "ComputeStatistics_Vorton h = Inr vstats"
      "encodedVecRange True (vorticityStats vstats) = (vlo, vhi)"
  shows "encodedRange False (mn, mx) = (mn, mx) \<and>
         encodedRange True (mn, mx) = (fneg (MAX2 (fneg mn) mx), MAX2 (fneg mn) mx) \<and>
         fst (GenerateBrickOfBytes_float enforce f strFilenameBase uFrame fs) = Inr () \<and>
         files (snd (GenerateBrickOfBytes_float enforce f strFilenameBase uFrame fs)) nD
           = Some (brick (map q (mContents f)) [ArgDouble fMin, ArgDouble fMax]) \<and>
         GenerateBrickOfBytes_Vec3 enforce g strFilenameBase uFrame fs
           = writeBricks g strFilenameBase uFrame lo hi
               (Magnitude (vecExtreme (fst stats) (snd stats)))
               (quantize_Vec3 enforce lo (vecRange lo hi)
                  (Magnitude (vecExtreme (fst stats) (snd stats)))) fs \<and>
         GenerateBrickOfBytes_Vorton enforce h strFilenameBase uFrame fs
           = writeBricks h strFilenameBase uFrame vlo vhi
               (Magnitude (vecExtreme (fst (vorticityStats vstats)) (snd (vorticityStats vstats))))
               (\<lambda>rVorton. quantize_Vec3 False vlo (vecRange vlo vhi)
                  (Magnitude (vecExtreme (fst (vorticityStats vstats))
                     (snd (vorticityStats vstats)))) (mVorticity rVorton)) fs \<and>
         footerText (snd (GenerateBrickOfBytes_float True grid444 ''test'' 0 fs0))
           ''Vols/test00000-4x4x4.dat'' = Some (Inr ''MIN -63 MAX 63\<newline>'')"
proof -
  have 1: "encodedRange False (mn, mx) = (mn, mx)"
    "encodedRange True (mn, mx) = (fneg (MAX2 (fneg mn) mx), MAX2 (fneg mn) mx)"
    by (simp_all add: encodedRange_def symmetricRange_def)
  have r: "range_float enforce (ComputeStatistics_float f (FLT_MAX, fneg FLT_MAX))
             = (fMin, fMax)"
    using assms(1) by (simp only: range_float_encoded)
  have c: "\<forall>v \<in> set (mContents f).
             quantize_float fMin (MAX2 (fsub fMax fMin) FLT_MIN) v = Inr (q v)"
    using assms(7) by (simp add: list_all_iff)
  note scalar_names_distinct [OF assms(2) assms(3)]
  then have 2: "fst (GenerateBrickOfBytes_float enforce f strFilenameBase uFrame fs) = Inr ()"
    "files (snd (GenerateBrickOfBytes_float enforce f strFilenameBase uFrame fs)) nD
           = Some (brick (map q (mContents f)) [ArgDouble fMin, ArgDouble fMax])"
    unfolding GenerateBrickOfBytes_float_ok [OF r assms(2) assms(3) assms(4) assms(5) assms(6) c]
    by (simp_all add: brick_def o_def)
  obtain s1 s2 where s: "stats = (s1, s2)" by (cases stats)
  obtain v1 v2 where v: "vstats = (v1, v2)" by (cases vstats)
  have 3: "GenerateBrickOfBytes_Vec3 enforce g strFilenameBase uFrame fs
           = writeBricks g strFilenameBase uFrame lo hi
               (Magnitude (vecExtreme (fst stats) (snd stats)))
               (quantize_Vec3 enforce lo (vecRange lo hi)
                  (Magnitude (vecExtreme (fst stats) (snd stats)))) fs"
    using GenerateBrickOfBytes_Vec3_range [OF assms(8) [unfolded s] assms(9) [unfolded s]]
    by (simp add: s)
  have 4: "GenerateBrickOfBytes_Vorton enforce h strFilenameBase uFrame fs
           = writeBricks h strFilenameBase uFrame vlo vhi
               (Magnitude (vecExtreme (fst (vorticityStats vstats)) (snd (vorticityStats vstats))))
               (\<lambda>rVorton. quantize_Vec3 False vlo (vecRange vlo vhi)
                  (Magnitude (vecExtreme (fst (vorticityStats vstats))
                     (snd (vorticityStats vstats)))) (mVorticity rVorton)) fs"
    using GenerateBrickOfBytes_Vorton_range [OF assms(10) [unfolded v],
        of vlo vhi enforce strFilenameBase uFrame fs] assms(11)
    by (simp add: v vorticityStats_def)
  have 5: "footerText (snd (GenerateBrickOfBytes_float True grid444 ''test'' 0 fs0))
           ''Vols/test00000-4x4x4.dat'' = Some (Inr ''MIN -63 MAX 63\<newline>'')"
    unfolding export_grid444
    by (simp add: footerText_def brick_def emit_Inr)
  show ?thesis using 1 2 3 4 5 by (intro conjI)
qed

theorem symmetric_range_policy_witness:
  "encodedRange True (ComputeStatistics_float grid444 (FLT_MAX, fneg FLT_MAX))
     = (Finite (- 63), Finite 63) \<and>
   list_all (\<lambda>v. quantize_float (Finite (- 63)) (MAX2 (fsub (Finite 63) (Finite (- 63))) FLT_MIN) v
               = Inr (to_uchar \<lfloor>channelValue (realOf v + 63) 126\<rfloor>)) (mContents grid444) \<and>
   fst (GenerateBrickOfBytes_float True grid444 ''test'' 0 fs0) = Inr () \<and>
   files (snd (GenerateBrickOfBytes_float True grid444 ''test'' 0 fs0))
     ''Vols/test00000-4x4x4.dat''
     = Some (brick (map (\<lambda>v. to_uchar \<lfloor>channelValue (realOf v + 63) 126\<rfloor>) (mContents grid444))
         [ArgDouble (Finite (- 63)), ArgDouble (Finite 63)]) \<and>
   GenerateBrickOfBytes_Vorton True (vortonGrid (vec 0 0 0)) ''test'' 0 fs0
     = writeBricks (vortonGrid (vec 0 0 0)) ''test'' 0
         \<lparr> vx = Finite (- 2), vy = NegZero, vz = NegZero \<rparr> (vec 2 0 0) (Finite 2)
         (\<lambda>rVorton. quantize_Vec3 False \<lparr> vx = Finite (- 2), vy = NegZero, vz = NegZero \<rparr>
            (vecRange \<lparr> vx = Finite (- 2), vy = NegZero, vz = NegZero \<rparr> (vec 2 0 0))
            (Finite 2) (mVorticity rVorton)) fs0"
proof -
  let ?q = "\<lambda>v. to_uchar \<lfloor>channelValue (realOf v + 63) 126\<rfloor>"
  let ?lo = "\<lparr> vx = Finite (- 2), vy = NegZero, vz = NegZero \<rparr>"
  have r: "encodedRange True (ComputeStatistics_float grid444 (FLT_MAX, fneg FLT_MAX))
             = (Finite (- 63), Finite 63)"
    by (simp add: ComputeStatistics_grid444 encodedRange_def symmetricRange_def MAX2_NegZero)
  have R: "max (round_to_float (63 - (- 63))) flt_min = 126"
    by (simp add: rtf_126 flt_min_def)
  have rv: "MAX2 (fsub (Finite 63) (Finite (- 63))) FLT_MIN = Finite 126"
    using range_val(1) [of "- 63" 63] R by (simp add: rtf_126 flt_max_def)
  have c: "\<forall>v \<in> set (mContents grid444).
             quantize_float (Finite (- 63)) (MAX2 (fsub (Finite 63) (Finite (- 63))) FLT_MIN) v
               = Inr (?q v)"
  proof
    fix v assume "v \<in> set (mContents grid444)"
    then obtain n :: nat where n: "v = Finite (real n)" "n < 64" by (auto simp: grid444_def)
    have w: "withinRange (- 63) 63 (real n)"
      using n(2) by (simp add: withinRange_def rtf_126 flt_max_def)
    show "quantize_float (Finite (- 63)) (MAX2 (fsub (Finite 63) (Finite (- 63))) FLT_MIN) v
            = Inr (?q v)"
      using quantize_float_ok [OF w R [symmetric]] by (simp add: rv n(1))
  qed
  then have l: "list_all (\<lambda>v. quantize_float (Finite (- 63))
      (MAX2 (fsub (Finite 63) (Finite (- 63))) FLT_MIN) v = Inr (?q v)) (mContents grid444)"
    by (simp only: list_all_iff)
  have w: "writable fs0 n" for n by (simp add: fs0_def)
  have e: "vecExtreme (vec 0 0 0) (vec 2 0 0) = vec 2 0 0" by (simp add: vecExtreme_vec)
  have v: "encodedVecRange True (vec 0 0 0, vec 2 0 0) = (?lo, vec 2 0 0)"
    by (simp add: encodedVecRange_True e) (simp add: vneg_def vec_def)
  have vs: "vorticityStats (\<lparr> mPosition = vec 0 0 0, mVorticity = vec 0 0 0 \<rparr>,
       \<lparr> mPosition = vec 0 0 0, mVorticity = vec 2 0 0 \<rparr>) = (vec 0 0 0, vec 2 0 0)"
    by (simp add: vorticityStats_def)
  note t = symmetric_range_policy [OF r names_444 w w size_examples(4) l
      ComputeStatistics_vorticityGrid v ComputeStatistics_vortonGrid v [folded vs],
      of "Finite 0" "Finite 0"]
  have m: "Magnitude (vecExtreme (vec 0 0 0) (vec 2 0 0)) = Finite 2"
    by (simp add: e Magnitude_two)
  show ?thesis
    using r l t by (simp add: vs m)
qed

theorem symmetric_range_policy_counterexample:
  "files (snd (GenerateBrickOfBytes_Vorton False (vortonGrid (vec 0 0 0)) ''vort'' 0 fs0))
     ''Vols/vortX00000-2x2x2.dat''
     = Some (brick (127 # replicate 7 255) [ArgDouble (Finite (- 2)), ArgDouble (Finite 2)]) \<and>
   files (snd (GenerateBrickOfBytes_Vec3 False vorticityGrid ''vort'' 0 fs0))
     ''Vols/vortX00000-2x2x2.dat''
     = Some (brick (0 # replicate 7 255) [ArgDouble (Finite 0), ArgDouble (Finite 2)]) \<and>
   map mVorticity (mContents (vortonGrid (vec 0 0 0))) = mContents vorticityGrid"
proof -
  have "map mVorticity (mContents (vortonGrid (vec 0 0 0))) = mContents vorticityGrid"
    by (simp add: vortonGrid_def vorticityGrid_def)
  then show ?thesis
    by (simp add: export_vortonGrid export_vorticityGrid)
qed

section \<open>The sign under the symmetric range\<close>




section \<open>The divisor of the magnitude\<close>

text \<open>
  C5. The claim has every divisor of the export floored at \<^verbatim>\<open>FLT_MIN\<close>, the one of the
  derived magnitude included. The code floors the three component ranges and leaves the
  divisor \<^verbatim>\<open>fMagMax\<close> of the magnitude as it is. On the grid whose stored vectors are
  all zero the statistics are zero, \<^verbatim>\<open>fMagMax\<close> is zero, the three components of the
  first stored vector pass with the integer 0, and
  \<^verbatim>\<open>vMag0to255 = fAlmost256 * fMag / fMagMax\<close> is \<^verbatim>\<open>0 / 0\<close>, not a number: its conversion to
  \<^verbatim>\<open>int\<close> is undefined, and the export stops there, with and without
  \<^verbatim>\<open>ENFORCE_SYMMETRIC_RANGE\<close>, the four data files left empty.
\<close>

theorem magnitude_divisor_not_floored:
  "ComputeStatistics_Vec3 zeroGrid = Inr (vec 0 0 0, vec 0 0 0) \<and>
   Magnitude (vecExtreme (vec 0 0 0) (vec 0 0 0)) = Finite 0 \<and>
   vecRange (vec 0 0 0) (vec 0 0 0) = \<lparr> vx = FLT_MIN, vy = FLT_MIN, vz = FLT_MIN \<rparr> \<and>
   channelInt (Finite 0) FLT_MIN (Finite 0) = Inr 0 \<and>
   magnitude0to255 (Finite 0) (vec 0 0 0) = NaN \<and>
   float_to_int NaN = Inl UndefinedConversion \<and>
   fst (GenerateBrickOfBytes_Vec3 False zeroGrid ''vort'' 0 fs0) = Inl UndefinedConversion \<and>
   fst (GenerateBrickOfBytes_Vec3 True zeroGrid ''vort'' 0 fs0) = Inl UndefinedConversion \<and>
   files (snd (GenerateBrickOfBytes_Vec3 False zeroGrid ''vort'' 0 fs0))
     ''Vols/vortM00000-2x2x2.dat'' = Some []"
proof -
  have 1: "Magnitude (vecExtreme (vec 0 0 0) (vec 0 0 0)) = Finite 0"
    by (simp add: vecExtreme_vec Magnitude_zero)
  have 2: "vecRange (vec 0 0 0) (vec 0 0 0) = \<lparr> vx = FLT_MIN, vy = FLT_MIN, vz = FLT_MIN \<rparr>"
    using flt_min_pos
    by (simp add: vecRange_def vsub_def vec_def fsub_Finite Let_def MAX2_def FLT_MIN_def)
  have 3: "channelInt (Finite 0) FLT_MIN (Finite 0) = Inr 0"
    using flt_min_pos
    by (simp add: channelInt_def channel0to255_def channel0to1_def fsub_Finite FLT_MIN_def
        fAlmost256_val)
  show ?thesis
    by (simp add: ComputeStatistics_zeroGrid 1 2 3 magnitude0to255_undefined export_zeroGrid)
qed

section \<open>The cell of a position\<close>

text \<open>
  C6 (amended). In a well-formed grid, for every valid cell \<open>(ix, iy, iz)\<close> and every
  position that on each axis keeps the relative distance \<^verbatim>\<open>2 * FLT_EPSILON\<close> from the two
  faces of the cell, that is
  \<^verbatim>\<open>(1 + 2 FLT_EPSILON) i s <= pos - minCorner <= (1 - 2 FLT_EPSILON) (i + 1) s\<close> with the
  cell spacing \<open>s\<close> not below \<^verbatim>\<open>FLT_MIN\<close> and the difference finite in single precision,
  \<^verbatim>\<open>IndicesOfPosition\<close>, computed in single precision, returns exactly \<open>(ix, iy, iz)\<close>, and
  \<^verbatim>\<open>OffsetOfPosition\<close> returns \<^verbatim>\<open>OffsetFromIndices(ix, iy, iz)\<close>.
\<close>

theorem position_in_cell:
  assumes "wellFormed g" "validIndices g idx" "nudgedInsideCell g idx pos"
  shows "IndicesOfPosition g pos = Inr idx \<and>
         OffsetOfPosition g pos = Inr (OffsetFromIndices g idx)"
proof -
  obtain ix iy iz where idx: "idx = (ix, iy, iz)" by (cases idx)
  note b = numPoints_bounded [OF assms(1)]
  have v: "ix < GetNumPoints g 0" "iy < GetNumPoints g 1" "iz < GetNumPoints g 2"
    using assms(2) by (simp_all add: validIndices_def idx)
  have n: "nudgedBetween (vx (mMinCorner g)) (vx (GetCellSpacing g)) ix (vx pos)"
    "nudgedBetween (vy (mMinCorner g)) (vy (GetCellSpacing g)) iy (vy pos)"
    "nudgedBetween (vz (mMinCorner g)) (vz (GetCellSpacing g)) iz (vz pos)"
    using assms(3) by (simp_all add: nudgedInsideCell_def idx)
  note x = axisIndex_nudged [OF n(1) v(1) b(1)]
  note y = axisIndex_nudged [OF n(2) v(2) b(2)]
  note z = axisIndex_nudged [OF n(3) v(3) b(3)]
  have i: "IndicesOfPosition g pos = Inr idx"
    by (simp only: IndicesOfPosition_def x y z andThen_Inr idx)
  then show ?thesis by (simp add: OffsetOfPosition_def andThen_Inr)
qed

theorem position_in_cell_witness:
  "wellFormed grid444 \<and> validIndices grid444 (1, 2, 0) \<and>
   nudgedInsideCell grid444 (1, 2, 0) (vec (3 / 2) (5 / 2) (1 / 2)) \<and>
   IndicesOfPosition grid444 (vec (3 / 2) (5 / 2) (1 / 2)) = Inr (1, 2, 0) \<and>
   OffsetOfPosition grid444 (vec (3 / 2) (5 / 2) (1 / 2)) = Inr 9"
proof -
  have w: "wellFormed grid444"
    by (simp add: wellFormed_def grid444_def GetGridCapacity_def GetNumPoints_def)
  have v: "validIndices grid444 (1, 2, 0)"
    by (simp add: validIndices_def grid444_def GetNumPoints_def)
  have f: "fl 3 = Finite 3" "fl 1 = Finite 1" "fl (3 / 2) = Finite (3 / 2)"
    "fl (5 / 2) = Finite (5 / 2)" "fl (1 / 2) = Finite (1 / 2)"
    using fl_exact [of 3 3 0] fl_exact [of 1 1 0] fl_exact [of "3 / 2" 3 "-1"]
      fl_exact [of "5 / 2" 5 "-1"] fl_exact [of "1 / 2" 1 "-1"]
    by (simp_all add: flt_max_def)
  have s: "GetCellSpacing grid444 = vec 1 1 1"
    by (simp add: GetCellSpacing_def grid444_def GetNumPoints_def vec_def fsub_Finite f)
  have n: "nudgedInsideCell grid444 (1, 2, 0) (vec (3 / 2) (5 / 2) (1 / 2))"
    unfolding nudgedInsideCell_def s
    by (simp add: nudgedBetween_def grid444_def vec_def fsub_Finite f flt_min_def
        flt_epsilon_def)
  note t = position_in_cell [OF w v n]
  have "OffsetFromIndices grid444 (1, 2, 0) = 9"
    by (simp add: OffsetFromIndices_def grid444_def GetNumPoints_def)
  then show ?thesis using w v n t by simp
qed

theorem position_in_cell_counterexample:
  "wellFormed tenthGrid \<and> validIndices tenthGrid (6, 0, 0) \<and>
   insideCell tenthGrid (6, 0, 0) tenthProbe \<and>
   IndicesOfPosition tenthGrid tenthProbe = Inr (7, 0, 0) \<and>
   OffsetOfPosition tenthGrid tenthProbe = Inr 7 \<and>
   OffsetFromIndices tenthGrid (6, 0, 0) = 6"
proof -
  have w: "wellFormed tenthGrid"
    by (simp add: wellFormed_def tenthGrid_def GetGridCapacity_def GetNumPoints_def)
  have v: "validIndices tenthGrid (6, 0, 0)"
    by (simp add: validIndices_def tenthGrid_def GetNumPoints_def)
  have r10: "round_to_float (1 / 10) = 13421773 / 134217728"
  proof -
    have "round_to_float (1 / 10)
        = 2 powi (-4 - 23) * of_int (rne ((1 / 10) / 2 powi (-4 - 23)))"
      by (rule rtf_eval) simp_all
    also have "rne ((1 / 10) / 2 powi (-4 - 23)) = 13421773"
      by (simp add: rne_def Let_def)
    finally show ?thesis by simp
  qed
  have r7: "round_to_float (93952408 / 13421773) = 7"
  proof -
    have "round_to_float (93952408 / 13421773)
        = 2 powi (2 - 23) * of_int (rne ((93952408 / 13421773) / 2 powi (2 - 23)))"
      by (rule rtf_eval) simp_all
    also have "rne ((93952408 / 13421773) / 2 powi (2 - 23)) = 14680064"
      by (simp add: rne_def Let_def)
    finally show ?thesis by simp
  qed
  have f: "fl 10 = Finite 10" "fl 1 = Finite 1" "fl (1 / 2) = Finite (1 / 2)"
    "fl (11744051 / 16777216) = Finite (11744051 / 16777216)"
    using fl_exact [of 10 10 0] fl_exact [of 1 1 0] fl_exact [of "1 / 2" 1 "-1"]
      fl_exact [of "11744051 / 16777216" 11744051 "-24"]
    by (simp_all add: flt_max_def)
  have f10: "fl (1 / 10) = Finite (13421773 / 134217728)"
    using fl_Finite [of "1 / 10"] by (simp add: r10 flt_max_def)
  have f7: "fl (93952408 / 13421773) = Finite 7"
    using fl_Finite [of "93952408 / 13421773"] by (simp add: r7 flt_max_def)
  have s: "GetCellSpacing tenthGrid
      = \<lparr> vx = Finite (13421773 / 134217728), vy = Finite 1, vz = Finite 1 \<rparr>"
    by (simp add: GetCellSpacing_def tenthGrid_def GetNumPoints_def vec_def fsub_Finite f f10)
  have i: "insideCell tenthGrid (6, 0, 0) tenthProbe"
    unfolding insideCell_def s
    by (simp add: strictlyBetween_def tenthGrid_def tenthProbe_def vec_def)
  have x: "axisIndex (Finite 0) (Finite (13421773 / 134217728)) 11
      (Finite (11744051 / 16777216)) = Inr 7"
    by (simp add: axisIndex_def fsub_Finite f f7)
  have y: "axisIndex (Finite 0) (Finite 1) 2 (Finite (1 / 2)) = Inr 0"
    by (simp add: axisIndex_def fsub_Finite f)
  have p: "IndicesOfPosition tenthGrid tenthProbe = Inr (7, 0, 0)"
    unfolding IndicesOfPosition_def s
    by (simp add: tenthGrid_def tenthProbe_def vec_def GetNumPoints_def x y andThen_Inr)
  have o: "OffsetOfPosition tenthGrid tenthProbe = Inr 7"
    unfolding OffsetOfPosition_def p
    by (simp add: andThen_Inr OffsetFromIndices_def tenthGrid_def GetNumPoints_def)
  have o6: "OffsetFromIndices tenthGrid (6, 0, 0) = 6"
    by (simp add: OffsetFromIndices_def tenthGrid_def GetNumPoints_def)
  show ?thesis using w v i p o o6 by blast
qed

section \<open>The statistics of a grid\<close>

text \<open>
  C7 (amended). On a well-formed grid whose stored components are finite numbers, the
  three nested loops of the \<^verbatim>\<open>Vec3\<close> specialisation visit the offsets
  \<open>0, 1, ..., n - 1\<close> of the stored elements, each once, and every offset reads its
  element. The function ends with the grid it was called on, unchanged, and with the
  fold of the six \<^verbatim>\<open>MIN2\<close>/\<^verbatim>\<open>MAX2\<close> assignments over the stored vectors from
  \<open>(FLT_MAX, -FLT_MAX)\<close>. As numbers, the sign of a zero apart, this fold is the pair of
  the per-component minimum and maximum, each component on its own; so is the fold from
  \<open>(+\<infinity>, -\<infinity>)\<close>, and so is the result of visiting the offsets in any other order. When no
  stored component is the negative zero, all of these are equal exactly. The \<^verbatim>\<open>Vorton\<close>
  specialisation also ends with its grid unchanged; its result holds the fold of the
  positions and, apart, the fold of the vorticities, as numbers the minimum and maximum
  of the positions and of the vorticities, in any order of the visits, and exactly so
  when no stored component is the negative zero.
\<close>

theorem statistics_fold:
  assumes "wellFormed g" "list_all floatVec (mContents g)"
    and "wellFormed h" "list_all floatVorton (mContents h)"
  shows "(\<forall>visit s. traverse_Vec3 g visit s = forEach [0 ..< length (mContents g)] visit s) \<and>
         (\<forall>offset < length (mContents g). At g offset = Inr (mContents g ! offset)) \<and>
         ComputeStatistics_Vec3_state g = Inr (g, foldl foldVec3 seed_Vec3 (mContents g)) \<and>
         ComputeStatistics_Vec3 g = Inr (foldl foldVec3 seed_Vec3 (mContents g)) \<and>
         numbers (foldl foldVec3 seed_Vec3 (mContents g))
           = (vecMin (mContents g), vecMax (mContents g)) \<and>
         numbers (foldl foldVec3 unbounded_seed (mContents g))
           = (vecMin (mContents g), vecMax (mContents g)) \<and>
         (\<forall>order. mset order = mset [0 ..< length (mContents g)] \<longrightarrow>
            (\<exists>stats. forEach order (visit_Vec3 g) seed_Vec3 = Inr stats \<and>
               numbers stats = (vecMin (mContents g), vecMax (mContents g)))) \<and>
         (list_all plainVec (mContents g) \<longrightarrow>
            ComputeStatistics_Vec3 g = Inr (vecMin (mContents g), vecMax (mContents g)) \<and>
            ComputeStatistics_Vec3 g = Inr (foldl foldVec3 unbounded_seed (mContents g)) \<and>
            (\<forall>order. mset order = mset [0 ..< length (mContents g)] \<longrightarrow>
               forEach order (visit_Vec3 g) seed_Vec3 = ComputeStatistics_Vec3 g)) \<and>
         ComputeStatistics_Vorton_state h
           = Inr (h, foldl foldVorton seed_Vorton (mContents h)) \<and>
         ComputeStatistics_Vorton h = Inr (foldl foldVorton seed_Vorton (mContents h)) \<and>
         foldl foldVorton seed_Vorton (mContents h)
           = (\<lparr> mPosition = fst (foldl foldVec3 seed_Vec3 (map mPosition (mContents h))),
                mVorticity = fst (foldl foldVec3 seed_Vec3 (map mVorticity (mContents h))) \<rparr>,
              \<lparr> mPosition = snd (foldl foldVec3 seed_Vec3 (map mPosition (mContents h))),
                mVorticity = snd (foldl foldVec3 seed_Vec3 (map mVorticity (mContents h))) \<rparr>) \<and>
         numbers (foldl foldVec3 seed_Vec3 (map mPosition (mContents h)))
           = (vecMin (map mPosition (mContents h)), vecMax (map mPosition (mContents h))) \<and>
         numbers (foldl foldVec3 seed_Vec3 (map mVorticity (mContents h)))
           = (vecMin (map mVorticity (mContents h)), vecMax (map mVorticity (mContents h))) \<and>
         numbers (foldl foldVec3 unbounded_seed (map mPosition (mContents h)))
           = (vecMin (map mPosition (mContents h)), vecMax (map mPosition (mContents h))) \<and>
         numbers (foldl foldVec3 unbounded_seed (map mVorticity (mContents h)))
           = (vecMin (map mVorticity (mContents h)), vecMax (map mVorticity (mContents h))) \<and>
         (\<forall>order. mset order = mset [0 ..< length (mContents h)] \<longrightarrow>
            (\<exists>stats. forEach order (visit_Vorton h) seed_Vorton = Inr stats \<and>
               vortonNumbers stats
                 = (\<lparr> mPosition = vecMin (map mPosition (mContents h)),
                       mVorticity = vecMin (map mVorticity (mContents h)) \<rparr>,
                    \<lparr> mPosition = vecMax (map mPosition (mContents h)),
                       mVorticity = vecMax (map mVorticity (mContents h)) \<rparr>))) \<and>
         (list_all plainVorton (mContents h) \<longrightarrow>
            ComputeStatistics_Vorton h
              = Inr (\<lparr> mPosition = vecMin (map mPosition (mContents h)),
                       mVorticity = vecMin (map mVorticity (mContents h)) \<rparr>,
                     \<lparr> mPosition = vecMax (map mPosition (mContents h)),
                       mVorticity = vecMax (map mVorticity (mContents h)) \<rparr>) \<and>
            (\<forall>order. mset order = mset [0 ..< length (mContents h)] \<longrightarrow>
               forEach order (visit_Vorton h) seed_Vorton = ComputeStatistics_Vorton h))"
proof -
  note wg = wellFormed_contents [OF assms(1)]
  note wh = wellFormed_contents [OF assms(3)]
  note st = statistics_state [OF assms(1) assms(3)]
  have fg: "\<forall>v \<in> set (mContents g). floatVec v" using assms(2) by (simp add: list_all_iff)
  have fh: "\<forall>w \<in> set (mContents h). floatVorton w" using assms(4) by (simp add: list_all_iff)
  have fp: "\<forall>v \<in> set (map mPosition (mContents h)). floatVec v"
    and fw: "\<forall>v \<in> set (map mVorticity (mContents h)). floatVec v"
    using fh by (simp_all add: floatVorton_def)
  have ne: "map mPosition (mContents h) \<noteq> []" "map mVorticity (mContents h) \<noteq> []"
    using wh(3) by simp_all
  have 1: "\<forall>visit s. traverse_Vec3 g visit s = forEach [0 ..< length (mContents g)] visit s"
    by (simp only: wg(1) traverse_Vec3_flat [OF wg(2)] simp_thms)
  have 2: "\<forall>offset < length (mContents g). At g offset = Inr (mContents g ! offset)"
    by (simp add: At_def)
  note 3 = st(1)
  note 4 = ComputeStatistics_Vec3_fold [OF assms(1)]
  note 5 = numbers_foldVec3(1) [OF wg(3) fg]
  note 6 = numbers_foldVec3(2) [OF wg(3) fg]
  have 7: "\<forall>order. mset order = mset [0 ..< length (mContents g)] \<longrightarrow>
            (\<exists>stats. forEach order (visit_Vec3 g) seed_Vec3 = Inr stats \<and>
               numbers stats = (vecMin (mContents g), vecMax (mContents g)))"
    using Vec3_order_numbers [OF wg(3) fg] by blast
  have 8: "list_all plainVec (mContents g) \<longrightarrow>
            ComputeStatistics_Vec3 g = Inr (vecMin (mContents g), vecMax (mContents g)) \<and>
            ComputeStatistics_Vec3 g = Inr (foldl foldVec3 unbounded_seed (mContents g)) \<and>
            (\<forall>order. mset order = mset [0 ..< length (mContents g)] \<longrightarrow>
               forEach order (visit_Vec3 g) seed_Vec3 = ComputeStatistics_Vec3 g)"
  proof
    assume "list_all plainVec (mContents g)"
    then have pg: "\<forall>v \<in> set (mContents g). plainVec v" by (simp add: list_all_iff)
    have a: "ComputeStatistics_Vec3 g = Inr (vecMin (mContents g), vecMax (mContents g))"
      by (simp only: 4 foldl_foldVec3_seed [OF wg(3) pg])
    have b: "ComputeStatistics_Vec3 g = Inr (foldl foldVec3 unbounded_seed (mContents g))"
      by (simp only: a foldl_foldVec3_unbounded [OF wg(3) pg])
    have c: "\<forall>order. mset order = mset [0 ..< length (mContents g)] \<longrightarrow>
               forEach order (visit_Vec3 g) seed_Vec3 = ComputeStatistics_Vec3 g"
      using Vec3_order [OF wg(3) pg] by (simp add: a)
    show "ComputeStatistics_Vec3 g = Inr (vecMin (mContents g), vecMax (mContents g)) \<and>
            ComputeStatistics_Vec3 g = Inr (foldl foldVec3 unbounded_seed (mContents g)) \<and>
            (\<forall>order. mset order = mset [0 ..< length (mContents g)] \<longrightarrow>
               forEach order (visit_Vec3 g) seed_Vec3 = ComputeStatistics_Vec3 g)"
      using a b c by blast
  qed
  note 9 = st(3)
  note 10 = st(2)
  have 11: "foldl foldVorton seed_Vorton (mContents h)
           = (\<lparr> mPosition = fst (foldl foldVec3 seed_Vec3 (map mPosition (mContents h))),
                mVorticity = fst (foldl foldVec3 seed_Vec3 (map mVorticity (mContents h))) \<rparr>,
              \<lparr> mPosition = snd (foldl foldVec3 seed_Vec3 (map mPosition (mContents h))),
                mVorticity = snd (foldl foldVec3 seed_Vec3 (map mVorticity (mContents h))) \<rparr>)"
    unfolding seed_Vorton_def foldl_foldVorton by simp
  note 12 = numbers_foldVec3(1) [OF ne(1) fp]
  note 13 = numbers_foldVec3(1) [OF ne(2) fw]
  note 14 = numbers_foldVec3(2) [OF ne(1) fp]
  note 15 = numbers_foldVec3(2) [OF ne(2) fw]
  have 16: "\<forall>order. mset order = mset [0 ..< length (mContents h)] \<longrightarrow>
            (\<exists>stats. forEach order (visit_Vorton h) seed_Vorton = Inr stats \<and>
               vortonNumbers stats
                 = (\<lparr> mPosition = vecMin (map mPosition (mContents h)),
                       mVorticity = vecMin (map mVorticity (mContents h)) \<rparr>,
                    \<lparr> mPosition = vecMax (map mPosition (mContents h)),
                       mVorticity = vecMax (map mVorticity (mContents h)) \<rparr>))"
    using Vorton_order_numbers [OF wh(3) fh] by blast
  have 17: "list_all plainVorton (mContents h) \<longrightarrow>
            ComputeStatistics_Vorton h
              = Inr (\<lparr> mPosition = vecMin (map mPosition (mContents h)),
                       mVorticity = vecMin (map mVorticity (mContents h)) \<rparr>,
                     \<lparr> mPosition = vecMax (map mPosition (mContents h)),
                       mVorticity = vecMax (map mVorticity (mContents h)) \<rparr>) \<and>
            (\<forall>order. mset order = mset [0 ..< length (mContents h)] \<longrightarrow>
               forEach order (visit_Vorton h) seed_Vorton = ComputeStatistics_Vorton h)"
  proof
    assume "list_all plainVorton (mContents h)"
    then have ph: "\<forall>w \<in> set (mContents h). plainVorton w" by (simp add: list_all_iff)
    have l: "ComputeStatistics_Vorton h
           = forEach [0 ..< length (mContents h)] (visit_Vorton h) seed_Vorton"
      using ComputeStatistics_Vorton_loop [of h] by (simp only: wh(4))
    have a: "ComputeStatistics_Vorton h
              = Inr (\<lparr> mPosition = vecMin (map mPosition (mContents h)),
                       mVorticity = vecMin (map mVorticity (mContents h)) \<rparr>,
                     \<lparr> mPosition = vecMax (map mPosition (mContents h)),
                       mVorticity = vecMax (map mVorticity (mContents h)) \<rparr>)"
      using Vorton_order [OF wh(3) ph refl] by (simp only: l)
    have c: "\<forall>order. mset order = mset [0 ..< length (mContents h)] \<longrightarrow>
               forEach order (visit_Vorton h) seed_Vorton = ComputeStatistics_Vorton h"
      using Vorton_order [OF wh(3) ph] by (simp add: a)
    show "ComputeStatistics_Vorton h
              = Inr (\<lparr> mPosition = vecMin (map mPosition (mContents h)),
                       mVorticity = vecMin (map mVorticity (mContents h)) \<rparr>,
                     \<lparr> mPosition = vecMax (map mPosition (mContents h)),
                       mVorticity = vecMax (map mVorticity (mContents h)) \<rparr>) \<and>
            (\<forall>order. mset order = mset [0 ..< length (mContents h)] \<longrightarrow>
               forEach order (visit_Vorton h) seed_Vorton = ComputeStatistics_Vorton h)"
      using a c by blast
  qed
  show ?thesis
    by (intro conjI) (fact 1 2 3 4 5 6 7 8 9 10 11 12 13 14 15 16 17)+
qed

theorem statistics_fold_witness:
  "wellFormed statGrid \<and> list_all floatVec (mContents statGrid) \<and>
   list_all plainVec (mContents statGrid) \<and>
   wellFormed (vortonGrid (vec 3 4 5)) \<and>
   list_all floatVorton (mContents (vortonGrid (vec 3 4 5))) \<and>
   list_all plainVorton (mContents (vortonGrid (vec 3 4 5))) \<and>
   ComputeStatistics_Vec3_state statGrid = Inr (statGrid, vec (- 2) 0 0, vec 1 0 0) \<and>
   ComputeStatistics_Vec3 statGrid = Inr (vec (- 2) 0 0, vec 1 0 0) \<and>
   ComputeStatistics_Vorton (vortonGrid (vec 3 4 5))
     = Inr (\<lparr> mPosition = vec 3 4 5, mVorticity = vec 0 0 0 \<rparr>,
            \<lparr> mPosition = vec 3 4 5, mVorticity = vec 2 0 0 \<rparr>)"
proof -
  note f = floatVec_plain(1) [OF wellFormed_statGrid(2)]
    floatVec_plain(2) [OF wellFormed_vortonGrid(2)]
  note t = statistics_fold [OF wellFormed_statGrid(1) f(1) wellFormed_vortonGrid(1) f(2)]
  have a: "vecMin (mContents statGrid) = vec (- 2) 0 0" "vecMax (mContents statGrid) = vec 1 0 0"
    by (simp_all add: vecMin_def vecMax_def componentMin_def componentMax_def statGrid_def
        vec_def)
  have b: "vecMin (map mPosition (mContents (vortonGrid (vec 3 4 5)))) = vec 3 4 5"
    "vecMax (map mPosition (mContents (vortonGrid (vec 3 4 5)))) = vec 3 4 5"
    "vecMin (map mVorticity (mContents (vortonGrid (vec 3 4 5)))) = vec 0 0 0"
    "vecMax (map mVorticity (mContents (vortonGrid (vec 3 4 5)))) = vec 2 0 0"
    by (simp_all add: vecMin_def vecMax_def componentMin_def componentMax_def vortonGrid_def
        vec_def)
  have c: "ComputeStatistics_Vec3 statGrid = Inr (vec (- 2) 0 0, vec 1 0 0)"
    "ComputeStatistics_Vorton (vortonGrid (vec 3 4 5))
     = Inr (\<lparr> mPosition = vec 3 4 5, mVorticity = vec 0 0 0 \<rparr>,
            \<lparr> mPosition = vec 3 4 5, mVorticity = vec 2 0 0 \<rparr>)"
    using t [unfolded a b] wellFormed_statGrid(2) wellFormed_vortonGrid(2) by blast+
  have "ComputeStatistics_Vec3 statGrid = Inr (foldl foldVec3 seed_Vec3 (mContents statGrid))"
    "ComputeStatistics_Vec3_state statGrid
       = Inr (statGrid, foldl foldVec3 seed_Vec3 (mContents statGrid))"
    using t by blast+
  then have d: "ComputeStatistics_Vec3_state statGrid = Inr (statGrid, vec (- 2) 0 0, vec 1 0 0)"
    using c(1) by simp
  show ?thesis
    using wellFormed_statGrid wellFormed_vortonGrid f c d by blast
qed

text \<open>
  The claim as stated has the fold start from \<open>(+\<infinity>, -\<infinity>)\<close>. The code starts from
  \<open>(FLT_MAX, -FLT_MAX)\<close>: on a grid whose stored vectors all have the x component
  \<open>+\<infinity>\<close>, it returns \<^verbatim>\<open>FLT_MAX\<close> as the minimum of x, where the fold from \<open>+\<infinity>\<close> returns
  \<open>+\<infinity>\<close>, the smallest stored value. And the result depends on the order of the visits
  where zeros of both signs are stored: \<^verbatim>\<open>MIN2\<close> and \<^verbatim>\<open>MAX2\<close> keep the zero visited last.
\<close>

theorem statistics_fold_counterexample:
  "wellFormed infGrid \<and>
   ComputeStatistics_Vec3 infGrid
     = Inr (\<lparr> vx = FLT_MAX, vy = Finite 0, vz = Finite 0 \<rparr>,
            \<lparr> vx = PosInf, vy = Finite 0, vz = Finite 0 \<rparr>) \<and>
   foldl foldVec3 unbounded_seed (mContents infGrid)
     = (\<lparr> vx = PosInf, vy = Finite 0, vz = Finite 0 \<rparr>,
        \<lparr> vx = PosInf, vy = Finite 0, vz = Finite 0 \<rparr>) \<and>
   FLT_MAX \<noteq> PosInf \<and>
   wellFormed signGrid \<and>
   ComputeStatistics_Vec3 signGrid
     = Inr (\<lparr> vx = NegZero, vy = NegZero, vz = NegZero \<rparr>,
            \<lparr> vx = NegZero, vy = NegZero, vz = NegZero \<rparr>) \<and>
   mset (rev [0 ..< 8]) = mset [0 ..< length (mContents signGrid)] \<and>
   forEach (rev [0 ..< 8]) (visit_Vec3 signGrid) seed_Vec3 = Inr (vec 0 0 0, vec 0 0 0)"
proof -
  have w: "wellFormed signGrid"
    by (simp add: wellFormed_def signGrid_def GetGridCapacity_def GetNumPoints_def)
  have l: "length (mContents signGrid) = 8" by (simp add: signGrid_def)
  have c: "mContents signGrid = vec 0 0 0 # replicate 7 \<lparr> vx = NegZero, vy = NegZero, vz = NegZero \<rparr>"
    by (simp add: signGrid_def)
  have s: "foldVec3 seed_Vec3 (vec 0 0 0) = (vec 0 0 0, vec 0 0 0)"
    using flt_max_gt0
    by (simp add: foldVec3_def seed_Vec3_def vec_def MIN2_def MAX2_def FLT_MAX_def)
  let ?nz = "\<lparr> vx = NegZero, vy = NegZero, vz = NegZero \<rparr>"
  have n1: "foldVec3 (vec 0 0 0, vec 0 0 0) ?nz = (?nz, ?nz)"
    by (simp add: foldVec3_def vec_def MIN2_def MAX2_def)
  have n2: "foldVec3 (?nz, ?nz) ?nz = (?nz, ?nz)"
    by (simp add: foldVec3_def MIN2_def MAX2_def)
  have n3: "foldVec3 seed_Vec3 ?nz = (?nz, ?nz)"
    using flt_max_gt0
    by (simp add: foldVec3_def seed_Vec3_def MIN2_def MAX2_def FLT_MAX_def)
  have n4: "foldVec3 (?nz, ?nz) (vec 0 0 0) = (vec 0 0 0, vec 0 0 0)"
    by (simp add: foldVec3_def vec_def MIN2_def MAX2_def)
  have r7: "replicate 7 ?nz = replicate (Suc 6) ?nz" by simp
  have f1: "foldl foldVec3 seed_Vec3 (mContents signGrid) = (?nz, ?nz)"
    unfolding c foldl_Cons s r7
    using foldl_replicate_idem [of foldVec3 "(vec 0 0 0, vec 0 0 0)" ?nz 6] n1 n2 by simp
  have 1: "ComputeStatistics_Vec3 signGrid = Inr (?nz, ?nz)"
    by (simp only: ComputeStatistics_Vec3_fold [OF w] f1)
  have p: "\<forall>i \<in> set (rev [0 ..< 8]). i < length (mContents signGrid)"
    by (simp add: l)
  have m: "map ((!) (mContents signGrid)) (rev [0 ..< 8]) = replicate (Suc 6) ?nz @ [vec 0 0 0]"
    by (simp add: c upt_rec [of _ 8] upt_rec [of _ "Suc _"] eval_nat_numeral)
  have f2: "foldl foldVec3 seed_Vec3 (replicate (Suc 6) ?nz @ [vec 0 0 0])
      = (vec 0 0 0, vec 0 0 0)"
    unfolding foldl_append
    using foldl_replicate_idem [of foldVec3 seed_Vec3 ?nz 6] n2 n3 n4 by simp
  have 2: "forEach (rev [0 ..< 8]) (visit_Vec3 signGrid) seed_Vec3 = Inr (vec 0 0 0, vec 0 0 0)"
    using forEach_order_At [OF p, of foldVec3 seed_Vec3]
    by (simp only: visit_Vec3_def [abs_def] m f2)
  have 3: "mset (rev [0 ..< 8]) = mset [0 ..< length (mContents signGrid)]"
    by (simp only: l mset_rev)
  have i: "wellFormed infGrid \<and>
   ComputeStatistics_Vec3 infGrid
     = Inr (\<lparr> vx = FLT_MAX, vy = Finite 0, vz = Finite 0 \<rparr>,
            \<lparr> vx = PosInf, vy = Finite 0, vz = Finite 0 \<rparr>) \<and>
   foldl foldVec3 unbounded_seed (mContents infGrid)
     = (\<lparr> vx = PosInf, vy = Finite 0, vz = Finite 0 \<rparr>,
        \<lparr> vx = PosInf, vy = Finite 0, vz = Finite 0 \<rparr>) \<and>
   FLT_MAX \<noteq> PosInf"
    by (simp only: wellFormed_infGrid ComputeStatistics_Vec3_fold [OF wellFormed_infGrid]
        infGrid_folds simp_thms)
      (simp add: FLT_MAX_def)
  show ?thesis using i w 1 2 3 by blast
qed

section \<open>The footers of the data files\<close>

text \<open>
  C8. The claim has every data file hold one byte per grid point, in the order of the
  offsets, and then one footer line of the form \<^verbatim>\<open>MIN <g> MAX <g>\<close> with the range of the
  channel, \<open>[0, fMagMax]\<close> for the magnitude. On the grid of eight vectors, the first zero
  and the others \<open>(2, 0, 0)\<close>, the \<^verbatim>\<open>Vec3\<close> exporter writes eight bytes and a footer
  to each of the four files; the footer of the X file reads \<^verbatim>\<open>MIN 0 MAX 2\<close>. The footer
  of the magnitude file is written by
  \<^verbatim>\<open>fprintf( pDataFiles[3] , "MIN %g MAX %g\n" , 0 , fMagMax )\<close>, which passes the \<^verbatim>\<open>int\<close>
  constant \<^verbatim>\<open>0\<close> where \<^verbatim>\<open>%g\<close> takes a \<^verbatim>\<open>double\<close>: the text of this line is not
  defined. The \<^verbatim>\<open>Vorton\<close> exporter has the same call.
\<close>

theorem magnitude_footer_mismatch:
  "fst (GenerateBrickOfBytes_Vec3 False vorticityGrid ''vort'' 0 fs0) = Inr () \<and>
   GetGridCapacity vorticityGrid = 8 \<and>
   files (snd (GenerateBrickOfBytes_Vec3 False vorticityGrid ''vort'' 0 fs0))
     ''Vols/vortX00000-2x2x2.dat''
     = Some (map Byte [0, 255, 255, 255, 255, 255, 255, 255]
             @ [Printf ''MIN %g MAX %g\<newline>'' [ArgDouble (Finite 0), ArgDouble (Finite 2)]]) \<and>
   footerText (snd (GenerateBrickOfBytes_Vec3 False vorticityGrid ''vort'' 0 fs0))
     ''Vols/vortX00000-2x2x2.dat'' = Some (Inr ''MIN 0 MAX 2\<newline>'') \<and>
   files (snd (GenerateBrickOfBytes_Vec3 False vorticityGrid ''vort'' 0 fs0))
     ''Vols/vortM00000-2x2x2.dat''
     = Some (map Byte [0, 255, 255, 255, 255, 255, 255, 255]
             @ [Printf ''MIN %g MAX %g\<newline>'' [ArgInt 0, ArgDouble (Finite 2)]]) \<and>
   footerText (snd (GenerateBrickOfBytes_Vec3 False vorticityGrid ''vort'' 0 fs0))
     ''Vols/vortM00000-2x2x2.dat'' = Some (Inl ArgTypeMismatch) \<and>
   footerText (snd (GenerateBrickOfBytes_Vorton False (vortonGrid (vec 0 0 0)) ''vort'' 0 fs0))
     ''Vols/vortM00000-2x2x2.dat'' = Some (Inl ArgTypeMismatch)"
proof -
  have c: "GetGridCapacity vorticityGrid = 8"
    by (simp add: GetGridCapacity_def GetNumPoints_def vorticityGrid_def)
  have r: "replicate 7 (255 :: 8 word) = [255, 255, 255, 255, 255, 255, 255]"
    by (simp add: eval_nat_numeral)
  show ?thesis
    unfolding export_vorticityGrid export_vortonGrid
    by (simp add: c r footerText_def brick_def emit_Inr emit_def)
qed

section \<open>Files that cannot be opened\<close>

text \<open>
  C9. The claim has every output file that cannot be opened detected on the spot: the
  export asserts and returns, with nothing written. The scalar exporter does so for its
  script file. The \<^verbatim>\<open>Vec3\<close> and the \<^verbatim>\<open>Vorton\<close> exporter do not test the pointer of the
  script file: when it cannot be opened they pass the null pointer to \<^verbatim>\<open>fprintf\<close>. And a
  data file that cannot be opened is detected only after the two lines of the script
  file have been written: the scalar exporter then asserts and leaves the script file
  with these lines.
\<close>

theorem open_failure_handling:
  "GenerateBrickOfBytes_float True grid444 ''test'' 0 (fsWithout ''test.ogle'')
     = (Inl AssertionFailed, fsWithout ''test.ogle'') \<and>
   GenerateBrickOfBytes_Vec3 False vorticityGrid ''vort'' 0 (fsWithout ''vort.ogle'')
     = (Inl NullFileWrite, fsWithout ''vort.ogle'') \<and>
   GenerateBrickOfBytes_Vorton False (vortonGrid (vec 0 0 0)) ''vort'' 0 (fsWithout ''vort.ogle'')
     = (Inl NullFileWrite, fsWithout ''vort.ogle'') \<and>
   GenerateBrickOfBytes_float True grid444 ''test'' 0 (fsWithout ''Vols/test00000-4x4x4.dat'')
     = (Inl AssertionFailed, (fsWithout ''Vols/test00000-4x4x4.dat'') \<lparr> files :=
          [''test.ogle'' \<mapsto>
             [Printf ''# %s ranges: %9.7g to %9.7g\<newline>''
                [ArgString ''test'', ArgDouble (Finite (- 63)), ArgDouble (Finite 63)],
              Printf ''%ux%ux%u %s\<newline>''
                [ArgUnsigned 4, ArgUnsigned 4, ArgUnsigned 4,
                 ArgString ''Vols/test00000-4x4x4.dat'']]] \<rparr>)"
proof -
  have r: "range_float True (ComputeStatistics_float grid444 (FLT_MAX, fneg FLT_MAX))
             = (Finite (- 63), Finite 63)"
    by (simp add: ComputeStatistics_grid444 range_float_def MAX2_NegZero)
  have w: "writable (fsWithout ''Vols/test00000-4x4x4.dat'') ''test.ogle''"
    "\<not> writable (fsWithout ''Vols/test00000-4x4x4.dat'') ''Vols/test00000-4x4x4.dat''"
    by (simp_all add: fsWithout_def)
  have g: "GetNumPoints grid444 0 = 4" "GetNumPoints grid444 1 = 4" "GetNumPoints grid444 2 = 4"
    by (simp_all add: GetNumPoints_def grid444_def)
  have f: "files (fsWithout ''Vols/test00000-4x4x4.dat'') = Map.empty"
    by (simp add: fsWithout_def)
  have 4: "GenerateBrickOfBytes_float True grid444 ''test'' 0 (fsWithout ''Vols/test00000-4x4x4.dat'')
     = (Inl AssertionFailed, (fsWithout ''Vols/test00000-4x4x4.dat'') \<lparr> files :=
          [''test.ogle'' \<mapsto>
             [Printf ''# %s ranges: %9.7g to %9.7g\<newline>''
                [ArgString ''test'', ArgDouble (Finite (- 63)), ArgDouble (Finite 63)],
              Printf ''%ux%ux%u %s\<newline>''
                [ArgUnsigned 4, ArgUnsigned 4, ArgUnsigned 4,
                 ArgString ''Vols/test00000-4x4x4.dat'']]] \<rparr>)"
    unfolding GenerateBrickOfBytes_float_no_data [OF r names_444 w] g f
    by simp
  show ?thesis
    using export_no_script(3) [of True] export_no_script(1) [of False]
      export_no_script(2) [of False] 4
    by (intro conjI)
qed

section \<open>The export of a grid of vortons\<close>



end
